theory Spec2Isabelle
  imports Complex_Main "HOL-Library.Word" "HOL-Library.Log_Nat"
begin

section \<open>HabitFlow: the client's data-access handlers over a model of the backend\<close>

text \<open>
  The development embeds the handlers of the HabitFlow screens (habits, habit form,
  challenges, challenge form, mood journal, proof centre, templates, goal breakdown,
  dashboard, analytics) as state-passing functions. A handler takes the signed-in user
  (\<open>None\<close> when nobody is signed in), the component's view state and the world, and returns
  the view state and the world, updated. The world holds the backend's tables and storage
  bucket, the log of the requests sent, the notifications and console lines raised, and the
  clock.

  The backend is outside the repository; its tables, constraints, row-level-security
  policies and storage bucket are those of the repository's migration, and each request is
  given the meaning that PostgreSQL, its REST layer and the object storage give it. A
  request may also fail for a reason of the backend's own, which the world's list of pending
  faults decides. The handlers are asynchronous in the source; here a handler runs to its
  end, its requests in the order of the source, before the next one starts.
\<close>

subsection \<open>Strings\<close>

text \<open>
  A JavaScript string is a sequence of UTF-16 code units. Literals of the source that are
  plain ASCII are written with \<open>js\<close>; the emoji of the source are given by their code units.
\<close>

type_synonym jsstring = "16 word list"

definition js :: "string \<Rightarrow> jsstring" where
  "js s = map (\<lambda>c. of_nat (of_char c)) s"

definition js_whitespace :: "16 word \<Rightarrow> bool" where
  \<comment> \<open>WhiteSpace and LineTerminator of ECMAScript, the code units \<open>String.prototype.trim\<close> strips\<close>
  "js_whitespace c \<longleftrightarrow>
     c = 0x9 \<or> c = 0xA \<or> c = 0xB \<or> c = 0xC \<or> c = 0xD \<or> c = 0x20 \<or> c = 0xA0 \<or>
     c = 0x1680 \<or> (0x2000 \<le> c \<and> c \<le> 0x200A) \<or> c = 0x2028 \<or> c = 0x2029 \<or>
     c = 0x202F \<or> c = 0x205F \<or> c = 0x3000 \<or> c = 0xFEFF"

definition trim :: "jsstring \<Rightarrow> jsstring" where
  "trim s = rev (dropWhile js_whitespace (rev (dropWhile js_whitespace s)))"

subsection \<open>Identifiers, time, notifications\<close>

text \<open>
  Row and user identifiers are uuids in the source; the handlers only compare them for
  equality, and the backend generates fresh ones, so they are natural numbers here.
  An instant is a number of milliseconds since the epoch, as \<open>Date\<close> has it.
\<close>

type_synonym uuid = nat
type_synonym instant = int

datatype toast = ToastSuccess jsstring | ToastError jsstring

datatype frequency = Daily | Weekly
datatype difficulty = Easy | Medium | Hard

subsection \<open>The backend tables\<close>

text \<open>
  The tables of the migration \<open>floral_dust.sql\<close> that the handlers touch. \<open>frequency\<close> and
  \<open>difficulty\<close> are text columns with a CHECK constraint over the values that the client's
  types allow, so they are datatypes.
\<close>

record habit_row =
  h_id :: uuid
  h_user_id :: uuid
  h_title :: jsstring
  h_description :: "jsstring option"
  h_category :: jsstring
  h_frequency :: frequency
  h_target_count :: int
  h_difficulty :: difficulty
  h_is_active :: bool
  h_created_at :: instant
  h_updated_at :: instant
  h_icon :: jsstring
  h_color :: jsstring

record completion_row =
  c_id :: uuid
  c_habit_id :: uuid
  c_user_id :: uuid
  c_completed_at :: instant
  c_proof_image_url :: "jsstring option"
  c_notes :: "jsstring option"
  c_mood_rating :: "int option"

record challenge_row =
  ch_id :: uuid
  ch_title :: jsstring
  ch_description :: jsstring
  ch_creator_id :: uuid
  ch_start_date :: int
  ch_end_date :: int
  ch_is_active :: bool
  ch_max_participants :: "int option"
  ch_created_at :: instant

record participant_row =
  p_id :: uuid
  p_challenge_id :: uuid
  p_user_id :: uuid
  p_joined_at :: instant

record mood_row =
  m_id :: uuid
  m_user_id :: uuid
  m_mood_rating :: int
  m_reflection :: "jsstring option"
  m_created_at :: instant

text \<open>
  An object of the storage bucket \<open>habit-proofs\<close>. The only names that the client gives are
  of the form \<open>folder/stamp.ext\<close>, a user id, a number of milliseconds and the extension of
  the file picked, so an object's name is kept as these three parts.
\<close>

record stored_object =
  o_folder :: uuid
  o_stamp :: instant
  o_ext :: jsstring
  o_bytes :: "8 word list"

record database =
  habits :: "habit_row list"
  habit_completions :: "completion_row list"
  challenges :: "challenge_row list"
  challenge_participants :: "participant_row list"
  mood_entries :: "mood_row list"
  habit_proofs :: "stored_object list"
  next_uuid :: uuid

text \<open>The payload of an insert or update on \<open>habits\<close> (\<open>habitData\<close>, \<open>habitsToCreate\<close>).\<close>

record habit_data =
  hd_user_id :: uuid
  hd_title :: jsstring
  hd_description :: "jsstring option"
  hd_category :: jsstring
  hd_frequency :: frequency
  hd_target_count :: int
  hd_difficulty :: difficulty
  hd_icon :: jsstring
  hd_color :: jsstring

text \<open>The payload of an insert on \<open>challenges\<close> (\<open>challengeData\<close>).\<close>

record challenge_data =
  cd_title :: jsstring
  cd_description :: jsstring
  cd_creator_id :: uuid
  cd_start_date :: int
  cd_end_date :: int
  cd_max_participants :: "int option"
  cd_is_active :: bool

datatype pg_error =
    BackendFailure jsstring
  | RlsViolation
  | ForeignKeyViolation
  | UniqueViolation
  | CheckViolation
  | NotSingleRow
  | NoRelationship
  | ObjectExists

fun message :: "pg_error \<Rightarrow> jsstring" where
  \<comment> \<open>\<open>error.message\<close>; the texts for the constraints stand for the backend's wording\<close>
  "message (BackendFailure m) = m"
| "message RlsViolation = js ''new row violates row-level security policy''"
| "message ForeignKeyViolation = js ''insert or update on table violates foreign key constraint''"
| "message UniqueViolation = js ''duplicate key value violates unique constraint''"
| "message CheckViolation = js ''new row violates check constraint''"
| "message NotSingleRow = js ''JSON object requested, multiple (or no) rows returned''"
| "message NoRelationship =
     js ''Could not find a relationship between '' @ [0x27] @ js ''challenges'' @ [0x27] @
     js '' and '' @ [0x27] @ js ''profiles'' @ [0x27] @ js '' in the schema cache''"
| "message ObjectExists = js ''The resource already exists''"

subsection \<open>Time\<close>

text \<open>
  The client formats \<open>new Date()\<close> with \<open>yyyy-MM-dd\<close> in its local zone; the date string is
  represented by the number of the local day. The backend reads a timestamp written without
  a zone in its session time zone. Both zones are fixed offsets in milliseconds.
\<close>

definition ms_per_day :: int where
  "ms_per_day = 86400000"

definition local_day :: "int \<Rightarrow> instant \<Rightarrow> int" where
  "local_day tz t = (t + tz) div ms_per_day"

definition pg_timestamp :: "int \<Rightarrow> int \<Rightarrow> int \<Rightarrow> instant" where
  \<comment> \<open>the instant that a date with a time of day, \<open>secs\<close> seconds into the day, denotes in zone \<open>tz\<close>\<close>
  "pg_timestamp tz day secs = day * ms_per_day + secs * 1000 - tz"

subsection \<open>Requests and the world\<close>

text \<open>
  A timestamp that the client writes without a zone (the day's date followed by \<open>T00:00:00\<close>) is the pair of
  the day and the seconds into the day. Each query of the source is one request; the world
  logs every request sent. \<open>faults\<close> holds, for the requests to come, whether the backend
  fails for a reason of its own (network, outage); a handler run happens at the instant
  \<open>clock\<close>, which the client's \<open>new Date()\<close> and the backend's \<open>now()\<close> both read.

  A fault stands for a request that does not reach the backend or that the backend turns
  away: the operation is not run. A write that the backend carries out and whose answer is
  lost on the way back has no counterpart here, so nothing below is claimed about the tables
  after a failed request.
\<close>

type_synonym zoneless = "int \<times> int"

datatype request =
    SelectHabitsWithCompletions uuid
  | InsertHabitCompletion uuid uuid instant
  | UpdateHabitInactive uuid
  | UpdateHabit uuid habit_data
  | InsertHabits "habit_data list"
  | SelectParticipations uuid
  | InsertParticipant uuid uuid
  | DeleteParticipant uuid uuid
  | SelectMoodEntries uuid
  | SelectMoodBetween uuid zoneless zoneless
  | SelectMoodBetweenSingle uuid zoneless zoneless
  | UpdateMood uuid int "jsstring option"
  | InsertMood uuid int "jsstring option"
  | SelectActiveHabits uuid
  | SelectCompletionsBetween uuid zoneless zoneless
  | SelectRecentHabits uuid
  | SelectCompletionsSince uuid zoneless
  | SelectChallengesWithProfiles
  | InsertChallenge challenge_data
  | SelectProofEntries uuid
  | UploadProof uuid instant jsstring "8 word list"

record world =
  db :: database
  faults :: "pg_error option list"
  calls :: "request list"
  toasts :: "toast list"
  console :: "(jsstring \<times> pg_error) list"
  clock :: instant
  client_tz :: int
  server_tz :: int

definition next_fault :: "world \<Rightarrow> pg_error option" where
  "next_fault w = (case faults w of [] \<Rightarrow> None | f # _ \<Rightarrow> f)"

definition outcome :: "(database \<Rightarrow> pg_error + 'a \<times> database) \<Rightarrow> world \<Rightarrow> pg_error + 'a \<times> database" where
  \<comment> \<open>what the next request gets: the pending fault, or the operation's result on the tables\<close>
  "outcome f w = (case next_fault w of Some e \<Rightarrow> Inl e | None \<Rightarrow> f (db w))"

definition logged :: "request \<Rightarrow> world \<Rightarrow> world" where
  \<comment> \<open>the request is on the log and its fault, if any, is used up\<close>
  "logged r w = w\<lparr> calls := calls w @ [r], faults := tl (faults w) \<rparr>"

definition call :: "request \<Rightarrow> (database \<Rightarrow> pg_error + 'a \<times> database) \<Rightarrow> world \<Rightarrow> (pg_error + 'a) \<times> world" where
  \<comment> \<open>send one request: it is logged, and a successful one leaves its changes in the tables\<close>
  "call r f w =
     (case outcome f w of
        Inl e \<Rightarrow> (Inl e, logged r w)
      | Inr (a, d) \<Rightarrow> (Inr a, (logged r w)\<lparr> db := d \<rparr>))"

definition fault_at :: "nat \<Rightarrow> world \<Rightarrow> pg_error option" where
  \<comment> \<open>the fault that awaits the request sent after \<open>n\<close> others\<close>
  "fault_at n w = next_fault (w\<lparr> faults := drop n (faults w) \<rparr>)"

definition toast_success :: "jsstring \<Rightarrow> world \<Rightarrow> world" where
  "toast_success m w = w\<lparr> toasts := toasts w @ [ToastSuccess m] \<rparr>"

definition toast_error :: "jsstring \<Rightarrow> world \<Rightarrow> world" where
  "toast_error m w = w\<lparr> toasts := toasts w @ [ToastError m] \<rparr>"

definition console_error :: "jsstring \<Rightarrow> pg_error \<Rightarrow> world \<Rightarrow> world" where
  "console_error m e w = w\<lparr> console := console w @ [(m, e)] \<rparr>"

subsection \<open>The backend's operations\<close>

text \<open>
  Each operation runs as the signed-in user \<open>auth\<close> (\<open>auth.uid()\<close>) and applies the
  row-level-security policy of its table and the constraints of the migration.
\<close>

definition order_desc :: "('a \<Rightarrow> int) \<Rightarrow> 'a list \<Rightarrow> 'a list" where
  \<comment> \<open>\<open>.order(col, { ascending: false })\<close>\<close>
  "order_desc key xs = sort_key (\<lambda>x. - key x) xs"

record completion_embed =
  ce_completed_at :: instant
  ce_mood_rating :: "int option"

text \<open>
  A habit as \<open>fetchHabits\<close> receives it: the columns, the embedded \<open>habit_completions\<close>, and
  the optional field \<open>completions\<close> of the interface \<open>Habit\<close>, which no query fills.
\<close>

record Habit =
  hb_row :: habit_row
  hb_habit_completions :: "completion_embed list"
  completions :: "completion_embed list option"

definition embed_completions :: "uuid \<Rightarrow> database \<Rightarrow> uuid \<Rightarrow> completion_embed list" where
  "embed_completions auth d hid =
     map (\<lambda>c. \<lparr> ce_completed_at = c_completed_at c, ce_mood_rating = c_mood_rating c \<rparr>)
       (filter (\<lambda>c. c_habit_id c = hid \<and> c_user_id c = auth) (habit_completions d))"

definition visible_habits :: "uuid \<Rightarrow> uuid \<Rightarrow> database \<Rightarrow> habit_row list" where
  \<comment> \<open>policy: \<open>auth.uid() = user_id\<close>; filters: \<open>user_id = uid\<close>, \<open>is_active = true\<close>\<close>
  "visible_habits auth uid d =
     filter (\<lambda>h. h_user_id h = auth \<and> h_user_id h = uid \<and> h_is_active h) (habits d)"

definition select_habits_with_completions :: "uuid \<Rightarrow> uuid \<Rightarrow> database \<Rightarrow> Habit list" where
  "select_habits_with_completions auth uid d =
     map (\<lambda>h. \<lparr> hb_row = h, hb_habit_completions = embed_completions auth d (h_id h),
                completions = None \<rparr>)
       (order_desc h_created_at (visible_habits auth uid d))"

definition new_habit :: "instant \<Rightarrow> uuid \<Rightarrow> habit_data \<Rightarrow> habit_row" where
  "new_habit now i r =
     \<lparr> h_id = i, h_user_id = hd_user_id r, h_title = hd_title r,
       h_description = hd_description r, h_category = hd_category r,
       h_frequency = hd_frequency r, h_target_count = hd_target_count r,
       h_difficulty = hd_difficulty r, h_is_active = True, h_created_at = now,
       h_updated_at = now, h_icon = hd_icon r, h_color = hd_color r \<rparr>"

definition insert_habits :: "uuid \<Rightarrow> instant \<Rightarrow> habit_data list \<Rightarrow> database \<Rightarrow> pg_error + unit \<times> database" where
  \<comment> \<open>one statement: every row passes the policy, or none is stored\<close>
  "insert_habits auth now rows d =
     (if list_all (\<lambda>r. hd_user_id r = auth) rows then
        Inr ((), d\<lparr> habits := habits d @
                     map (\<lambda>(i, r). new_habit now i r)
                       (zip [next_uuid d ..< next_uuid d + length rows] rows),
                   next_uuid := next_uuid d + length rows \<rparr>)
      else Inl RlsViolation)"

definition apply_habit_data :: "instant \<Rightarrow> habit_data \<Rightarrow> habit_row \<Rightarrow> habit_row" where
  \<comment> \<open>the update's SET list; the trigger \<open>update_habits_updated_at\<close> stamps the row\<close>
  "apply_habit_data now r h =
     h\<lparr> h_user_id := hd_user_id r, h_title := hd_title r, h_description := hd_description r,
        h_category := hd_category r, h_frequency := hd_frequency r,
        h_target_count := hd_target_count r, h_difficulty := hd_difficulty r,
        h_icon := hd_icon r, h_color := hd_color r, h_updated_at := now \<rparr>"

definition update_habit :: "uuid \<Rightarrow> instant \<Rightarrow> uuid \<Rightarrow> habit_data \<Rightarrow> database \<Rightarrow> pg_error + unit \<times> database" where
  "update_habit auth now hid r d =
     (if list_ex (\<lambda>h. h_id h = hid \<and> h_user_id h = auth) (habits d) \<and> hd_user_id r \<noteq> auth
      then Inl RlsViolation
      else Inr ((), d\<lparr> habits := map (\<lambda>h. if h_id h = hid \<and> h_user_id h = auth
                                             then apply_habit_data now r h else h) (habits d) \<rparr>))"

definition update_habit_inactive :: "uuid \<Rightarrow> instant \<Rightarrow> uuid \<Rightarrow> database \<Rightarrow> pg_error + unit \<times> database" where
  "update_habit_inactive auth now hid d =
     Inr ((), d\<lparr> habits := map (\<lambda>h. if h_id h = hid \<and> h_user_id h = auth
                                       then h\<lparr> h_is_active := False, h_updated_at := now \<rparr>
                                       else h) (habits d) \<rparr>)"

definition insert_habit_completion :: "uuid \<Rightarrow> uuid \<Rightarrow> uuid \<Rightarrow> instant \<Rightarrow> database \<Rightarrow> pg_error + unit \<times> database" where
  "insert_habit_completion auth hid uid t d =
     (if uid \<noteq> auth then Inl RlsViolation
      else if \<not> list_ex (\<lambda>h. h_id h = hid) (habits d) then Inl ForeignKeyViolation
      else Inr ((), d\<lparr> habit_completions := habit_completions d @
                          [\<lparr> c_id = next_uuid d, c_habit_id = hid, c_user_id = uid,
                             c_completed_at = t, c_proof_image_url = None, c_notes = None,
                             c_mood_rating = None \<rparr>],
                        next_uuid := Suc (next_uuid d) \<rparr>))"

definition select_participations :: "uuid \<Rightarrow> database \<Rightarrow> uuid list" where
  \<comment> \<open>policy: any authenticated user reads every row; filter: \<open>user_id = uid\<close>\<close>
  "select_participations uid d =
     map p_challenge_id (filter (\<lambda>p. p_user_id p = uid) (challenge_participants d))"

definition insert_participant :: "uuid \<Rightarrow> instant \<Rightarrow> uuid \<Rightarrow> uuid \<Rightarrow> database \<Rightarrow> pg_error + unit \<times> database" where
  \<comment> \<open>policy \<open>auth.uid() = user_id\<close>, then \<open>UNIQUE(challenge_id, user_id)\<close>, then the foreign key\<close>
  "insert_participant auth now cid uid d =
     (if uid \<noteq> auth then Inl RlsViolation
      else if list_ex (\<lambda>p. p_challenge_id p = cid \<and> p_user_id p = uid) (challenge_participants d)
        then Inl UniqueViolation
      else if \<not> list_ex (\<lambda>c. ch_id c = cid) (challenges d) then Inl ForeignKeyViolation
      else Inr ((), d\<lparr> challenge_participants := challenge_participants d @
                          [\<lparr> p_id = next_uuid d, p_challenge_id = cid, p_user_id = uid,
                             p_joined_at = now \<rparr>],
                        next_uuid := Suc (next_uuid d) \<rparr>))"

definition delete_participant :: "uuid \<Rightarrow> uuid \<Rightarrow> uuid \<Rightarrow> database \<Rightarrow> pg_error + unit \<times> database" where
  \<comment> \<open>policy \<open>auth.uid() = user_id\<close>; filters \<open>challenge_id = cid\<close>, \<open>user_id = uid\<close>\<close>
  "delete_participant auth cid uid d =
     Inr ((), d\<lparr> challenge_participants :=
                  filter (\<lambda>p. \<not> (p_user_id p = auth \<and> p_challenge_id p = cid \<and> p_user_id p = uid))
                    (challenge_participants d) \<rparr>)"

definition select_mood_entries :: "uuid \<Rightarrow> uuid \<Rightarrow> database \<Rightarrow> mood_row list" where
  "select_mood_entries auth uid d =
     take 30 (order_desc m_created_at
       (filter (\<lambda>m. m_user_id m = auth \<and> m_user_id m = uid) (mood_entries d)))"

definition zoneless_instant :: "int \<Rightarrow> zoneless \<Rightarrow> instant" where
  "zoneless_instant tz z = pg_timestamp tz (fst z) (snd z)"

definition select_mood_between :: "uuid \<Rightarrow> int \<Rightarrow> uuid \<Rightarrow> zoneless \<Rightarrow> zoneless \<Rightarrow> database \<Rightarrow> mood_row list" where
  \<comment> \<open>\<open>.gte('created_at', lo).lt('created_at', hi)\<close>\<close>
  "select_mood_between auth stz uid lo hi d =
     filter (\<lambda>m. m_user_id m = auth \<and> m_user_id m = uid \<and>
                 zoneless_instant stz lo \<le> m_created_at m \<and> m_created_at m < zoneless_instant stz hi)
       (mood_entries d)"

definition single :: "'a list \<Rightarrow> pg_error + 'a" where
  \<comment> \<open>\<open>.single()\<close>: exactly one row, or an error and no data\<close>
  "single rows = (case rows of [r] \<Rightarrow> Inr r | _ \<Rightarrow> Inl NotSingleRow)"

definition mood_rating_ok :: "int \<Rightarrow> bool" where
  "mood_rating_ok r \<longleftrightarrow> 1 \<le> r \<and> r \<le> 5"

definition update_mood :: "uuid \<Rightarrow> uuid \<Rightarrow> int \<Rightarrow> jsstring option \<Rightarrow> database \<Rightarrow> pg_error + unit \<times> database" where
  "update_mood auth mid rating rfl d =
     (if list_ex (\<lambda>m. m_id m = mid \<and> m_user_id m = auth) (mood_entries d) \<and> \<not> mood_rating_ok rating
      then Inl CheckViolation
      else Inr ((), d\<lparr> mood_entries :=
                        map (\<lambda>m. if m_id m = mid \<and> m_user_id m = auth
                                  then m\<lparr> m_mood_rating := rating, m_reflection := rfl \<rparr> else m)
                          (mood_entries d) \<rparr>))"

definition insert_mood :: "uuid \<Rightarrow> instant \<Rightarrow> uuid \<Rightarrow> int \<Rightarrow> jsstring option \<Rightarrow> database \<Rightarrow> pg_error + unit \<times> database" where
  "insert_mood auth now uid rating rfl d =
     (if uid \<noteq> auth then Inl RlsViolation
      else if \<not> mood_rating_ok rating then Inl CheckViolation
      else Inr ((), d\<lparr> mood_entries := mood_entries d @
                          [\<lparr> m_id = next_uuid d, m_user_id = uid, m_mood_rating = rating,
                             m_reflection = rfl, m_created_at = now \<rparr>],
                        next_uuid := Suc (next_uuid d) \<rparr>))"

text \<open>
  The screen of the challenges asks for the active challenges with the embedded resource
  \<open>profiles (username, full_name)\<close>. The REST layer embeds a table only along a foreign key,
  and the migrations give \<open>challenges\<close> none to \<open>profiles\<close> (\<open>creator_id\<close> refers to
  \<open>auth.users\<close>), so the request is turned away whatever the tables hold.
\<close>

definition select_challenges_with_profiles :: "database \<Rightarrow> pg_error + challenge_row list \<times> database" where
  "select_challenges_with_profiles d = Inl NoRelationship"

definition insert_challenge :: "uuid \<Rightarrow> instant \<Rightarrow> challenge_data \<Rightarrow> database \<Rightarrow> pg_error + unit \<times> database" where
  \<comment> \<open>policy: \<open>auth.uid() = creator_id\<close>\<close>
  "insert_challenge auth now r d =
     (if cd_creator_id r \<noteq> auth then Inl RlsViolation
      else Inr ((), d\<lparr> challenges := challenges d @
                          [\<lparr> ch_id = next_uuid d, ch_title = cd_title r,
                             ch_description = cd_description r, ch_creator_id = cd_creator_id r,
                             ch_start_date = cd_start_date r, ch_end_date = cd_end_date r,
                             ch_is_active = cd_is_active r,
                             ch_max_participants = cd_max_participants r, ch_created_at = now \<rparr>],
                        next_uuid := Suc (next_uuid d) \<rparr>))"

text \<open>
  A completion as the proof centre receives it: the columns and the embedded habit
  (\<open>habits (title, icon, color)\<close>), which is null when the policy of \<open>habits\<close> hides the row.
\<close>

record habit_embed =
  he_title :: jsstring
  he_icon :: jsstring
  he_color :: jsstring

record ProofEntry =
  pe_row :: completion_row
  pe_habits :: "habit_embed option"

definition select_proof_entries :: "uuid \<Rightarrow> uuid \<Rightarrow> database \<Rightarrow> ProofEntry list" where
  \<comment> \<open>filters: \<open>user_id = uid\<close>, \<open>proof_image_url\<close> is not null; newest completion first\<close>
  "select_proof_entries auth uid d =
     map (\<lambda>c. \<lparr> pe_row = c,
                pe_habits =
                  map_option (\<lambda>h. \<lparr> he_title = h_title h, he_icon = h_icon h, he_color = h_color h \<rparr>)
                    (find (\<lambda>h. h_id h = c_habit_id c \<and> h_user_id h = auth) (habits d)) \<rparr>)
       (order_desc c_completed_at
          (filter (\<lambda>c. c_user_id c = auth \<and> c_user_id c = uid \<and> c_proof_image_url c \<noteq> None)
             (habit_completions d)))"

definition upload_proof :: "uuid \<Rightarrow> uuid \<Rightarrow> instant \<Rightarrow> jsstring \<Rightarrow> 8 word list \<Rightarrow> database \<Rightarrow> pg_error + unit \<times> database" where
  \<comment> \<open>policy: the first folder of the name is \<open>auth.uid()\<close>; an upload does not overwrite\<close>
  "upload_proof auth folder stamp ext bytes d =
     (if folder \<noteq> auth then Inl RlsViolation
      else if list_ex (\<lambda>ob. o_folder ob = folder \<and> o_stamp ob = stamp \<and> o_ext ob = ext) (habit_proofs d)
        then Inl ObjectExists
      else Inr ((), d\<lparr> habit_proofs := habit_proofs d @
                          [\<lparr> o_folder = folder, o_stamp = stamp, o_ext = ext, o_bytes = bytes \<rparr>] \<rparr>))"

subsection \<open>Habits screen\<close>

record HabitsManager =
  hm_habits :: "Habit list"
  hm_loading :: bool
  showCreateModal :: bool
  selectedHabit :: "Habit option"

definition party :: jsstring where
  \<comment> \<open>the party-popper emoji that ends several notifications\<close>
  "party = [0xD83C, 0xDF89]"

definition fetchHabits :: "uuid option \<Rightarrow> HabitsManager \<Rightarrow> world \<Rightarrow> HabitsManager \<times> world" where
  "fetchHabits user v w =
     (case user of
        None \<Rightarrow> (v, w)
      | Some uid \<Rightarrow>
          (case call (SelectHabitsWithCompletions uid)
                  (\<lambda>d. Inr (select_habits_with_completions uid uid d, d)) w of
             (Inr data, w1) \<Rightarrow> (v\<lparr> hm_habits := data, hm_loading := False \<rparr>, w1)
           | (Inl e, w1) \<Rightarrow>
               (v\<lparr> hm_loading := False \<rparr>,
                toast_error (js ''Error fetching habits: '' @ message e) w1)))"

definition completeHabit :: "uuid option \<Rightarrow> uuid \<Rightarrow> HabitsManager \<Rightarrow> world \<Rightarrow> HabitsManager \<times> world" where
  "completeHabit user habitId v w =
     (case user of
        None \<Rightarrow> (v, w)
      | Some uid \<Rightarrow>
          (case call (InsertHabitCompletion habitId uid (clock w))
                  (insert_habit_completion uid habitId uid (clock w)) w of
             (Inr _, w1) \<Rightarrow> fetchHabits user v (toast_success (js ''Habit completed! '' @ party) w1)
           | (Inl e, w1) \<Rightarrow>
               (v, toast_error (js ''Error completing habit: '' @ message e) w1)))"

definition deleteHabit :: "uuid option \<Rightarrow> uuid \<Rightarrow> HabitsManager \<Rightarrow> world \<Rightarrow> HabitsManager \<times> world" where
  "deleteHabit user habitId v w =
     (case user of
        None \<Rightarrow> (v, w)
      | Some uid \<Rightarrow>
          (case call (UpdateHabitInactive habitId)
                  (update_habit_inactive uid (clock w) habitId) w of
             (Inr _, w1) \<Rightarrow> fetchHabits user v (toast_success (js ''Habit deleted successfully'') w1)
           | (Inl e, w1) \<Rightarrow>
               (v, toast_error (js ''Error deleting habit: '' @ message e) w1)))"

definition isCompletedToday :: "int \<Rightarrow> instant \<Rightarrow> Habit \<Rightarrow> bool" where
  \<comment> \<open>\<open>toDateString\<close> of two dates agree exactly when they fall on the same local day\<close>
  "isCompletedToday tz now habit =
     (case completions habit of
        None \<Rightarrow> False
      | Some cs \<Rightarrow> list_ex (\<lambda>completion. local_day tz (ce_completed_at completion) = local_day tz now) cs)"

subsection \<open>Habit form\<close>

record formData =
  fd_title :: jsstring
  fd_description :: jsstring
  fd_category :: jsstring
  fd_frequency :: frequency
  fd_targetCount :: int
  fd_difficulty :: difficulty
  fd_icon :: jsstring
  fd_color :: jsstring

record CreateHabitModal =
  cm_loading :: bool
  cm_formData :: formData

definition target_icon :: jsstring where
  "target_icon = [0xD83C, 0xDFAF]"

definition initial_formData :: formData where
  "initial_formData =
     \<lparr> fd_title = [], fd_description = [], fd_category = js ''Health'', fd_frequency = Daily,
       fd_targetCount = 1, fd_difficulty = Medium, fd_icon = target_icon,
       fd_color = js ''bg-purple-500'' \<rparr>"

definition or_null :: "jsstring \<Rightarrow> jsstring option" where
  \<comment> \<open>\<open>s || null\<close>: the empty string is falsy\<close>
  "or_null s = (if s = [] then None else Some s)"

definition habitData :: "uuid \<Rightarrow> formData \<Rightarrow> habit_data" where
  "habitData uid f =
     \<lparr> hd_user_id = uid, hd_title = fd_title f, hd_description = or_null (fd_description f),
       hd_category = fd_category f, hd_frequency = fd_frequency f,
       hd_target_count = fd_targetCount f, hd_difficulty = fd_difficulty f,
       hd_icon = fd_icon f, hd_color = fd_color f \<rparr>"

text \<open>
  The form is mounted by the habits screen with \<open>onSuccess = fetchHabits\<close>,
  \<open>onClose = () => setShowCreateModal(false)\<close> and \<open>editHabit = selectedHabit\<close>, so its
  submit handler runs on both view states.
\<close>

definition handleSubmit :: "uuid option \<Rightarrow> CreateHabitModal \<times> HabitsManager \<Rightarrow> world \<Rightarrow> (CreateHabitModal \<times> HabitsManager) \<times> world" where
  "handleSubmit user mv w =
     (case user of
        None \<Rightarrow> (mv, w)
      | Some uid \<Rightarrow>
          (let (m, v) = mv;
               hdata = habitData uid (cm_formData m);
               (res, w1) =
                 (case selectedHabit v of
                    Some editHabit \<Rightarrow>
                      (case call (UpdateHabit (h_id (hb_row editHabit)) hdata)
                              (update_habit uid (clock w) (h_id (hb_row editHabit)) hdata) w of
                         (Inr _, w') \<Rightarrow> (Inr (), toast_success (js ''Habit updated successfully!'') w')
                       | (Inl e, w') \<Rightarrow> (Inl e, w'))
                  | None \<Rightarrow>
                      (case call (InsertHabits [hdata]) (insert_habits uid (clock w) [hdata]) w of
                         (Inr _, w') \<Rightarrow> (Inr (), toast_success (js ''Habit created successfully!'') w')
                       | (Inl e, w') \<Rightarrow> (Inl e, w')))
           in case res of
                Inr _ \<Rightarrow>
                  (let (v1, w2) = fetchHabits user v w1
                   in ((m\<lparr> cm_formData := initial_formData, cm_loading := False \<rparr>,
                        v1\<lparr> showCreateModal := False \<rparr>), w2))
              | Inl e \<Rightarrow>
                  ((m\<lparr> cm_loading := False \<rparr>, v),
                   toast_error (js ''Error saving habit: '' @ message e) w1)))"

subsection \<open>Challenges screen\<close>

datatype tab = Public | My

record Challenges =
  cv_challenges :: "challenge_row list"
  myParticipations :: "uuid list"
  cv_loading :: bool
  cv_showCreateModal :: bool
  activeTab :: tab

definition joined_toast :: jsstring where
  \<comment> \<open>the source file holds this literal with its emoji mis-decoded; these are its code units\<close>
  "joined_toast = js ''Joined challenge successfully! '' @ [0xF0, 0x178, 0x17D, 0x2030]"

definition fetchChallenges :: "uuid option \<Rightarrow> Challenges \<Rightarrow> world \<Rightarrow> Challenges \<times> world" where
  "fetchChallenges user v w =
     (case user of
        None \<Rightarrow> (v, w)
      | Some uid \<Rightarrow>
          (case call SelectChallengesWithProfiles select_challenges_with_profiles w of
             (Inr data, w1) \<Rightarrow> (v\<lparr> cv_challenges := data, cv_loading := False \<rparr>, w1)
           | (Inl e, w1) \<Rightarrow>
               (v\<lparr> cv_loading := False \<rparr>,
                toast_error (js ''Error fetching challenges: '' @ message e) w1)))"

definition fetchMyParticipations :: "uuid option \<Rightarrow> Challenges \<Rightarrow> world \<Rightarrow> Challenges \<times> world" where
  "fetchMyParticipations user v w =
     (case user of
        None \<Rightarrow> (v, w)
      | Some uid \<Rightarrow>
          (case call (SelectParticipations uid) (\<lambda>d. Inr (select_participations uid d, d)) w of
             (Inr data, w1) \<Rightarrow> (v\<lparr> myParticipations := data \<rparr>, w1)
           | (Inl e, w1) \<Rightarrow> (v, console_error (js ''Error fetching participations:'') e w1)))"

definition joinChallenge :: "uuid option \<Rightarrow> uuid \<Rightarrow> Challenges \<Rightarrow> world \<Rightarrow> Challenges \<times> world" where
  "joinChallenge user challengeId v w =
     (case user of
        None \<Rightarrow> (v, w)
      | Some uid \<Rightarrow>
          (case call (InsertParticipant challengeId uid)
                  (insert_participant uid (clock w) challengeId uid) w of
             (Inr _, w1) \<Rightarrow> fetchMyParticipations user v (toast_success joined_toast w1)
           | (Inl e, w1) \<Rightarrow>
               (v, toast_error (js ''Error joining challenge: '' @ message e) w1)))"

definition leaveChallenge :: "uuid option \<Rightarrow> uuid \<Rightarrow> Challenges \<Rightarrow> world \<Rightarrow> Challenges \<times> world" where
  "leaveChallenge user challengeId v w =
     (case user of
        None \<Rightarrow> (v, w)
      | Some uid \<Rightarrow>
          (case call (DeleteParticipant challengeId uid)
                  (delete_participant uid challengeId uid) w of
             (Inr _, w1) \<Rightarrow>
               fetchMyParticipations user v (toast_success (js ''Left challenge successfully'') w1)
           | (Inl e, w1) \<Rightarrow>
               (v, toast_error (js ''Error leaving challenge: '' @ message e) w1)))"

definition isParticipating :: "Challenges \<Rightarrow> uuid \<Rightarrow> bool" where
  "isParticipating v challengeId \<longleftrightarrow> challengeId \<in> set (myParticipations v)"

subsection \<open>Challenge form\<close>

text \<open>
  The form's title and description are required text inputs, its dates required date inputs
  and its limit an optional number input with the default step, so a submission carries two
  dates, kept as day numbers, and for the limit either the empty string or a whole number.
\<close>

record challenge_formData =
  cf_title :: jsstring
  cf_description :: jsstring
  cf_startDate :: int
  cf_endDate :: int
  cf_maxParticipants :: "int option"

record CreateChallengeModal =
  ccm_loading :: bool
  ccm_formData :: challenge_formData

definition initial_challenge_formData :: "int \<Rightarrow> challenge_formData" where
  \<comment> \<open>the form as it is reset on the local day \<open>today\<close>: today and \<open>addDays(today, 7)\<close>\<close>
  "initial_challenge_formData today =
     \<lparr> cf_title = [], cf_description = [], cf_startDate = today, cf_endDate = today + 7,
       cf_maxParticipants = None \<rparr>"

definition challengeData :: "uuid \<Rightarrow> challenge_formData \<Rightarrow> challenge_data" where
  "challengeData uid f =
     \<lparr> cd_title = cf_title f, cd_description = cf_description f, cd_creator_id = uid,
       cd_start_date = cf_startDate f, cd_end_date = cf_endDate f,
       cd_max_participants = cf_maxParticipants f, cd_is_active = True \<rparr>"

definition created_toast :: jsstring where
  \<comment> \<open>as \<open>joined_toast\<close>: the literal's emoji is mis-decoded in the source file\<close>
  "created_toast = js ''Challenge created successfully! '' @ [0xF0, 0x178, 0x17D, 0x2030]"

text \<open>
  The challenges screen mounts the form with \<open>onSuccess = fetchChallenges\<close> and
  \<open>onClose = () => setShowCreateModal(false)\<close>. The handler is \<open>handleSubmit\<close> of
  \<open>CreateChallengeModal.tsx\<close>.
\<close>

definition handleSubmit_challenge :: "uuid option \<Rightarrow> CreateChallengeModal \<times> Challenges \<Rightarrow> world \<Rightarrow> (CreateChallengeModal \<times> Challenges) \<times> world" where
  "handleSubmit_challenge user mv w =
     (case user of
        None \<Rightarrow> (mv, w)
      | Some uid \<Rightarrow>
          (let (m, v) = mv;
               cdata = challengeData uid (ccm_formData m)
           in case call (InsertChallenge cdata) (insert_challenge uid (clock w) cdata) w of
                (Inr _, w1) \<Rightarrow>
                  (let (v1, w2) = fetchChallenges user v (toast_success created_toast w1)
                   in ((m\<lparr> ccm_formData :=
                              initial_challenge_formData (local_day (client_tz w) (clock w)),
                            ccm_loading := False \<rparr>,
                        v1\<lparr> cv_showCreateModal := False \<rparr>), w2))
              | (Inl e, w1) \<Rightarrow>
                  ((m\<lparr> ccm_loading := False \<rparr>, v),
                   toast_error (js ''Error creating challenge: '' @ message e) w1)))"

subsection \<open>Proof centre\<close>

record ProofCenter =
  proofEntries :: "ProofEntry list"
  pc_loading :: bool
  uploading :: bool

record picked_file =
  file_name :: jsstring
  file_bytes :: "8 word list"

definition fileExt :: "jsstring \<Rightarrow> jsstring" where
  \<comment> \<open>\<open>file.name.split('.').pop()\<close>: what follows the last full stop, or the whole name\<close>
  "fileExt name = rev (takeWhile (\<lambda>c. c \<noteq> 0x2E) (rev name))"

definition camera :: jsstring where
  "camera = [0xD83D, 0xDCF8]"

definition fetchProofEntries :: "uuid option \<Rightarrow> ProofCenter \<Rightarrow> world \<Rightarrow> ProofCenter \<times> world" where
  "fetchProofEntries user v w =
     (case user of
        None \<Rightarrow> (v, w)
      | Some uid \<Rightarrow>
          (case call (SelectProofEntries uid) (\<lambda>d. Inr (select_proof_entries uid uid d, d)) w of
             (Inr data, w1) \<Rightarrow> (v\<lparr> proofEntries := data, pc_loading := False \<rparr>, w1)
           | (Inl e, w1) \<Rightarrow>
               (v\<lparr> pc_loading := False \<rparr>,
                toast_error (js ''Error fetching proof entries: '' @ message e) w1)))"

definition handleFileUpload :: "uuid option \<Rightarrow> picked_file option \<Rightarrow> ProofCenter \<Rightarrow> world \<Rightarrow> ProofCenter \<times> world" where
  \<comment> \<open>the file is stored under \<open>user.id/Date.now().fileExt\<close>; its public address is computed
     and dropped\<close>
  "handleFileUpload user picked v w =
     (case (picked, user) of
        (Some file, Some uid) \<Rightarrow>
          (case call (UploadProof uid (clock w) (fileExt (file_name file)) (file_bytes file))
                  (upload_proof uid uid (clock w) (fileExt (file_name file)) (file_bytes file)) w of
             (Inr _, w1) \<Rightarrow>
               (v\<lparr> uploading := False \<rparr>,
                toast_success (js ''Photo uploaded successfully! '' @ camera) w1)
           | (Inl e, w1) \<Rightarrow>
               (v\<lparr> uploading := False \<rparr>,
                toast_error (js ''Error uploading photo: '' @ message e) w1))
      | _ \<Rightarrow> (v, w))"

subsection \<open>Mood journal\<close>

record MoodJournal =
  moodEntries :: "mood_row list"
  todayMood :: "int option"
  reflection :: jsstring
  mj_loading :: bool
  submitting :: bool

definition hms :: "int \<Rightarrow> int \<Rightarrow> int \<Rightarrow> int" where
  "hms h m s = h * 3600 + m * 60 + s"

definition blue_heart :: jsstring where
  "blue_heart = [0xD83D, 0xDC99]"

definition fetchMoodEntries :: "uuid option \<Rightarrow> MoodJournal \<Rightarrow> world \<Rightarrow> MoodJournal \<times> world" where
  "fetchMoodEntries user v w =
     (case user of
        None \<Rightarrow> (v, w)
      | Some uid \<Rightarrow>
          (case call (SelectMoodEntries uid) (\<lambda>d. Inr (select_mood_entries uid uid d, d)) w of
             (Inr data, w1) \<Rightarrow> (v\<lparr> moodEntries := data, mj_loading := False \<rparr>, w1)
           | (Inl e, w1) \<Rightarrow>
               (v\<lparr> mj_loading := False \<rparr>,
                console_error (js ''Error fetching mood entries:'') e w1)))"

definition checkTodayMood :: "uuid option \<Rightarrow> MoodJournal \<Rightarrow> world \<Rightarrow> MoodJournal \<times> world" where
  "checkTodayMood user v w =
     (case user of
        None \<Rightarrow> (v, w)
      | Some uid \<Rightarrow>
          (let today = local_day (client_tz w) (clock w) in
           case call (SelectMoodBetween uid (today, hms 0 0 0) (today, hms 23 59 59))
                  (\<lambda>d. Inr (select_mood_between uid (server_tz w) uid
                               (today, hms 0 0 0) (today, hms 23 59 59) d, d)) w of
             (Inr data, w1) \<Rightarrow>
               (case data of
                  [] \<Rightarrow> (v, w1)
                | m # _ \<Rightarrow>
                    (v\<lparr> todayMood := Some (m_mood_rating m),
                        reflection := (case m_reflection m of None \<Rightarrow> [] | Some r \<Rightarrow> r) \<rparr>, w1))
           | (Inl e, w1) \<Rightarrow> (v, w1)))"

definition find_today_entry :: "uuid \<Rightarrow> int \<Rightarrow> int \<Rightarrow> database \<Rightarrow> pg_error + uuid \<times> database" where
  \<comment> \<open>the check for an entry of today: \<open>select('id')\<close> over the day's window, then \<open>.single()\<close>\<close>
  "find_today_entry uid stz today d =
     (case single (select_mood_between uid stz uid (today, hms 0 0 0) (today, hms 23 59 59) d) of
        Inl e \<Rightarrow> Inl e
      | Inr m \<Rightarrow> Inr (m_id m, d))"

definition submitMoodEntry :: "uuid option \<Rightarrow> MoodJournal \<Rightarrow> world \<Rightarrow> MoodJournal \<times> world" where
  "submitMoodEntry user v w =
     (case (user, todayMood v) of
        (Some uid, Some mood) \<Rightarrow>
          (let today = local_day (client_tz w) (clock w);
               (found, w1) =
                 call (SelectMoodBetweenSingle uid (today, hms 0 0 0) (today, hms 23 59 59))
                   (find_today_entry uid (server_tz w) today) w;
               existingEntry = (case found of Inl _ \<Rightarrow> None | Inr i \<Rightarrow> Some i);
               (res, w2) =
                 (case existingEntry of
                    Some i \<Rightarrow>
                      (case call (UpdateMood i mood (or_null (trim (reflection v))))
                              (update_mood uid i mood (or_null (trim (reflection v)))) w1 of
                         (Inr _, w') \<Rightarrow>
                           (Inr (), toast_success (js ''Mood updated successfully! '' @ blue_heart) w')
                       | (Inl e, w') \<Rightarrow> (Inl e, w'))
                  | None \<Rightarrow>
                      (case call (InsertMood uid mood (or_null (trim (reflection v))))
                              (insert_mood uid (clock w) uid mood (or_null (trim (reflection v)))) w1 of
                         (Inr _, w') \<Rightarrow>
                           (Inr (), toast_success (js ''Mood recorded successfully! '' @ blue_heart) w')
                       | (Inl e, w') \<Rightarrow> (Inl e, w')))
           in case res of
                Inr _ \<Rightarrow>
                  (let (v1, w3) = fetchMoodEntries user (v\<lparr> submitting := True \<rparr>) w2
                   in (v1\<lparr> submitting := False \<rparr>, w3))
              | Inl e \<Rightarrow>
                  (v\<lparr> submitting := False \<rparr>,
                   toast_error (js ''Error saving mood entry: '' @ message e) w2))
      | _ \<Rightarrow> (v, toast_error (js ''Please select a mood rating'') w))"

subsection \<open>Goal breakdown\<close>

record SuggestedHabit =
  sh_title :: jsstring
  sh_description :: jsstring
  sh_category :: jsstring
  sh_frequency :: frequency
  sh_difficulty :: difficulty
  sh_icon :: jsstring
  sh_reasoning :: jsstring

record GoalBreakdown =
  goal :: jsstring
  suggestedHabits :: "SuggestedHabit list"
  gb_loading :: bool
  selectedHabits :: "nat list"

definition mockSuggestions :: "SuggestedHabit list" where
  "mockSuggestions = [
    \<lparr> sh_title = js ''Daily Algorithm Practice'',
      sh_description = js ''Solve 2 coding problems on LeetCode or HackerRank'',
      sh_category = js ''Coding'', sh_frequency = Daily, sh_difficulty = Medium,
      sh_icon = [0xD83D, 0xDCBB],
      sh_reasoning = js ''Regular problem-solving builds algorithmic thinking essential for technical interviews'' \<rparr>,
    \<lparr> sh_title = js ''System Design Study'',
      sh_description = js ''Read system design articles or watch videos for 30 minutes'',
      sh_category = js ''Study'', sh_frequency = Daily, sh_difficulty = Medium,
      sh_icon = [0xD83C, 0xDFD7, 0xFE0F],
      sh_reasoning = js ''Understanding system design is crucial for senior developer roles'' \<rparr>,
    \<lparr> sh_title = js ''Mock Interview Practice'',
      sh_description = js ''Practice coding interviews with peers or online platforms'',
      sh_category = js ''Study'', sh_frequency = Weekly, sh_difficulty = Hard,
      sh_icon = [0xD83C, 0xDFA4],
      sh_reasoning = js ''Regular interview practice builds confidence and improves performance'' \<rparr>,
    \<lparr> sh_title = js ''Open Source Contribution'',
      sh_description = js ''Contribute to open source projects or maintain your GitHub'',
      sh_category = js ''Coding'', sh_frequency = Weekly, sh_difficulty = Medium,
      sh_icon = [0xD83C, 0xDF1F],
      sh_reasoning = js ''Open source contributions demonstrate real-world coding skills to employers'' \<rparr>,
    \<lparr> sh_title = js ''Technical Blog Writing'',
      sh_description = js ''Write about your learning journey and technical insights'',
      sh_category = js ''General'', sh_frequency = Weekly, sh_difficulty = Easy,
      sh_icon = [0x270D, 0xFE0F],
      sh_reasoning = js ''Technical writing showcases communication skills and deepens understanding'' \<rparr>
  ]"

definition analyzeGoal :: "GoalBreakdown \<Rightarrow> world \<Rightarrow> GoalBreakdown \<times> world" where
  \<comment> \<open>Nothing in the body of \<open>try\<close> throws, so \<open>catch\<close> is dead and \<open>finally\<close> clears the
     flag that the handler has just set.\<close>
  "analyzeGoal v w =
     (if trim (goal v) = [] then
        (v, toast_error (js ''Please enter a goal to analyze'') w)
      else
        (v\<lparr> suggestedHabits := mockSuggestions, gb_loading := False \<rparr>,
         toast_success (js ''Goal analyzed! Here are your personalized habit suggestions.'') w))"

definition analyze_disabled :: "GoalBreakdown \<Rightarrow> bool" where
  \<comment> \<open>the Analyze button, the only caller of \<open>analyzeGoal\<close>: \<open>disabled={loading || !goal.trim()}\<close>\<close>
  "analyze_disabled v \<longleftrightarrow> gb_loading v \<or> trim (goal v) = []"

subsection \<open>Templates\<close>

record template_habit =
  th_title :: jsstring
  th_description :: jsstring
  th_category :: jsstring
  th_frequency :: frequency
  th_difficulty :: difficulty
  th_icon :: jsstring

text \<open>The field \<open>icon\<close> of a template is a component of the icon library, named here.\<close>

record Template =
  tp_id :: jsstring
  tp_name :: jsstring
  tp_description :: jsstring
  tp_icon :: jsstring
  tp_color :: jsstring
  tp_habits :: "template_habit list"

record Templates =
  tv_loading :: bool

text \<open>The four entries of the array \<open>templates\<close>, named by their ids.\<close>

definition exam_prep :: Template where
  "exam_prep =
    \<lparr> tp_id = js ''exam-prep'', tp_name = js ''Exam Preparation'',
      tp_description = js ''Structured study routine for upcoming exams'',
      tp_icon = js ''BookOpen'', tp_color = js ''from-blue-500 to-indigo-600'',
      tp_habits = [
      \<lparr> th_title = js ''Morning Study Session'', th_description = js ''Focused study for 2 hours in the morning'',
        th_category = js ''Study'', th_frequency = Daily, th_difficulty = Medium,
        th_icon = [0xD83D, 0xDCDA] \<rparr>,
      \<lparr> th_title = js ''Practice Problems'', th_description = js ''Solve practice questions for 1 hour'',
        th_category = js ''Study'', th_frequency = Daily, th_difficulty = Medium,
        th_icon = [0x270F, 0xFE0F] \<rparr>,
      \<lparr> th_title = js ''Review Notes'', th_description = js ''Review and summarize daily learnings'',
        th_category = js ''Study'', th_frequency = Daily, th_difficulty = Easy,
        th_icon = [0xD83D, 0xDCDD] \<rparr>,
      \<lparr> th_title = js ''Mock Test'', th_description = js ''Take a full-length practice exam'',
        th_category = js ''Study'', th_frequency = Weekly, th_difficulty = Hard,
        th_icon = [0xD83C, 0xDFAF] \<rparr> ] \<rparr>"





definition getCategoryColor :: "jsstring \<Rightarrow> jsstring" where
  "getCategoryColor category =
     (case map_of
        [(js ''Health'', js ''bg-red-500''), (js ''Study'', js ''bg-blue-500''),
         (js ''Coding'', js ''bg-green-500''), (js ''Fitness'', js ''bg-orange-500''),
         (js ''Mindfulness'', js ''bg-purple-500''), (js ''General'', js ''bg-gray-500'')]
        category of
        Some c \<Rightarrow> c
      | None \<Rightarrow> js ''bg-gray-500'')"

function show_nat :: "nat \<Rightarrow> jsstring" where
  "show_nat n =
     (if n < 10 then [of_nat (48 + n)] else show_nat (n div 10) @ [of_nat (48 + n mod 10)])"
  by pat_completeness auto
termination
  by (relation "measure id") auto

declare show_nat.simps [simp del]

definition habitsToCreate :: "uuid \<Rightarrow> Template \<Rightarrow> habit_data list" where
  "habitsToCreate uid template =
     map (\<lambda>habit.
            \<lparr> hd_user_id = uid, hd_title = th_title habit,
              hd_description = Some (th_description habit), hd_category = th_category habit,
              hd_frequency = th_frequency habit, hd_target_count = 1,
              hd_difficulty = th_difficulty habit, hd_icon = th_icon habit,
              hd_color = getCategoryColor (th_category habit) \<rparr>)
       (tp_habits template)"

definition applyTemplate :: "uuid option \<Rightarrow> Template \<Rightarrow> Templates \<Rightarrow> world \<Rightarrow> Templates \<times> world" where
  "applyTemplate user template v w =
     (case user of
        None \<Rightarrow> (v, w)
      | Some uid \<Rightarrow>
          (case call (InsertHabits (habitsToCreate uid template))
                  (insert_habits uid (clock w) (habitsToCreate uid template)) w of
             (Inr _, w1) \<Rightarrow>
               (v\<lparr> tv_loading := False \<rparr>,
                toast_success
                  (tp_name template @ js '' template applied! '' @
                   show_nat (length (tp_habits template)) @ js '' habits created '' @ party) w1)
           | (Inl e, w1) \<Rightarrow>
               (v\<lparr> tv_loading := False \<rparr>,
                toast_error (js ''Error applying template: '' @ message e) w1)))"

subsection \<open>Goal breakdown: creating the selected habits\<close>

text \<open>
  \<open>selectedHabits\<close> is a set of indices into the suggestions, listed in the order of their
  insertion. The goal screen has the same table of colours as the templates screen, so
  \<open>getCategoryColor\<close> serves both. Reading a field of a suggestion that is not there throws
  a \<open>TypeError\<close>, which the handler's \<open>catch\<close> reports like a failed insert; the text is
  the engine's.
\<close>

definition undefined_title :: jsstring where
  "undefined_title =
     js ''Cannot read properties of undefined (reading '' @ [0x27] @ js ''title'' @ [0x27] @ js '')''"

definition selected_habitsToCreate :: "uuid \<Rightarrow> GoalBreakdown \<Rightarrow> habit_data list" where
  "selected_habitsToCreate uid v =
     map (\<lambda>index.
            (let habit = suggestedHabits v ! index
             in \<lparr> hd_user_id = uid, hd_title = sh_title habit,
                  hd_description = Some (sh_description habit), hd_category = sh_category habit,
                  hd_frequency = sh_frequency habit, hd_target_count = 1,
                  hd_difficulty = sh_difficulty habit, hd_icon = sh_icon habit,
                  hd_color = getCategoryColor (sh_category habit) \<rparr>))
       (selectedHabits v)"

definition createSelectedHabits :: "uuid option \<Rightarrow> GoalBreakdown \<Rightarrow> world \<Rightarrow> GoalBreakdown \<times> world" where
  "createSelectedHabits user v w =
     (case user of
        None \<Rightarrow> (v, toast_error (js ''Please select at least one habit to create'') w)
      | Some uid \<Rightarrow>
          (if selectedHabits v = [] then
             (v, toast_error (js ''Please select at least one habit to create'') w)
           else if \<not> list_all (\<lambda>index. index < length (suggestedHabits v)) (selectedHabits v) then
             (v, toast_error (js ''Error creating habits: '' @ undefined_title) w)
           else
             (case call (InsertHabits (selected_habitsToCreate uid v))
                     (insert_habits uid (clock w) (selected_habitsToCreate uid v)) w of
                (Inr _, w1) \<Rightarrow>
                  (v\<lparr> selectedHabits := [], suggestedHabits := [], goal := [] \<rparr>,
                   toast_success
                     (show_nat (length (selectedHabits v)) @
                      js '' habits created successfully! '' @ party) w1)
              | (Inl e, w1) \<Rightarrow>
                  (v, toast_error (js ''Error creating habits: '' @ message e) w1))))"

subsection \<open>Numbers\<close>

text \<open>
  A JavaScript number is an IEEE 754 double, carried here as the rational it denotes.
  Lengths and day counts are integers below \<open>2 ^ 53\<close> and exact. A quotient or product is
  rounded to the nearest double, ties to the even significand; the values that the screens
  compute are far from the overflow and underflow ranges, so only the rounding of the 53-bit
  significand is modelled. \<open>Math.round\<close> is exact: the nearest integer, ties upwards.
\<close>

definition round_half_even :: "rat \<Rightarrow> int" where
  "round_half_even x =
     (let f = \<lfloor>x\<rfloor>; r = x - of_int f
      in if r < 1 / 2 then f else if 1 / 2 < r then f + 1 else if even f then f else f + 1)"

definition exponent :: "rat \<Rightarrow> int" where
  \<comment> \<open>for positive \<open>x\<close>, the \<open>e\<close> with \<open>2 ^ e \<le> x < 2 ^ (e + 1)\<close>\<close>
  "exponent x =
     (let (a, b) = quotient_of x; d = bitlen a - bitlen b
      in if 2 powi d \<le> x then d else d - 1)"

definition to_double :: "rat \<Rightarrow> rat" where
  "to_double x =
     (if x = 0 then 0
      else (let e = exponent \<bar>x\<bar> - 52
            in sgn x * of_int (round_half_even (\<bar>x\<bar> / 2 powi e)) * 2 powi e))"

text \<open>
  A division by zero does not throw: it yields \<open>Infinity\<close> or \<open>NaN\<close>, which every later
  operation hands on. The two are one value here, since no handler tells them apart.
\<close>

datatype jsnumber = Num rat | NotFinite

definition fdiv :: "rat \<Rightarrow> rat \<Rightarrow> jsnumber" where
  "fdiv x y = (if y = 0 then NotFinite else Num (to_double (x / y)))"

definition fmul :: "jsnumber \<Rightarrow> rat \<Rightarrow> jsnumber" where
  "fmul a y = (case a of Num x \<Rightarrow> Num (to_double (x * y)) | NotFinite \<Rightarrow> NotFinite)"

definition Math_round :: "jsnumber \<Rightarrow> jsnumber" where
  "Math_round a = (case a of Num x \<Rightarrow> Num (of_int \<lfloor>x + 1 / 2\<rfloor>) | NotFinite \<Rightarrow> NotFinite)"

subsection \<open>Dashboard\<close>

definition select_completions_between :: "uuid \<Rightarrow> int \<Rightarrow> uuid \<Rightarrow> zoneless \<Rightarrow> zoneless \<Rightarrow> database \<Rightarrow> completion_row list" where
  "select_completions_between auth stz uid lo hi d =
     filter (\<lambda>c. c_user_id c = auth \<and> c_user_id c = uid \<and>
                 zoneless_instant stz lo \<le> c_completed_at c \<and>
                 c_completed_at c < zoneless_instant stz hi)
       (habit_completions d)"

definition select_recent_habits :: "uuid \<Rightarrow> uuid \<Rightarrow> database \<Rightarrow> Habit list" where
  \<comment> \<open>\<open>habit_completions!inner\<close> keeps the habits with a completion; newest update first, five\<close>
  "select_recent_habits auth uid d =
     map (\<lambda>h. \<lparr> hb_row = h, hb_habit_completions = embed_completions auth d (h_id h),
                completions = None \<rparr>)
       (take 5 (order_desc h_updated_at
          (filter (\<lambda>h. embed_completions auth d (h_id h) \<noteq> []) (visible_habits auth uid d))))"

record DashboardStats =
  totalHabits :: nat
  todayCompleted :: nat
  currentStreak :: int
  weeklyCompletion :: jsnumber

record Dashboard =
  stats :: DashboardStats
  recentHabits :: "Habit list"
  dv_loading :: bool

definition initial_Dashboard :: Dashboard where
  "initial_Dashboard =
     \<lparr> stats = \<lparr> totalHabits = 0, todayCompleted = 0, currentStreak = 0, weeklyCompletion = Num 0 \<rparr>,
       recentHabits = [], dv_loading = True \<rparr>"

definition startOfWeek :: "int \<Rightarrow> int" where
  \<comment> \<open>the Sunday on or before a local day; day 0 of the epoch is a Thursday\<close>
  "startOfWeek day = day - (day + 4) mod 7"

definition endOfWeek :: "int \<Rightarrow> int" where
  "endOfWeek day = startOfWeek day + 6"

definition data_length :: "pg_error + 'a list \<Rightarrow> nat" where
  \<comment> \<open>\<open>data?.length || 0\<close>, where a failed request has no data\<close>
  "data_length r = (case r of Inl _ \<Rightarrow> 0 | Inr xs \<Rightarrow> length xs)"

definition fetchDashboardData :: "uuid option \<Rightarrow> Dashboard \<Rightarrow> world \<Rightarrow> Dashboard \<times> world" where
  \<comment> \<open>the four queries drop their errors and nothing in \<open>try\<close> throws, so \<open>catch\<close> is dead\<close>
  "fetchDashboardData user v w =
     (case user of
        None \<Rightarrow> (v, w)
      | Some uid \<Rightarrow>
          (let (habits_res, w1) =
                 call (SelectActiveHabits uid) (\<lambda>d. Inr (visible_habits uid uid d, d)) w;
               today = local_day (client_tz w) (clock w);
               (todayCompletions, w2) =
                 call (SelectCompletionsBetween uid (today, hms 0 0 0) (today, hms 23 59 59))
                   (\<lambda>d. Inr (select_completions_between uid (server_tz w) uid
                                (today, hms 0 0 0) (today, hms 23 59 59) d, d)) w1;
               weekStart = startOfWeek today;
               weekEnd = endOfWeek today;
               (weekCompletions, w3) =
                 call (SelectCompletionsBetween uid (weekStart, hms 0 0 0) (weekEnd, hms 23 59 59))
                   (\<lambda>d. Inr (select_completions_between uid (server_tz w) uid
                                (weekStart, hms 0 0 0) (weekEnd, hms 23 59 59) d, d)) w2;
               (recentHabitsData, w4) =
                 call (SelectRecentHabits uid) (\<lambda>d. Inr (select_recent_habits uid uid d, d)) w3
           in (v\<lparr> stats :=
                   \<lparr> totalHabits = data_length habits_res,
                     todayCompleted = data_length todayCompletions,
                     currentStreak = 7,
                     weeklyCompletion =
                       Math_round (fmul (fdiv (of_nat (data_length weekCompletions)) 7) 100) \<rparr>,
                 recentHabits := (case recentHabitsData of Inl _ \<Rightarrow> [] | Inr hs \<Rightarrow> hs),
                 dv_loading := False \<rparr>, w4)))"

subsection \<open>Analytics\<close>

record completion_with_habit =
  cw_row :: completion_row
  cw_habits :: "habit_row option"

definition select_completions_since :: "uuid \<Rightarrow> int \<Rightarrow> uuid \<Rightarrow> zoneless \<Rightarrow> database \<Rightarrow> completion_with_habit list" where
  \<comment> \<open>\<open>select('*, habits(*)')\<close>: each completion with its habit, when the policy shows it\<close>
  "select_completions_since auth stz uid start d =
     map (\<lambda>c. \<lparr> cw_row = c,
                cw_habits = find (\<lambda>h. h_id h = c_habit_id c \<and> h_user_id h = auth) (habits d) \<rparr>)
       (filter (\<lambda>c. c_user_id c = auth \<and> c_user_id c = uid \<and>
                    zoneless_instant stz start \<le> c_completed_at c)
          (habit_completions d))"

text \<open>A point of the progress chart; its label is the local day, which the source prints as \<open>MMM dd\<close>.\<close>

record progress_point =
  pp_date :: int
  pp_completions :: nat
  pp_target :: nat

record category_slice =
  cs_name :: jsstring
  cs_value :: nat
  cs_color :: jsstring

record AnalyticsData =
  weeklyProgress :: "progress_point list"
  categoryBreakdown :: "category_slice list"
  streakData :: "int list"
  completionRate :: jsnumber
  bestStreak :: int
  totalCompletions :: nat

record Analytics =
  analyticsData :: AnalyticsData
  av_loading :: bool
  timeRange :: jsstring

definition initial_Analytics :: Analytics where
  "initial_Analytics =
     \<lparr> analyticsData =
         \<lparr> weeklyProgress = [], categoryBreakdown = [], streakData = [], completionRate = Num 0,
           bestStreak = 0, totalCompletions = 0 \<rparr>,
       av_loading = True, timeRange = js ''7days'' \<rparr>"

definition analytics_getCategoryColor :: "jsstring \<Rightarrow> jsstring" where
  "analytics_getCategoryColor category =
     (case map_of
        [(js ''Health'', js ''#EF4444''), (js ''Study'', js ''#3B82F6''),
         (js ''Coding'', js ''#10B981''), (js ''Fitness'', js ''#F59E0B''),
         (js ''Mindfulness'', js ''#8B5CF6''), (js ''General'', js ''#6B7280'')]
        category of
        Some c \<Rightarrow> c
      | None \<Rightarrow> js ''#6B7280'')"

fun categoryMap_incr :: "(jsstring \<times> nat) list \<Rightarrow> jsstring \<Rightarrow> (jsstring \<times> nat) list" where
  \<comment> \<open>\<open>categoryMap.set(category, (categoryMap.get(category) || 0) + 1)\<close> on a Map, which keeps
     the order of first insertion\<close>
  "categoryMap_incr [] k = [(k, 1)]"
| "categoryMap_incr ((k', n) # m) k =
     (if k' = k then (k', n + 1) # m else (k', n) # categoryMap_incr m k)"

definition completion_category :: "completion_with_habit \<Rightarrow> jsstring" where
  \<comment> \<open>\<open>completion.habits?.category || 'Other'\<close>\<close>
  "completion_category c =
     (case cw_habits c of
        None \<Rightarrow> js ''Other''
      | Some h \<Rightarrow> (if h_category h = [] then js ''Other'' else h_category h))"

definition days_of :: "jsstring \<Rightarrow> nat" where
  "days_of tr = (if tr = js ''7days'' then 7 else if tr = js ''30days'' then 30 else 90)"

definition completion_rate :: "nat \<Rightarrow> nat \<Rightarrow> nat \<Rightarrow> jsnumber" where
  \<comment> \<open>\<open>totalPossible > 0 ? Math.round((completions / totalPossible) * 100) : 0\<close>\<close>
  "completion_rate n_habits n_completions days =
     (let totalPossible = n_habits * days
      in if totalPossible > 0
         then Math_round (fmul (fdiv (of_nat n_completions) (of_nat totalPossible)) 100)
         else Num 0)"

definition fetchAnalyticsData :: "uuid option \<Rightarrow> Analytics \<Rightarrow> world \<Rightarrow> Analytics \<times> world" where
  "fetchAnalyticsData user v w =
     (case user of
        None \<Rightarrow> (v, w)
      | Some uid \<Rightarrow>
          (let days = days_of (timeRange v);
               today = local_day (client_tz w) (clock w);
               startDate = today - int days;
               (habits_res, w1) =
                 call (SelectActiveHabits uid) (\<lambda>d. Inr (visible_habits uid uid d, d)) w;
               (completions_res, w2) =
                 call (SelectCompletionsSince uid (startDate, 0))
                   (\<lambda>d. Inr (select_completions_since uid (server_tz w) uid (startDate, 0) d, d)) w1;
               comps = (case completions_res of Inl _ \<Rightarrow> [] | Inr cs \<Rightarrow> cs);
               progress =
                 map (\<lambda>date.
                        \<lparr> pp_date = date,
                          pp_completions =
                            length (filter (\<lambda>c. local_day (client_tz w) (c_completed_at (cw_row c)) = date)
                                      comps),
                          pp_target = data_length habits_res \<rparr>)
                   [startDate ..  today];
               categoryMap = foldl categoryMap_incr [] (map completion_category comps);
               breakdown =
                 map (\<lambda>(name, value).
                        \<lparr> cs_name = name, cs_value = value,
                          cs_color = analytics_getCategoryColor name \<rparr>) categoryMap
           in (v\<lparr> analyticsData :=
                   \<lparr> weeklyProgress = progress,
                     categoryBreakdown = breakdown,
                     streakData = [],
                     completionRate =
                       completion_rate (data_length habits_res) (data_length completions_res) days,
                     bestStreak = 12,
                     totalCompletions = data_length completions_res \<rparr>,
                 av_loading := False \<rparr>, w2)))"

subsection \<open>Example states\<close>

definition empty_db :: database where
  "empty_db =
     \<lparr> habits = [], habit_completions = [], challenges = [], challenge_participants = [],
       mood_entries = [], habit_proofs = [], next_uuid = 1 \<rparr>"

definition world0 :: world where
  \<comment> \<open>empty tables, no pending fault, client and backend both on UTC, at the epoch\<close>
  "world0 =
     \<lparr> db = empty_db, faults = [], calls = [], toasts = [], console = [], clock = 0,
       client_tz = 0, server_tz = 0 \<rparr>"

definition goal_view :: "jsstring \<Rightarrow> GoalBreakdown" where
  "goal_view g = \<lparr> goal = g, suggestedHabits = [], gb_loading = False, selectedHabits = [] \<rparr>"

definition templates_view :: Templates where
  "templates_view = \<lparr> tv_loading = False \<rparr>"

definition challenges_view :: Challenges where
  "challenges_view =
     \<lparr> cv_challenges = [], myParticipations = [], cv_loading = False,
       cv_showCreateModal = False, activeTab = Public \<rparr>"

definition challenge_world :: world where
  \<comment> \<open>one challenge, number 10, which user 1 has joined\<close>
  "challenge_world =
     world0\<lparr> db := empty_db
       \<lparr> challenges :=
           [\<lparr> ch_id = 10, ch_title = js ''Read daily'', ch_description = js ''Ten pages a day'',
              ch_creator_id = 2, ch_start_date = 0, ch_end_date = 7, ch_is_active = True,
              ch_max_participants = None, ch_created_at = 0 \<rparr>],
         challenge_participants :=
           [\<lparr> p_id = 11, p_challenge_id = 10, p_user_id = 1, p_joined_at = 0 \<rparr>],
         next_uuid := 12 \<rparr> \<rparr>"

definition habits_view :: HabitsManager where
  "habits_view = \<lparr> hm_habits = [], hm_loading = False, showCreateModal = True, selectedHabit = None \<rparr>"

definition reading_habit :: habit_row where
  "reading_habit =
     \<lparr> h_id = 20, h_user_id = 1, h_title = js ''Read'', h_description = None,
       h_category = js ''Study'', h_frequency = Daily, h_target_count = 1, h_difficulty = Easy,
       h_is_active = True, h_created_at = 0, h_updated_at = 0, h_icon = target_icon,
       h_color = js ''bg-blue-500'' \<rparr>"

definition habit_world :: world where
  \<comment> \<open>user 1 has one active habit, number 20\<close>
  "habit_world = world0\<lparr> db := empty_db\<lparr> habits := [reading_habit], next_uuid := 21 \<rparr> \<rparr>"

definition form_view :: CreateHabitModal where
  "form_view =
     \<lparr> cm_loading = False, cm_formData = initial_formData\<lparr> fd_title := js ''Read 20 pages'' \<rparr> \<rparr>"

definition mood_view :: MoodJournal where
  "mood_view =
     \<lparr> moodEntries = [], todayMood = Some 4, reflection = js ''good day'', mj_loading = False,
       submitting = False \<rparr>"

definition offline :: "world \<Rightarrow> world" where
  \<comment> \<open>the next request fails on the network\<close>
  "offline w = w\<lparr> faults := [Some (BackendFailure (js ''Failed to fetch''))] \<rparr>"

definition offline_after :: "nat \<Rightarrow> world \<Rightarrow> world" where
  \<comment> \<open>\<open>n\<close> requests go through, the one after them fails on the network\<close>
  "offline_after n w =
     w\<lparr> faults := replicate n None @ [Some (BackendFailure (js ''Failed to fetch''))] \<rparr>"

definition at_clock :: "instant \<Rightarrow> world \<Rightarrow> world" where
  "at_clock t w = w\<lparr> clock := t \<rparr>"

definition late_world :: world where
  \<comment> \<open>at 23:59:59.900 of day 0, UTC: user 1 has a mood entry and a completion of habit 20, both
     stored at 23:59:59.500 of that day\<close>
  "late_world =
     world0\<lparr> db := empty_db
       \<lparr> habits := [reading_habit],
         habit_completions :=
           [\<lparr> c_id = 21, c_habit_id = 20, c_user_id = 1, c_completed_at = 86399500,
              c_proof_image_url = None, c_notes = None, c_mood_rating = None \<rparr>],
         mood_entries :=
           [\<lparr> m_id = 22, m_user_id = 1, m_mood_rating = 5, m_reflection = None,
              m_created_at = 86399500 \<rparr>],
         next_uuid := 23 \<rparr>,
       clock := 86399900 \<rparr>"

definition late_habit :: Habit where
  \<comment> \<open>habit 20 with the completion of \<open>late_world\<close> in its field \<open>completions\<close>\<close>
  "late_habit =
     \<lparr> hb_row = reading_habit,
       hb_habit_completions = [\<lparr> ce_completed_at = 86399500, ce_mood_rating = None \<rparr>],
       completions = Some [\<lparr> ce_completed_at = 86399500, ce_mood_rating = None \<rparr>] \<rparr>"

definition mood_world :: world where
  \<comment> \<open>at 13:53:20 of day 0, UTC: user 1 has a mood entry stored at noon of that day\<close>
  "mood_world =
     world0\<lparr> db := empty_db
       \<lparr> mood_entries :=
           [\<lparr> m_id = 30, m_user_id = 1, m_mood_rating = 2, m_reflection = None,
              m_created_at = 43200000 \<rparr>],
         next_uuid := 31 \<rparr>,
       clock := 50000000 \<rparr>"

definition noon_world :: world where
  \<comment> \<open>at 13:53:20 of day 0, UTC: user 1 has completed habit 20 at noon of that day\<close>
  "noon_world =
     world0\<lparr> db := empty_db
       \<lparr> habits := [reading_habit],
         habit_completions :=
           [\<lparr> c_id = 21, c_habit_id = 20, c_user_id = 1, c_completed_at = 43200000,
              c_proof_image_url = None, c_notes = None, c_mood_rating = None \<rparr>],
         next_uuid := 22 \<rparr>,
       clock := 50000000 \<rparr>"

definition editing_view :: HabitsManager where
  \<comment> \<open>the habits screen with habit 20 picked for editing\<close>
  "editing_view = habits_view\<lparr> selectedHabit := Some late_habit \<rparr>"

definition run_png :: picked_file where
  "run_png = \<lparr> file_name = js ''run.png'', file_bytes = [0x89, 0x50, 0x4E, 0x47] \<rparr>"

definition storage_world :: world where
  \<comment> \<open>at the epoch: the bucket holds the object \<open>1/0.png\<close> of user 1\<close>
  "storage_world =
     world0\<lparr> db := empty_db
       \<lparr> habit_proofs := [\<lparr> o_folder = 1, o_stamp = 0, o_ext = js ''png'', o_bytes = [] \<rparr>] \<rparr> \<rparr>"

definition challenge_form_view :: CreateChallengeModal where
  "challenge_form_view =
     \<lparr> ccm_loading = False,
       ccm_formData = (initial_challenge_formData 0)
         \<lparr> cf_title := js ''Read daily'', cf_description := js ''Ten pages a day'' \<rparr> \<rparr>"

definition picked_view :: GoalBreakdown where
  \<comment> \<open>the goal screen after an analysis, with the first and the third suggestion picked\<close>
  "picked_view =
     \<lparr> goal = js ''get fit'', suggestedHabits = mockSuggestions, gb_loading = False,
       selectedHabits = [0, 2] \<rparr>"

text \<open>Screens that show something: a habit, a participation, a mood entry, a proof entry.\<close>

definition listed_habits :: HabitsManager where
  "listed_habits =
     \<lparr> hm_habits = [\<lparr> hb_row = reading_habit, hb_habit_completions = [], completions = None \<rparr>],
       hm_loading = False, showCreateModal = True, selectedHabit = None \<rparr>"

definition listed_editing :: HabitsManager where
  "listed_editing = listed_habits\<lparr> selectedHabit := Some late_habit \<rparr>"

definition listed_challenges :: Challenges where
  "listed_challenges =
     \<lparr> cv_challenges = [], myParticipations = [10], cv_loading = False,
       cv_showCreateModal = True, activeTab = Public \<rparr>"

definition listed_moods :: MoodJournal where
  "listed_moods =
     \<lparr> moodEntries =
         [\<lparr> m_id = 30, m_user_id = 1, m_mood_rating = 2, m_reflection = None,
            m_created_at = 43200000 \<rparr>],
       todayMood = Some 4, reflection = js ''good day'', mj_loading = False,
       submitting = False \<rparr>"

definition listed_proofs :: ProofCenter where
  "listed_proofs =
     \<lparr> proofEntries =
         [\<lparr> pe_row =
              \<lparr> c_id = 21, c_habit_id = 20, c_user_id = 1, c_completed_at = 43200000,
                c_proof_image_url = Some (js ''1/0.png''), c_notes = None, c_mood_rating = None \<rparr>,
            pe_habits =
              Some \<lparr> he_title = js ''Read'', he_icon = target_icon, he_color = js ''bg-blue-500'' \<rparr> \<rparr>],
       pc_loading = False, uploading = False \<rparr>"

subsection \<open>The day of the claims\<close>

definition spec_is_today :: "int \<Rightarrow> instant \<Rightarrow> instant \<Rightarrow> bool" where
  \<comment> \<open>after the specification: an instant is of today when it lies from the client's local
     midnight, inclusive, to the next local midnight, exclusive\<close>
  "spec_is_today tz now t \<longleftrightarrow>
     local_day tz now * ms_per_day - tz \<le> t \<and> t < (local_day tz now + 1) * ms_per_day - tz"

definition mood_days :: "int \<Rightarrow> uuid \<Rightarrow> database \<Rightarrow> int list" where
  \<comment> \<open>the local days of a user's mood rows, one entry for each row\<close>
  "mood_days tz uid d =
     map (\<lambda>m. local_day tz (m_created_at m)) (filter (\<lambda>m. m_user_id m = uid) (mood_entries d))"

subsection \<open>Participation: the invariant and sequences of joins and leaves\<close>

definition participation_keys :: "database \<Rightarrow> (uuid \<times> uuid) list" where
  "participation_keys d = map (\<lambda>p. (p_challenge_id p, p_user_id p)) (challenge_participants d)"

definition unique_participation :: "database \<Rightarrow> bool" where
  \<comment> \<open>at most one participation row for each pair of a challenge and a user\<close>
  "unique_participation d \<longleftrightarrow> distinct (participation_keys d)"

datatype challenge_event = Join uuid uuid | Leave uuid uuid

fun challenge_step :: "Challenges \<times> world \<Rightarrow> challenge_event \<Rightarrow> Challenges \<times> world" where
  "challenge_step (v, w) (Join uid cid) = joinChallenge (Some uid) cid v w"
| "challenge_step (v, w) (Leave uid cid) = leaveChallenge (Some uid) cid v w"

definition run_challenges :: "Challenges \<times> world \<Rightarrow> challenge_event list \<Rightarrow> Challenges \<times> world" where
  \<comment> \<open>users join and leave, one after the other; the pending faults decide which requests fail\<close>
  "run_challenges s es = foldl challenge_step s es"

section \<open>Properties\<close>

subsection \<open>Requests, notifications and tables under one call\<close>

lemma call_calls [simp]: "calls (snd (call r f w)) = calls w @ [r]"
  by (simp add: call_def logged_def split: sum.splits prod.splits)

lemma call_toasts [simp]: "toasts (snd (call r f w)) = toasts w"
  by (simp add: call_def logged_def split: sum.splits prod.splits)

lemma call_console [simp]: "console (snd (call r f w)) = console w"
  by (simp add: call_def logged_def split: sum.splits prod.splits)

lemma call_clock [simp]: "clock (snd (call r f w)) = clock w"
  by (simp add: call_def logged_def split: sum.splits prod.splits)

lemma call_faults [simp]: "faults (snd (call r f w)) = tl (faults w)"
  by (simp add: call_def logged_def split: sum.splits prod.splits)

lemma call_callsD: "call r f w = (x, w') \<Longrightarrow> calls w' = calls w @ [r]"
  using call_calls [of r f w] by simp

lemma js_inj [simp]: "js s = js t \<longleftrightarrow> s = t"
proof -
  have "inj (\<lambda>c::char. (of_nat (of_char c) :: 16 word))"
  proof (rule injI)
    fix x y :: char
    assume a: "(of_nat (of_char x) :: 16 word) = of_nat (of_char y)"
    have "(of_char x :: nat) < 2 ^ 16"
      by (rule order_less_trans [OF nat_of_char_less_256]) simp
    moreover have "(of_char y :: nat) < 2 ^ 16"
      by (rule order_less_trans [OF nat_of_char_less_256]) simp
    ultimately have "(of_char x :: nat) = of_char y"
      using a by (simp add: word_of_nat_eq_iff take_bit_nat_eq_self)
    then show "x = y" by simp
  qed
  then show ?thesis unfolding js_def by simp
qed

lemma toast_success_simps [simp]:
  "db (toast_success m w) = db w" "calls (toast_success m w) = calls w"
  "faults (toast_success m w) = faults w" "clock (toast_success m w) = clock w"
  "toasts (toast_success m w) = toasts w @ [ToastSuccess m]"
  "console (toast_success m w) = console w"
  "client_tz (toast_success m w) = client_tz w" "server_tz (toast_success m w) = server_tz w"
  by (simp_all add: toast_success_def)

lemma toast_error_simps [simp]:
  "db (toast_error m w) = db w" "calls (toast_error m w) = calls w"
  "faults (toast_error m w) = faults w" "clock (toast_error m w) = clock w"
  "toasts (toast_error m w) = toasts w @ [ToastError m]"
  "console (toast_error m w) = console w"
  "client_tz (toast_error m w) = client_tz w" "server_tz (toast_error m w) = server_tz w"
  by (simp_all add: toast_error_def)

lemma console_error_simps [simp]:
  "db (console_error m e w) = db w" "calls (console_error m e w) = calls w"
  "faults (console_error m e w) = faults w" "clock (console_error m e w) = clock w"
  "toasts (console_error m e w) = toasts w"
  "console (console_error m e w) = console w @ [(m, e)]"
  "client_tz (console_error m e w) = client_tz w" "server_tz (console_error m e w) = server_tz w"
  by (simp_all add: console_error_def)

lemma logged_simps [simp]:
  "db (logged r w) = db w" "calls (logged r w) = calls w @ [r]"
  "faults (logged r w) = tl (faults w)" "clock (logged r w) = clock w"
  "toasts (logged r w) = toasts w" "console (logged r w) = console w"
  "client_tz (logged r w) = client_tz w" "server_tz (logged r w) = server_tz w"
  by (simp_all add: logged_def)

lemma next_fault_simps [simp]:
  "next_fault (toast_success m w) = next_fault w" "next_fault (toast_error m w) = next_fault w"
  "next_fault (console_error m e w) = next_fault w"
  "next_fault (w\<lparr> db := d \<rparr>) = next_fault w"
  by (simp_all add: next_fault_def)

lemma next_fault_logged [simp]: "next_fault (logged r w) = fault_at 1 w"
  by (simp add: next_fault_def fault_at_def drop_Suc)

lemma fault_at_0 [simp]: "fault_at 0 w = next_fault w"
  by (simp add: fault_at_def next_fault_def)

lemma fault_at_logged [simp]: "fault_at n (logged r w) = fault_at (Suc n) w"
  by (simp add: next_fault_def fault_at_def drop_Suc)

lemma fault_at_simps [simp]:
  "fault_at n (toast_success m w) = fault_at n w" "fault_at n (toast_error m w) = fault_at n w"
  "fault_at n (console_error m e w) = fault_at n w"
  "fault_at n (w\<lparr> db := d \<rparr>) = fault_at n w"
  by (simp_all add: fault_at_def next_fault_def)

lemma call_Inl: "outcome f w = Inl e \<Longrightarrow> call r f w = (Inl e, logged r w)"
  by (simp add: call_def)

lemma call_Inr: "outcome f w = Inr (a, d) \<Longrightarrow> call r f w = (Inr a, (logged r w)\<lparr> db := d \<rparr>)"
  by (simp add: call_def)

lemma outcome_read:
  "outcome (\<lambda>d. Inr (g d, d)) w = (case next_fault w of Some e \<Rightarrow> Inl e | None \<Rightarrow> Inr (g (db w), db w))"
  by (simp add: outcome_def)

lemma outcome_db_update [simp]: "next_fault w = None \<Longrightarrow> outcome f w = f (db w)"
  by (simp add: outcome_def)

lemma outcome_Inr: "outcome f w = Inr x \<Longrightarrow> f (db w) = Inr x"
  by (simp add: outcome_def split: option.splits)

lemma outcome_Inr_fault: "outcome f w = Inr x \<Longrightarrow> next_fault w = None"
  by (simp add: outcome_def split: option.splits)


subsection \<open>Goal analysis\<close>

text \<open>
  C7. For the analyze action a goal text is non-empty when something is left of it once
  \<open>trim\<close> has stripped its whitespace: this is the test of the handler's guard and of the
  Analyze button. For any two such goals, whatever the views and the worlds, the suggestions
  shown after the action are the same: the fixed list of five mock suggestions.
\<close>

theorem analyzeGoal_ignores_goal:
  "trim (goal v1) \<noteq> [] \<Longrightarrow> trim (goal v2) \<noteq> [] \<Longrightarrow>
     suggestedHabits (fst (analyzeGoal v1 w1)) = suggestedHabits (fst (analyzeGoal v2 w2)) \<and>
     suggestedHabits (fst (analyzeGoal v1 w1)) = mockSuggestions \<and>
     length mockSuggestions = 5"
  by (simp add: analyzeGoal_def mockSuggestions_def)

theorem analyzeGoal_ignores_goal_witness:
  "trim (goal (goal_view (js ''pass the exam''))) \<noteq> [] \<and>
   trim (goal (goal_view (js ''get fit''))) \<noteq> [] \<and>
   suggestedHabits (fst (analyzeGoal (goal_view (js ''pass the exam'')) world0)) =
     suggestedHabits (fst (analyzeGoal (goal_view (js ''get fit'')) world0)) \<and>
   suggestedHabits (fst (analyzeGoal (goal_view (js ''pass the exam'')) world0)) = mockSuggestions \<and>
   length mockSuggestions = 5"
proof -
  have a: "trim (goal (goal_view (js ''pass the exam''))) \<noteq> []"
    by (simp add: goal_view_def js_def trim_def js_whitespace_def)
  have b: "trim (goal (goal_view (js ''get fit''))) \<noteq> []"
    by (simp add: goal_view_def js_def trim_def js_whitespace_def)
  from analyzeGoal_ignores_goal [OF a b, of world0 world0] a b
  show ?thesis by blast
qed

text \<open>
  A goal of nothing but whitespace does not reach the action: the Analyze button, its only
  caller, is disabled then. The guard of the handler repeats the test; a goal that it turns
  away leaves the view as it was and raises an error notification. Whenever the button is
  enabled, the action shows the five suggestions.
\<close>

lemma analyze_disabled_blank: "trim (goal v) = [] \<Longrightarrow> analyze_disabled v"
  by (simp add: analyze_disabled_def)

lemma analyzeGoal_blank:
  "trim (goal v) = [] \<Longrightarrow>
   analyzeGoal v w = (v, toast_error (js ''Please enter a goal to analyze'') w)"
  by (simp add: analyzeGoal_def)

lemma analyzeGoal_enabled:
  "\<not> analyze_disabled v \<Longrightarrow> suggestedHabits (fst (analyzeGoal v w)) = mockSuggestions"
  by (simp add: analyze_disabled_def analyzeGoal_def)

subsection \<open>Streak figures\<close>

text \<open>
  C8. For every signed-in user, every view state and every world (tables, pending faults,
  clock), the dashboard's current streak after \<open>fetchDashboardData\<close> is 7 and the analytics'
  best streak after \<open>fetchAnalyticsData\<close> is 12: neither reads the completion records.
\<close>

theorem streaks_are_constants:
  "currentStreak (stats (fst (fetchDashboardData (Some uid) v w))) = 7 \<and>
   bestStreak (analyticsData (fst (fetchAnalyticsData (Some uid) a w'))) = 12"
  by (simp add: fetchDashboardData_def fetchAnalyticsData_def Let_def split: prod.splits)

subsection \<open>Handlers without a signed-in user\<close>



subsection \<open>Applying the exam-preparation template\<close>





lemma insert_habits_own:
  "list_all (\<lambda>r. hd_user_id r = uid) rows \<Longrightarrow>
   insert_habits uid now rows d =
     Inr ((), d\<lparr> habits := habits d @ map (\<lambda>(i, r). new_habit now i r)
                       (zip [next_uuid d ..< next_uuid d + length rows] rows),
                next_uuid := next_uuid d + length rows \<rparr>)"
  by (simp add: insert_habits_def)

lemma habitsToCreate_own: "list_all (\<lambda>r. hd_user_id r = uid) (habitsToCreate uid template)"
  by (simp add: habitsToCreate_def list_all_iff)



lemma applyTemplate_calls:
  "calls (snd (applyTemplate (Some uid) template v w)) =
           calls w @ [InsertHabits (habitsToCreate uid template)]"
  by (auto simp: applyTemplate_def toast_success_def toast_error_def split: prod.splits sum.splits dest: call_callsD)




subsection \<open>Joining and leaving challenges\<close>

lemma fetchMyParticipations_ok:
  "next_fault w = None \<Longrightarrow>
   fetchMyParticipations (Some uid) v w =
     (v\<lparr> myParticipations := select_participations uid (db w) \<rparr>,
      logged (SelectParticipations uid) w)"
  by (simp add: fetchMyParticipations_def call_def logged_def)

lemma fetchMyParticipations_fail:
  "next_fault w = Some e \<Longrightarrow>
   fetchMyParticipations (Some uid) v w =
     (v, console_error (js ''Error fetching participations:'') e (logged (SelectParticipations uid) w))"
  by (simp add: fetchMyParticipations_def call_def outcome_def)

lemma fetchMyParticipations_db [simp]: "db (snd (fetchMyParticipations (Some uid) v w)) = db w"
  by (cases "next_fault w") (simp_all add: fetchMyParticipations_ok fetchMyParticipations_fail)

lemma fetchMyParticipations_calls [simp]:
  "calls (snd (fetchMyParticipations (Some uid) v w)) = calls w @ [SelectParticipations uid]"
  by (cases "next_fault w") (simp_all add: fetchMyParticipations_ok fetchMyParticipations_fail)

lemma fetchMyParticipations_toasts [simp]:
  "toasts (snd (fetchMyParticipations (Some uid) v w)) = toasts w"
  by (cases "next_fault w") (simp_all add: fetchMyParticipations_ok fetchMyParticipations_fail)

lemma joinChallenge_fail:
  "outcome (insert_participant uid (clock w) cid uid) w = Inl e \<Longrightarrow>
   joinChallenge (Some uid) cid v w =
     (v, toast_error (js ''Error joining challenge: '' @ message e) (logged (InsertParticipant cid uid) w))"
  by (simp add: joinChallenge_def call_Inl)

lemma joinChallenge_ok:
  "outcome (insert_participant uid (clock w) cid uid) w = Inr ((), d) \<Longrightarrow>
   joinChallenge (Some uid) cid v w =
     fetchMyParticipations (Some uid) v
       (toast_success joined_toast ((logged (InsertParticipant cid uid) w)\<lparr> db := d \<rparr>))"
  by (simp add: joinChallenge_def call_Inr)

lemma leaveChallenge_fail:
  "outcome (delete_participant uid cid uid) w = Inl e \<Longrightarrow>
   leaveChallenge (Some uid) cid v w =
     (v, toast_error (js ''Error leaving challenge: '' @ message e) (logged (DeleteParticipant cid uid) w))"
  by (simp add: leaveChallenge_def call_Inl)

lemma leaveChallenge_ok:
  "outcome (delete_participant uid cid uid) w = Inr ((), d) \<Longrightarrow>
   leaveChallenge (Some uid) cid v w =
     fetchMyParticipations (Some uid) v
       (toast_success (js ''Left challenge successfully'') ((logged (DeleteParticipant cid uid) w)\<lparr> db := d \<rparr>))"
  by (simp add: leaveChallenge_def call_Inr)

lemma joinChallenge_db:
  "db (snd (joinChallenge (Some uid) cid v w)) =
     (case outcome (insert_participant uid (clock w) cid uid) w of Inl e \<Rightarrow> db w | Inr (a, d) \<Rightarrow> d)"
  by (cases "outcome (insert_participant uid (clock w) cid uid) w")
     (auto simp: joinChallenge_fail joinChallenge_ok)

lemma leaveChallenge_db:
  "db (snd (leaveChallenge (Some uid) cid v w)) =
     (case outcome (delete_participant uid cid uid) w of Inl e \<Rightarrow> db w | Inr (a, d) \<Rightarrow> d)"
  by (cases "outcome (delete_participant uid cid uid) w")
     (auto simp: leaveChallenge_fail leaveChallenge_ok)

lemma insert_participant_unique:
  assumes "unique_participation d" and "insert_participant auth now cid uid d = Inr (a, d')"
  shows "unique_participation d'"
proof -
  from assms(2) have new: "\<not> list_ex (\<lambda>p. p_challenge_id p = cid \<and> p_user_id p = uid) (challenge_participants d)"
    and d': "challenge_participants d' = challenge_participants d @
               [\<lparr> p_id = next_uuid d, p_challenge_id = cid, p_user_id = uid, p_joined_at = now \<rparr>]"
    by (auto simp: insert_participant_def split: if_splits)
  from new have "(cid, uid) \<notin> set (participation_keys d)"
    by (auto simp: participation_keys_def list_ex_iff)
  with assms(1) show ?thesis
    by (simp add: unique_participation_def participation_keys_def d')
qed

lemma delete_participant_unique:
  "unique_participation d \<Longrightarrow> delete_participant auth cid uid d = Inr (a, d') \<Longrightarrow>
   unique_participation d'"
  by (auto simp: delete_participant_def unique_participation_def participation_keys_def
      distinct_map_filter)

lemma challenge_step_unique:
  assumes u: "unique_participation (db (snd s))"
  shows "unique_participation (db (snd (challenge_step s e)))"
proof (cases s)
  case (Pair v w)
  show ?thesis
  proof (cases e)
    case (Join uid cid)
    show ?thesis
    proof (cases "outcome (insert_participant uid (clock w) cid uid) w")
      case (Inl x)
      then show ?thesis using u Pair Join by (simp add: joinChallenge_db)
    next
      case (Inr x)
      obtain d where x: "x = ((), d)" by (cases x) auto
      from Inr x have "insert_participant uid (clock w) cid uid (db w) = Inr ((), d)"
        by (simp add: outcome_Inr)
      with u Pair have "unique_participation d"
        by (auto intro: insert_participant_unique)
      then show ?thesis using Inr x Pair Join by (simp add: joinChallenge_db)
    qed
  next
    case (Leave uid cid)
    show ?thesis
    proof (cases "outcome (delete_participant uid cid uid) w")
      case (Inl x)
      then show ?thesis using u Pair Leave by (simp add: leaveChallenge_db)
    next
      case (Inr x)
      obtain d where x: "x = ((), d)" by (cases x) auto
      from Inr x have "delete_participant uid cid uid (db w) = Inr ((), d)"
        by (simp add: outcome_Inr)
      with u Pair have "unique_participation d"
        by (auto intro: delete_participant_unique)
      then show ?thesis using Inr x Pair Leave by (simp add: leaveChallenge_db)
    qed
  qed
qed

lemma run_challenges_unique:
  "unique_participation (db (snd s)) \<Longrightarrow> unique_participation (db (snd (run_challenges s es)))"
  unfolding run_challenges_def
  by (induction es arbitrary: s) (simp_all add: challenge_step_unique)

lemma insert_participant_duplicate:
  "list_ex (\<lambda>p. p_challenge_id p = cid \<and> p_user_id p = uid) (challenge_participants d) \<Longrightarrow>
   insert_participant uid now cid uid d = Inl UniqueViolation"
  by (simp add: insert_participant_def)

lemma outcome_duplicate:
  assumes "list_ex (\<lambda>p. p_challenge_id p = cid \<and> p_user_id p = uid) (challenge_participants (db w))"
  shows "outcome (insert_participant uid (clock w) cid uid) w =
           Inl (case next_fault w of Some e \<Rightarrow> e | None \<Rightarrow> UniqueViolation)"
  using assms by (simp add: outcome_def insert_participant_duplicate split: option.splits)

lemma delete_participant_own:
  "delete_participant uid cid uid d =
     Inr ((), d\<lparr> challenge_participants :=
                  filter (\<lambda>p. \<not> (p_challenge_id p = cid \<and> p_user_id p = uid)) (challenge_participants d) \<rparr>)"
proof -
  have "(\<lambda>p. \<not> (p_user_id p = uid \<and> p_challenge_id p = cid \<and> p_user_id p = uid)) =
        (\<lambda>p. \<not> (p_challenge_id p = cid \<and> p_user_id p = uid))"
    by auto
  then show ?thesis by (simp add: delete_participant_def)
qed

text \<open>
  C6. When the table already holds a participation row for a challenge and a user, a further
  join by that user changes no table, and when the request reaches the backend it is the
  uniqueness constraint that rejects it (the notification carries its message). A leave
  that the backend carries out removes the rows of that user for that challenge and changes
  nothing else in any table. Whatever sequence of joins and leaves users perform, and
  whichever of the requests fail, a table with at most one row for each pair of challenge
  and user stays so.
\<close>

theorem participation_at_most_once:
  "(list_ex (\<lambda>p. p_challenge_id p = cid \<and> p_user_id p = uid) (challenge_participants (db w)) \<longrightarrow>
      db (snd (joinChallenge (Some uid) cid v w)) = db w \<and>
      (next_fault w = None \<longrightarrow>
         toasts (snd (joinChallenge (Some uid) cid v w)) =
           toasts w @ [ToastError (js ''Error joining challenge: '' @ message UniqueViolation)])) \<and>
   (next_fault w = None \<longrightarrow>
      db (snd (leaveChallenge (Some uid) cid v w)) =
        (db w)\<lparr> challenge_participants :=
                   filter (\<lambda>p. \<not> (p_challenge_id p = cid \<and> p_user_id p = uid))
                     (challenge_participants (db w)) \<rparr>) \<and>
   (unique_participation (db w) \<longrightarrow>
      unique_participation (db (snd (run_challenges (v, w) es))))"
proof (intro conjI impI)
  assume dup: "list_ex (\<lambda>p. p_challenge_id p = cid \<and> p_user_id p = uid) (challenge_participants (db w))"
  show "db (snd (joinChallenge (Some uid) cid v w)) = db w"
    by (simp add: joinChallenge_db outcome_duplicate [OF dup])
  assume "next_fault w = None"
  then show "toasts (snd (joinChallenge (Some uid) cid v w)) =
           toasts w @ [ToastError (js ''Error joining challenge: '' @ message UniqueViolation)]"
    using outcome_duplicate [OF dup] by (simp add: joinChallenge_fail)
next
  assume "next_fault w = None"
  then show "db (snd (leaveChallenge (Some uid) cid v w)) =
        (db w)\<lparr> challenge_participants :=
                   filter (\<lambda>p. \<not> (p_challenge_id p = cid \<and> p_user_id p = uid))
                     (challenge_participants (db w)) \<rparr>"
    by (simp add: leaveChallenge_db delete_participant_own)
next
  assume "unique_participation (db w)"
  then show "unique_participation (db (snd (run_challenges (v, w) es)))"
    using run_challenges_unique [of "(v, w)" es] by simp
qed

theorem participation_at_most_once_witness:
  "list_ex (\<lambda>p. p_challenge_id p = 10 \<and> p_user_id p = 1) (challenge_participants (db challenge_world)) \<and>
   next_fault challenge_world = None \<and>
   unique_participation (db challenge_world) \<and>
   db (snd (joinChallenge (Some 1) 10 challenges_view challenge_world)) = db challenge_world \<and>
   toasts (snd (joinChallenge (Some 1) 10 challenges_view challenge_world)) =
     toasts challenge_world @ [ToastError (js ''Error joining challenge: '' @ message UniqueViolation)] \<and>
   db (snd (leaveChallenge (Some 1) 10 challenges_view challenge_world)) =
     (db challenge_world)\<lparr> challenge_participants :=
        filter (\<lambda>p. \<not> (p_challenge_id p = 10 \<and> p_user_id p = 1))
          (challenge_participants (db challenge_world)) \<rparr> \<and>
   unique_participation (db (snd (run_challenges (challenges_view, challenge_world)
     [Leave 1 10, Join 1 10, Join 1 10, Join 2 10])))"
proof -
  have a: "list_ex (\<lambda>p. p_challenge_id p = 10 \<and> p_user_id p = 1) (challenge_participants (db challenge_world))"
    by (simp add: challenge_world_def world0_def empty_db_def)
  have b: "next_fault challenge_world = None"
    by (simp add: challenge_world_def world0_def next_fault_def)
  have c: "unique_participation (db challenge_world)"
    by (simp add: challenge_world_def world0_def empty_db_def unique_participation_def participation_keys_def)
  from participation_at_most_once [of 10 1 challenge_world challenges_view
      "[Leave 1 10, Join 1 10, Join 1 10, Join 2 10]"] a b c
  show ?thesis by blast
qed

subsection \<open>What counts as today\<close>

lemma div_eq_iff_interval:
  fixes a D n :: int
  assumes "0 < D"
  shows "a div D = n \<longleftrightarrow> n * D \<le> a \<and> a < (n + 1) * D"
proof
  assume n: "a div D = n"
  have "a = D * (a div D) + a mod D" by simp
  moreover have "0 \<le> a mod D" "a mod D < D" using assms by simp_all
  ultimately have "D * (a div D) \<le> a" "a < D * (a div D) + D" by linarith+
  then show "n * D \<le> a \<and> a < (n + 1) * D"
    using n by (simp add: algebra_simps)
next
  assume b: "n * D \<le> a \<and> a < (n + 1) * D"
  then have "0 \<le> a - n * D" "a - n * D < D" by (simp_all add: algebra_simps)
  then have "(a - n * D) div D = 0" by (rule div_pos_pos_trivial)
  moreover have "(a - n * D + n * D) div D = n + (a - n * D) div D"
    using assms by (intro div_mult_self1) simp
  moreover have "a - n * D + n * D = a" by simp
  ultimately show "a div D = n" by simp
qed

lemma same_local_day_iff: "local_day tz t = local_day tz now \<longleftrightarrow> spec_is_today tz now t"
  unfolding local_day_def spec_is_today_def
  using div_eq_iff_interval [of ms_per_day "t + tz" "(now + tz) div ms_per_day"]
  by (auto simp: ms_per_day_def)

lemma isCompletedToday_is_spec:
  "isCompletedToday tz now habit \<longleftrightarrow>
     (case completions habit of
        None \<Rightarrow> False
      | Some cs \<Rightarrow> list_ex (\<lambda>c. spec_is_today tz now (ce_completed_at c)) cs)"
  by (simp add: isCompletedToday_def same_local_day_iff split: option.splits)


lemma today_window_ends_a_second_early:
  "zoneless_instant tz (local_day tz now, hms 0 0 0) = local_day tz now * ms_per_day - tz \<and>
   zoneless_instant tz (local_day tz now, hms 23 59 59) =
     (local_day tz now + 1) * ms_per_day - tz - 1000"
  by (simp add: zoneless_instant_def pg_timestamp_def hms_def ms_per_day_def algebra_simps)

text \<open>
  C4 at two failing inputs. Client and backend are on UTC. First, it is 23:59:59.900 of
  day 0: a timestamp of 23:59:59.500 of that day lies between the local midnight and the next
  one, and the completed-today check of the habits screen, which compares local dates, takes
  a habit holding a completion of then for completed today; but the mood-entry-for-today
  check does not find the mood entry stored then, and the dashboard counts no completion of
  today: their window ends at 23:59:59, exclusive. Second, it is 13:53:20 of day 0 and the
  user has completed a habit at noon: \<open>fetchHabits\<close> delivers the completion under
  \<open>habit_completions\<close>, the check reads \<open>completions\<close>, which is absent, and the habit is not
  taken for completed today.
\<close>

theorem today_checks_fail:
  "spec_is_today (client_tz late_world) (clock late_world) 86399500 \<and>
   isCompletedToday (client_tz late_world) (clock late_world) late_habit \<and>
   todayMood (fst (checkTodayMood (Some 1) (mood_view\<lparr> todayMood := None \<rparr>) late_world)) = None \<and>
   todayCompleted (stats (fst (fetchDashboardData (Some 1) initial_Dashboard late_world))) = 0 \<and>
   spec_is_today (client_tz noon_world) (clock noon_world) 43200000 \<and>
   map hb_habit_completions (hm_habits (fst (fetchHabits (Some 1) habits_view noon_world))) =
     [[\<lparr> ce_completed_at = 43200000, ce_mood_rating = None \<rparr>]] \<and>
   map (isCompletedToday (client_tz noon_world) (clock noon_world))
     (hm_habits (fst (fetchHabits (Some 1) habits_view noon_world))) = [False]"
  by (simp add: spec_is_today_def isCompletedToday_def late_habit_def late_world_def world0_def
      empty_db_def local_day_def ms_per_day_def checkTodayMood_def mood_view_def call_def
      outcome_def next_fault_def logged_def select_mood_between_def zoneless_instant_def
      pg_timestamp_def hms_def fetchDashboardData_def initial_Dashboard_def
      select_completions_between_def data_length_def Let_def split_def
      noon_world_def fetchHabits_def habits_view_def select_habits_with_completions_def
      visible_habits_def embed_completions_def order_desc_def reading_habit_def)

subsection \<open>One mood row a day\<close>

text \<open>
  C2 at a failing input. Client and backend are on UTC. User 1 submits a mood at
  23:59:59.200 of day 0 and again at 23:59:59.700 of the same day: the check for an entry of
  today does not see the first row, so the second submission inserts, and the user has two
  mood rows for day 0. The same two submissions earlier in the day, at 23:59:57.200 and
  23:59:58.700, leave one row.
\<close>

theorem mood_submitted_twice_in_last_second:
  "mood_days 0 1
     (db (snd (submitMoodEntry (Some 1) mood_view
        (at_clock 86399700
           (snd (submitMoodEntry (Some 1) mood_view (at_clock 86399200 world0))))))) = [0, 0] \<and>
   mood_days 0 1
     (db (snd (submitMoodEntry (Some 1) mood_view
        (at_clock 86398700
           (snd (submitMoodEntry (Some 1) mood_view (at_clock 86397200 world0))))))) = [0]"
  by (simp add: mood_days_def submitMoodEntry_def mood_view_def at_clock_def world0_def empty_db_def
      call_def outcome_def next_fault_def logged_def find_today_entry_def single_def
      select_mood_between_def zoneless_instant_def pg_timestamp_def hms_def local_day_def
      ms_per_day_def insert_mood_def update_mood_def mood_rating_ok_def fetchMoodEntries_def
      select_mood_entries_def order_desc_def toast_success_def Let_def split_def
      or_null_def trim_def js_def js_whitespace_def)

subsection \<open>The handlers, case by case\<close>

text \<open>
  What each handler returns when its write succeeds and when it fails, and what each fetch
  returns with and without a fault.
\<close>

lemma fetchHabits_ok:
  "next_fault w = None \<Longrightarrow>
   fetchHabits (Some uid) v w =
     (v\<lparr> hm_habits := select_habits_with_completions uid uid (db w), hm_loading := False \<rparr>,
      logged (SelectHabitsWithCompletions uid) w)"
  by (simp add: fetchHabits_def call_def logged_def)

lemma fetchHabits_fail:
  "next_fault w = Some e \<Longrightarrow>
   fetchHabits (Some uid) v w =
     (v\<lparr> hm_loading := False \<rparr>,
      toast_error (js ''Error fetching habits: '' @ message e) (logged (SelectHabitsWithCompletions uid) w))"
  by (simp add: fetchHabits_def call_def outcome_def)

lemma fetchHabits_db [simp]: "db (snd (fetchHabits (Some uid) v w)) = db w"
  by (cases "next_fault w") (simp_all add: fetchHabits_ok fetchHabits_fail)

lemma fetchHabits_calls [simp]:
  "calls (snd (fetchHabits (Some uid) v w)) = calls w @ [SelectHabitsWithCompletions uid]"
  by (cases "next_fault w") (simp_all add: fetchHabits_ok fetchHabits_fail)

lemma fetchHabits_list:
  "next_fault w = None \<Longrightarrow>
   hm_habits (fst (fetchHabits (Some uid) v w)) = select_habits_with_completions uid uid (db w)"
  by (simp add: fetchHabits_ok)

lemma completeHabit_fail:
  "outcome (insert_habit_completion uid hid uid (clock w)) w = Inl e \<Longrightarrow>
   completeHabit (Some uid) hid v w =
     (v, toast_error (js ''Error completing habit: '' @ message e)
           (logged (InsertHabitCompletion hid uid (clock w)) w))"
  by (simp add: completeHabit_def call_Inl)

lemma completeHabit_ok:
  "outcome (insert_habit_completion uid hid uid (clock w)) w = Inr ((), d) \<Longrightarrow>
   completeHabit (Some uid) hid v w =
     fetchHabits (Some uid) v
       (toast_success (js ''Habit completed! '' @ party)
          ((logged (InsertHabitCompletion hid uid (clock w)) w)\<lparr> db := d \<rparr>))"
  by (simp add: completeHabit_def call_Inr)

lemma deleteHabit_fail:
  "outcome (update_habit_inactive uid (clock w) hid) w = Inl e \<Longrightarrow>
   deleteHabit (Some uid) hid v w =
     (v, toast_error (js ''Error deleting habit: '' @ message e) (logged (UpdateHabitInactive hid) w))"
  by (simp add: deleteHabit_def call_Inl)

lemma deleteHabit_ok:
  "outcome (update_habit_inactive uid (clock w) hid) w = Inr ((), d) \<Longrightarrow>
   deleteHabit (Some uid) hid v w =
     fetchHabits (Some uid) v
       (toast_success (js ''Habit deleted successfully'')
          ((logged (UpdateHabitInactive hid) w)\<lparr> db := d \<rparr>))"
  by (simp add: deleteHabit_def call_Inr)

lemma handleSubmit_create_fail:
  "selectedHabit v = None \<Longrightarrow>
   outcome (insert_habits uid (clock w) [habitData uid (cm_formData m)]) w = Inl e \<Longrightarrow>
   handleSubmit (Some uid) (m, v) w =
     ((m\<lparr> cm_loading := False \<rparr>, v),
      toast_error (js ''Error saving habit: '' @ message e)
        (logged (InsertHabits [habitData uid (cm_formData m)]) w))"
  by (simp add: handleSubmit_def call_Inl)

lemma handleSubmit_create_ok:
  "selectedHabit v = None \<Longrightarrow>
   outcome (insert_habits uid (clock w) [habitData uid (cm_formData m)]) w = Inr ((), d) \<Longrightarrow>
   handleSubmit (Some uid) (m, v) w =
     ((m\<lparr> cm_formData := initial_formData, cm_loading := False \<rparr>,
       (fst (fetchHabits (Some uid) v
          (toast_success (js ''Habit created successfully!'')
             ((logged (InsertHabits [habitData uid (cm_formData m)]) w)\<lparr> db := d \<rparr>))))
         \<lparr> showCreateModal := False \<rparr>),
      snd (fetchHabits (Some uid) v
          (toast_success (js ''Habit created successfully!'')
             ((logged (InsertHabits [habitData uid (cm_formData m)]) w)\<lparr> db := d \<rparr>))))"
  by (simp add: handleSubmit_def call_Inr split_def Let_def)

lemma handleSubmit_update_fail:
  "selectedHabit v = Some eh \<Longrightarrow>
   outcome (update_habit uid (clock w) (h_id (hb_row eh)) (habitData uid (cm_formData m))) w = Inl e \<Longrightarrow>
   handleSubmit (Some uid) (m, v) w =
     ((m\<lparr> cm_loading := False \<rparr>, v),
      toast_error (js ''Error saving habit: '' @ message e)
        (logged (UpdateHabit (h_id (hb_row eh)) (habitData uid (cm_formData m))) w))"
  by (simp add: handleSubmit_def call_Inl)

lemma handleSubmit_update_ok:
  "selectedHabit v = Some eh \<Longrightarrow>
   outcome (update_habit uid (clock w) (h_id (hb_row eh)) (habitData uid (cm_formData m))) w = Inr ((), d) \<Longrightarrow>
   handleSubmit (Some uid) (m, v) w =
     ((m\<lparr> cm_formData := initial_formData, cm_loading := False \<rparr>,
       (fst (fetchHabits (Some uid) v
          (toast_success (js ''Habit updated successfully!'')
             ((logged (UpdateHabit (h_id (hb_row eh)) (habitData uid (cm_formData m))) w)\<lparr> db := d \<rparr>))))
         \<lparr> showCreateModal := False \<rparr>),
      snd (fetchHabits (Some uid) v
          (toast_success (js ''Habit updated successfully!'')
             ((logged (UpdateHabit (h_id (hb_row eh)) (habitData uid (cm_formData m))) w)\<lparr> db := d \<rparr>))))"
  by (simp add: handleSubmit_def call_Inr split_def Let_def)

lemma fetchMoodEntries_ok:
  "next_fault w = None \<Longrightarrow>
   fetchMoodEntries (Some uid) v w =
     (v\<lparr> moodEntries := select_mood_entries uid uid (db w), mj_loading := False \<rparr>,
      logged (SelectMoodEntries uid) w)"
  by (simp add: fetchMoodEntries_def call_def logged_def)

lemma fetchMoodEntries_fail:
  "next_fault w = Some e \<Longrightarrow>
   fetchMoodEntries (Some uid) v w =
     (v\<lparr> mj_loading := False \<rparr>,
      console_error (js ''Error fetching mood entries:'') e (logged (SelectMoodEntries uid) w))"
  by (simp add: fetchMoodEntries_def call_def outcome_def)

lemma fetchMoodEntries_db [simp]: "db (snd (fetchMoodEntries (Some uid) v w)) = db w"
  by (cases "next_fault w") (simp_all add: fetchMoodEntries_ok fetchMoodEntries_fail)

lemma fetchMoodEntries_calls [simp]:
  "calls (snd (fetchMoodEntries (Some uid) v w)) = calls w @ [SelectMoodEntries uid]"
  by (cases "next_fault w") (simp_all add: fetchMoodEntries_ok fetchMoodEntries_fail)

lemma find_today_entry_db:
  "outcome (find_today_entry uid stz today) w = Inr (i, d0) \<Longrightarrow> d0 = db w"
  by (auto simp: outcome_def find_today_entry_def split: option.splits sum.splits)

lemma submitMoodEntry_insert_fail:
  assumes "todayMood v = Some mood"
    and "outcome (find_today_entry uid (server_tz w) (local_day (client_tz w) (clock w))) w = Inl e0"
    and "outcome (insert_mood uid (clock w) uid mood (or_null (trim (reflection v))))
           (logged (SelectMoodBetweenSingle uid (local_day (client_tz w) (clock w), hms 0 0 0)
                      (local_day (client_tz w) (clock w), hms 23 59 59)) w) = Inl e"
  shows "submitMoodEntry (Some uid) v w =
     (v\<lparr> submitting := False \<rparr>,
      toast_error (js ''Error saving mood entry: '' @ message e)
        (logged (InsertMood uid mood (or_null (trim (reflection v))))
           (logged (SelectMoodBetweenSingle uid (local_day (client_tz w) (clock w), hms 0 0 0)
                      (local_day (client_tz w) (clock w), hms 23 59 59)) w)))"
  using assms by (simp add: submitMoodEntry_def call_Inl Let_def)

lemma submitMoodEntry_insert_ok:
  assumes "todayMood v = Some mood"
    and "outcome (find_today_entry uid (server_tz w) (local_day (client_tz w) (clock w))) w = Inl e0"
    and "outcome (insert_mood uid (clock w) uid mood (or_null (trim (reflection v))))
           (logged (SelectMoodBetweenSingle uid (local_day (client_tz w) (clock w), hms 0 0 0)
                      (local_day (client_tz w) (clock w), hms 23 59 59)) w) = Inr ((), d)"
  shows "submitMoodEntry (Some uid) v w =
     ((fst (fetchMoodEntries (Some uid) (v\<lparr> submitting := True \<rparr>)
        (toast_success (js ''Mood recorded successfully! '' @ blue_heart)
          ((logged (InsertMood uid mood (or_null (trim (reflection v))))
             (logged (SelectMoodBetweenSingle uid (local_day (client_tz w) (clock w), hms 0 0 0)
                      (local_day (client_tz w) (clock w), hms 23 59 59)) w))\<lparr> db := d \<rparr>))))
        \<lparr> submitting := False \<rparr>,
      snd (fetchMoodEntries (Some uid) (v\<lparr> submitting := True \<rparr>)
        (toast_success (js ''Mood recorded successfully! '' @ blue_heart)
          ((logged (InsertMood uid mood (or_null (trim (reflection v))))
             (logged (SelectMoodBetweenSingle uid (local_day (client_tz w) (clock w), hms 0 0 0)
                      (local_day (client_tz w) (clock w), hms 23 59 59)) w))\<lparr> db := d \<rparr>))))"
  using assms by (simp add: submitMoodEntry_def call_Inl call_Inr Let_def split_def)

lemma submitMoodEntry_update_fail:
  assumes "todayMood v = Some mood"
    and "outcome (find_today_entry uid (server_tz w) (local_day (client_tz w) (clock w))) w = Inr (i, d0)"
    and "outcome (update_mood uid i mood (or_null (trim (reflection v))))
           (logged (SelectMoodBetweenSingle uid (local_day (client_tz w) (clock w), hms 0 0 0)
                      (local_day (client_tz w) (clock w), hms 23 59 59)) w) = Inl e"
  shows "submitMoodEntry (Some uid) v w =
     (v\<lparr> submitting := False \<rparr>,
      toast_error (js ''Error saving mood entry: '' @ message e)
        (logged (UpdateMood i mood (or_null (trim (reflection v))))
           (logged (SelectMoodBetweenSingle uid (local_day (client_tz w) (clock w), hms 0 0 0)
                      (local_day (client_tz w) (clock w), hms 23 59 59)) w)))"
proof -
  have d0: "d0 = db w" using assms(2) by (rule find_today_entry_db)
  have same: "(logged r w)\<lparr> db := db w \<rparr> = logged r w" for r
    by (simp add: logged_def)
  show ?thesis
    using assms by (simp add: submitMoodEntry_def call_Inl call_Inr Let_def d0 same)
qed

lemma submitMoodEntry_update_ok:
  assumes "todayMood v = Some mood"
    and "outcome (find_today_entry uid (server_tz w) (local_day (client_tz w) (clock w))) w = Inr (i, d0)"
    and "outcome (update_mood uid i mood (or_null (trim (reflection v))))
           (logged (SelectMoodBetweenSingle uid (local_day (client_tz w) (clock w), hms 0 0 0)
                      (local_day (client_tz w) (clock w), hms 23 59 59)) w) = Inr ((), d)"
  shows "submitMoodEntry (Some uid) v w =
     ((fst (fetchMoodEntries (Some uid) (v\<lparr> submitting := True \<rparr>)
        (toast_success (js ''Mood updated successfully! '' @ blue_heart)
          ((logged (UpdateMood i mood (or_null (trim (reflection v))))
             (logged (SelectMoodBetweenSingle uid (local_day (client_tz w) (clock w), hms 0 0 0)
                      (local_day (client_tz w) (clock w), hms 23 59 59)) w))\<lparr> db := d \<rparr>))))
        \<lparr> submitting := False \<rparr>,
      snd (fetchMoodEntries (Some uid) (v\<lparr> submitting := True \<rparr>)
        (toast_success (js ''Mood updated successfully! '' @ blue_heart)
          ((logged (UpdateMood i mood (or_null (trim (reflection v))))
             (logged (SelectMoodBetweenSingle uid (local_day (client_tz w) (clock w), hms 0 0 0)
                      (local_day (client_tz w) (clock w), hms 23 59 59)) w))\<lparr> db := d \<rparr>))))"
proof -
  have d0: "d0 = db w" using assms(2) by (rule find_today_entry_db)
  have same: "(logged r w)\<lparr> db := db w \<rparr> = logged r w" for r
    by (simp add: logged_def)
  show ?thesis
    using assms by (simp add: submitMoodEntry_def call_Inl call_Inr Let_def split_def d0 same)
qed

lemma set_order_desc [simp]: "set (order_desc key xs) = set xs"
  by (simp add: order_desc_def)

lemma titles_after_insert:
  assumes "insert_habits uid now [r] d0 = Inr ((), d)"
  shows "hd_title r \<in> set (map (h_title \<circ> hb_row) (select_habits_with_completions uid uid d))"
proof -
  from assms have own: "hd_user_id r = uid"
    and d: "habits d = habits d0 @ [new_habit now (next_uuid d0) r]"
    by (auto simp: insert_habits_def split: if_splits)
  have "new_habit now (next_uuid d0) r \<in> set (visible_habits uid uid d)"
    by (simp add: visible_habits_def d new_habit_def own)
  then have "h_title (new_habit now (next_uuid d0) r) \<in>
      set (map (h_title \<circ> hb_row) (select_habits_with_completions uid uid d))"
    by (force simp: select_habits_with_completions_def)
  then show ?thesis by (simp add: new_habit_def)
qed

lemma ids_after_deactivate:
  assumes "update_habit_inactive uid now hid d0 = Inr ((), d)"
  shows "hid \<notin> set (map (h_id \<circ> hb_row) (select_habits_with_completions uid uid d))"
proof -
  define g :: "habit_row \<Rightarrow> habit_row" where "g = (\<lambda>h. if h_id h = hid \<and> h_user_id h = uid
                           then h\<lparr> h_is_active := False, h_updated_at := now \<rparr> else h)"
  from assms have d: "habits d = map g (habits d0)"
    by (auto simp: update_habit_inactive_def g_def)
  have "h_id h \<noteq> hid" if h: "h \<in> set (visible_habits uid uid d)" for h
  proof -
    from h have "h \<in> set (map g (habits d0))" and u: "h_user_id h = uid" and a: "h_is_active h"
      by (simp_all add: visible_habits_def d)
    then obtain h0 where h0: "h = g h0" by auto
    show ?thesis
    proof (cases "h_id h0 = hid \<and> h_user_id h0 = uid")
      case True
      then have "\<not> h_is_active h" by (simp add: h0 g_def)
      with a show ?thesis by simp
    next
      case False
      then have "h = h0" unfolding h0 g_def by auto
      with False u show ?thesis by auto
    qed
  qed
  then show ?thesis
    by (auto simp: select_habits_with_completions_def)
qed

lemma joined_after_insert:
  assumes "insert_participant uid now cid uid d0 = Inr ((), d)"
  shows "cid \<in> set (select_participations uid d)"
proof -
  from assms have "challenge_participants d = challenge_participants d0 @
       [\<lparr> p_id = next_uuid d0, p_challenge_id = cid, p_user_id = uid, p_joined_at = now \<rparr>]"
    by (auto simp: insert_participant_def split: if_splits)
  then show ?thesis by (simp add: select_participations_def)
qed

lemma left_after_delete:
  assumes "delete_participant uid cid uid d0 = Inr ((), d)"
  shows "cid \<notin> set (select_participations uid d)"
  using assms by (auto simp: delete_participant_def select_participations_def)

lemma completeHabit_refetch:
  assumes "outcome (insert_habit_completion uid hid uid (clock w)) w = Inr ((), d)"
  shows "calls (snd (completeHabit (Some uid) hid v w)) =
           calls w @ [InsertHabitCompletion hid uid (clock w), SelectHabitsWithCompletions uid] \<and>
         db (snd (completeHabit (Some uid) hid v w)) = d \<and>
         (fault_at 1 w = None \<longrightarrow>
            hm_habits (fst (completeHabit (Some uid) hid v w)) =
              select_habits_with_completions uid uid d)"
  by (simp add: completeHabit_ok [OF assms] fetchHabits_list)

lemma deleteHabit_refetch:
  assumes "outcome (update_habit_inactive uid (clock w) hid) w = Inr ((), d)"
  shows "calls (snd (deleteHabit (Some uid) hid v w)) =
           calls w @ [UpdateHabitInactive hid, SelectHabitsWithCompletions uid] \<and>
         db (snd (deleteHabit (Some uid) hid v w)) = d \<and>
         (fault_at 1 w = None \<longrightarrow>
            hm_habits (fst (deleteHabit (Some uid) hid v w)) =
              select_habits_with_completions uid uid d \<and>
            hid \<notin> set (map (h_id \<circ> hb_row) (hm_habits (fst (deleteHabit (Some uid) hid v w)))))"
  using ids_after_deactivate [OF outcome_Inr [OF assms]]
  by (simp add: deleteHabit_ok [OF assms] fetchHabits_list)

lemma joinChallenge_refetch:
  assumes "outcome (insert_participant uid (clock w) cid uid) w = Inr ((), d)"
  shows "calls (snd (joinChallenge (Some uid) cid v w)) =
           calls w @ [InsertParticipant cid uid, SelectParticipations uid] \<and>
         db (snd (joinChallenge (Some uid) cid v w)) = d \<and>
         (fault_at 1 w = None \<longrightarrow>
            myParticipations (fst (joinChallenge (Some uid) cid v w)) = select_participations uid d \<and>
            cid \<in> set (myParticipations (fst (joinChallenge (Some uid) cid v w))))"
  using joined_after_insert [OF outcome_Inr [OF assms]]
  by (simp add: joinChallenge_ok [OF assms] fetchMyParticipations_ok)

lemma leaveChallenge_refetch:
  assumes "outcome (delete_participant uid cid uid) w = Inr ((), d)"
  shows "calls (snd (leaveChallenge (Some uid) cid v w)) =
           calls w @ [DeleteParticipant cid uid, SelectParticipations uid] \<and>
         db (snd (leaveChallenge (Some uid) cid v w)) = d \<and>
         (fault_at 1 w = None \<longrightarrow>
            myParticipations (fst (leaveChallenge (Some uid) cid v w)) = select_participations uid d \<and>
            cid \<notin> set (myParticipations (fst (leaveChallenge (Some uid) cid v w))))"
  using left_after_delete [OF outcome_Inr [OF assms]]
  by (simp add: leaveChallenge_ok [OF assms] fetchMyParticipations_ok)

lemma handleSubmit_create_refetch:
  assumes "selectedHabit v = None"
    and "outcome (insert_habits uid (clock w) [habitData uid (cm_formData m)]) w = Inr ((), d)"
  shows "calls (snd (handleSubmit (Some uid) (m, v) w)) =
           calls w @ [InsertHabits [habitData uid (cm_formData m)], SelectHabitsWithCompletions uid] \<and>
         db (snd (handleSubmit (Some uid) (m, v) w)) = d \<and>
         (fault_at 1 w = None \<longrightarrow>
            hm_habits (snd (fst (handleSubmit (Some uid) (m, v) w))) =
              select_habits_with_completions uid uid d \<and>
            fd_title (cm_formData m) \<in>
              set (map (h_title \<circ> hb_row) (hm_habits (snd (fst (handleSubmit (Some uid) (m, v) w))))))"
proof -
  have t: "hd_title (habitData uid (cm_formData m)) \<in>
             set (map (h_title \<circ> hb_row) (select_habits_with_completions uid uid d))"
    by (rule titles_after_insert [OF outcome_Inr [OF assms(2)]])
  have ti: "hd_title (habitData uid (cm_formData m)) = fd_title (cm_formData m)"
    by (simp add: habitData_def)
  show ?thesis
    unfolding handleSubmit_create_ok [OF assms]
    using t unfolding ti
    by (simp add: fetchHabits_list)
qed

lemma handleSubmit_update_refetch:
  assumes "selectedHabit v = Some eh"
    and "outcome (update_habit uid (clock w) (h_id (hb_row eh)) (habitData uid (cm_formData m))) w = Inr ((), d)"
  shows "calls (snd (handleSubmit (Some uid) (m, v) w)) =
           calls w @ [UpdateHabit (h_id (hb_row eh)) (habitData uid (cm_formData m)),
                      SelectHabitsWithCompletions uid] \<and>
         db (snd (handleSubmit (Some uid) (m, v) w)) = d \<and>
         (fault_at 1 w = None \<longrightarrow>
            hm_habits (snd (fst (handleSubmit (Some uid) (m, v) w))) =
              select_habits_with_completions uid uid d)"
  unfolding handleSubmit_update_ok [OF assms]
  by (simp add: fetchHabits_list)

lemma fault_at_2 [simp]: "fault_at (Suc (Suc 0)) w = fault_at 2 w"
  by (simp add: numeral_2_eq_2)

lemma fetchMoodEntries_list:
  "next_fault w = None \<Longrightarrow>
   moodEntries (fst (fetchMoodEntries (Some uid) v w)) = select_mood_entries uid uid (db w)"
  by (simp add: fetchMoodEntries_ok)

lemma submitMoodEntry_insert_refetch:
  assumes "todayMood v = Some mood"
    and "outcome (find_today_entry uid (server_tz w) (local_day (client_tz w) (clock w))) w = Inl e0"
    and "outcome (insert_mood uid (clock w) uid mood (or_null (trim (reflection v))))
           (logged (SelectMoodBetweenSingle uid (local_day (client_tz w) (clock w), hms 0 0 0)
                      (local_day (client_tz w) (clock w), hms 23 59 59)) w) = Inr ((), d)"
  shows "calls (snd (submitMoodEntry (Some uid) v w)) =
           calls w @ [SelectMoodBetweenSingle uid (local_day (client_tz w) (clock w), hms 0 0 0)
                        (local_day (client_tz w) (clock w), hms 23 59 59),
                      InsertMood uid mood (or_null (trim (reflection v))),
                      SelectMoodEntries uid] \<and>
         db (snd (submitMoodEntry (Some uid) v w)) = d \<and>
         (fault_at 2 w = None \<longrightarrow>
            moodEntries (fst (submitMoodEntry (Some uid) v w)) = select_mood_entries uid uid d)"
  unfolding submitMoodEntry_insert_ok [OF assms]
  by (simp add: fetchMoodEntries_list)

lemma submitMoodEntry_update_refetch:
  assumes "todayMood v = Some mood"
    and "outcome (find_today_entry uid (server_tz w) (local_day (client_tz w) (clock w))) w = Inr (i, d0)"
    and "outcome (update_mood uid i mood (or_null (trim (reflection v))))
           (logged (SelectMoodBetweenSingle uid (local_day (client_tz w) (clock w), hms 0 0 0)
                      (local_day (client_tz w) (clock w), hms 23 59 59)) w) = Inr ((), d)"
  shows "calls (snd (submitMoodEntry (Some uid) v w)) =
           calls w @ [SelectMoodBetweenSingle uid (local_day (client_tz w) (clock w), hms 0 0 0)
                        (local_day (client_tz w) (clock w), hms 23 59 59),
                      UpdateMood i mood (or_null (trim (reflection v))),
                      SelectMoodEntries uid] \<and>
         db (snd (submitMoodEntry (Some uid) v w)) = d \<and>
         (fault_at 2 w = None \<longrightarrow>
            moodEntries (fst (submitMoodEntry (Some uid) v w)) = select_mood_entries uid uid d)"
  unfolding submitMoodEntry_update_ok [OF assms]
  by (simp add: fetchMoodEntries_list)

lemma applyTemplate_fail:
  "outcome (insert_habits uid (clock w) (habitsToCreate uid template)) w = Inl e \<Longrightarrow>
   applyTemplate (Some uid) template v w =
     (v\<lparr> tv_loading := False \<rparr>,
      toast_error (js ''Error applying template: '' @ message e)
        (logged (InsertHabits (habitsToCreate uid template)) w))"
  by (simp add: applyTemplate_def call_Inl)

lemma select_challenges_refused:
  "outcome select_challenges_with_profiles w =
     Inl (case next_fault w of Some e \<Rightarrow> e | None \<Rightarrow> NoRelationship)"
  by (simp add: outcome_def select_challenges_with_profiles_def split: option.splits)

lemma fetchChallenges_fail:
  "outcome select_challenges_with_profiles w = Inl e \<Longrightarrow>
   fetchChallenges (Some uid) v w =
     (v\<lparr> cv_loading := False \<rparr>,
      toast_error (js ''Error fetching challenges: '' @ message e) (logged SelectChallengesWithProfiles w))"
  by (simp add: fetchChallenges_def call_Inl)

lemma fetchProofEntries_ok:
  "next_fault w = None \<Longrightarrow>
   fetchProofEntries (Some uid) v w =
     (v\<lparr> proofEntries := select_proof_entries uid uid (db w), pc_loading := False \<rparr>,
      logged (SelectProofEntries uid) w)"
  by (simp add: fetchProofEntries_def call_def logged_def)

lemma fetchProofEntries_fail:
  "next_fault w = Some e \<Longrightarrow>
   fetchProofEntries (Some uid) v w =
     (v\<lparr> pc_loading := False \<rparr>,
      toast_error (js ''Error fetching proof entries: '' @ message e) (logged (SelectProofEntries uid) w))"
  by (simp add: fetchProofEntries_def call_def outcome_def)

lemma handleFileUpload_fail:
  "outcome (upload_proof uid uid (clock w) (fileExt (file_name f)) (file_bytes f)) w = Inl e \<Longrightarrow>
   handleFileUpload (Some uid) (Some f) v w =
     (v\<lparr> uploading := False \<rparr>,
      toast_error (js ''Error uploading photo: '' @ message e)
        (logged (UploadProof uid (clock w) (fileExt (file_name f)) (file_bytes f)) w))"
  by (simp add: handleFileUpload_def call_Inl)

lemma handleFileUpload_ok:
  "outcome (upload_proof uid uid (clock w) (fileExt (file_name f)) (file_bytes f)) w = Inr ((), d) \<Longrightarrow>
   handleFileUpload (Some uid) (Some f) v w =
     (v\<lparr> uploading := False \<rparr>,
      toast_success (js ''Photo uploaded successfully! '' @ camera)
        ((logged (UploadProof uid (clock w) (fileExt (file_name f)) (file_bytes f)) w)\<lparr> db := d \<rparr>))"
  by (simp add: handleFileUpload_def call_Inr)

lemma handleSubmit_challenge_fail:
  "outcome (insert_challenge uid (clock w) (challengeData uid (ccm_formData m))) w = Inl e \<Longrightarrow>
   handleSubmit_challenge (Some uid) (m, v) w =
     ((m\<lparr> ccm_loading := False \<rparr>, v),
      toast_error (js ''Error creating challenge: '' @ message e)
        (logged (InsertChallenge (challengeData uid (ccm_formData m))) w))"
  by (simp add: handleSubmit_challenge_def call_Inl Let_def)

lemma createSelectedHabits_fail:
  "selectedHabits v \<noteq> [] \<Longrightarrow>
   list_all (\<lambda>index. index < length (suggestedHabits v)) (selectedHabits v) \<Longrightarrow>
   outcome (insert_habits uid (clock w) (selected_habitsToCreate uid v)) w = Inl e \<Longrightarrow>
   createSelectedHabits (Some uid) v w =
     (v, toast_error (js ''Error creating habits: '' @ message e)
           (logged (InsertHabits (selected_habitsToCreate uid v)) w))"
  by (simp add: createSelectedHabits_def call_Inl)

lemma createSelectedHabits_ok:
  "selectedHabits v \<noteq> [] \<Longrightarrow>
   list_all (\<lambda>index. index < length (suggestedHabits v)) (selectedHabits v) \<Longrightarrow>
   outcome (insert_habits uid (clock w) (selected_habitsToCreate uid v)) w = Inr ((), d) \<Longrightarrow>
   createSelectedHabits (Some uid) v w =
     (v\<lparr> selectedHabits := [], suggestedHabits := [], goal := [] \<rparr>,
      toast_success (show_nat (length (selectedHabits v)) @ js '' habits created successfully! '' @ party)
        ((logged (InsertHabits (selected_habitsToCreate uid v)) w)\<lparr> db := d \<rparr>))"
  by (simp add: createSelectedHabits_def call_Inr)

lemma checkTodayMood_fail:
  "next_fault w = Some e \<Longrightarrow>
   checkTodayMood (Some uid) v w =
     (v, logged (SelectMoodBetween uid (local_day (client_tz w) (clock w), hms 0 0 0)
                   (local_day (client_tz w) (clock w), hms 23 59 59)) w)"
  by (simp add: checkTodayMood_def call_def outcome_def Let_def)

lemma find_today_entry_fault:
  "next_fault w = Some e \<Longrightarrow> outcome (find_today_entry uid stz today) w = Inl e"
  by (simp add: outcome_def)

lemma submitMoodEntry_check_fails:
  assumes "todayMood v = Some mood" and "next_fault w = Some e0"
    and "outcome (insert_mood uid (clock w) uid mood (or_null (trim (reflection v))))
           (logged (SelectMoodBetweenSingle uid (local_day (client_tz w) (clock w), hms 0 0 0)
                      (local_day (client_tz w) (clock w), hms 23 59 59)) w) = Inr ((), d)"
  shows "calls (snd (submitMoodEntry (Some uid) v w)) =
           calls w @ [SelectMoodBetweenSingle uid (local_day (client_tz w) (clock w), hms 0 0 0)
                        (local_day (client_tz w) (clock w), hms 23 59 59),
                      InsertMood uid mood (or_null (trim (reflection v))),
                      SelectMoodEntries uid] \<and>
         toasts (snd (submitMoodEntry (Some uid) v w)) =
           toasts w @ [ToastSuccess (js ''Mood recorded successfully! '' @ blue_heart)]"
proof -
  have f: "outcome (find_today_entry uid (server_tz w) (local_day (client_tz w) (clock w))) w = Inl e0"
    by (rule find_today_entry_fault [OF assms(2)])
  have t: "toasts (snd (fetchMoodEntries (Some uid) v' w')) = toasts w'" for v' w'
    by (cases "next_fault w'") (simp_all add: fetchMoodEntries_ok fetchMoodEntries_fail)
  show ?thesis
    unfolding submitMoodEntry_insert_ok [OF assms(1) f assms(3)]
    by (simp add: t)
qed


lemma signed_out_more:
  "fetchChallenges None cv w = (cv, w) \<and> fetchProofEntries None pv w = (pv, w) \<and>
   handleSubmit_challenge None mv w = (mv, w) \<and> handleFileUpload None f pv w = (pv, w) \<and>
   createSelectedHabits None gv w =
     (gv, toast_error (js ''Please select at least one habit to create'') w)"
  by (simp add: fetchChallenges_def fetchProofEntries_def handleSubmit_challenge_def
      handleFileUpload_def createSelectedHabits_def split: option.splits)


subsection \<open>A successful mutation is followed by one refetch\<close>

text \<open>
  C1, as the code has it. For completing a habit, deleting a habit, creating a habit,
  editing a habit, joining a challenge, leaving a challenge and submitting a mood (first of
  the day, or again): when the backend carries out the write, the handler sends the write and
  then exactly one refetch of the affected list (the habits with their completions, the
  user's participations, the mood entries) and nothing else, the submission of a mood being
  preceded by its check for an entry of today; the tables are as the write left them; and
  when the refetch succeeds the list on the screen is the result of the list's query on these
  tables. In particular the created habit's title is among the titles listed, the deleted
  habit is not listed, the joined challenge is among the participations and the left one is
  not. Applying a template sends its bulk insert and no refetch: the templates screen keeps
  no list.
\<close>

theorem mutation_then_one_refetch:
  "(outcome (insert_habit_completion u_a h_a u_a (clock w_a)) w_a = Inr ((), d_a) \<longrightarrow>
      calls (snd (completeHabit (Some u_a) h_a v_a w_a)) =
        calls w_a @ [InsertHabitCompletion h_a u_a (clock w_a), SelectHabitsWithCompletions u_a] \<and>
      db (snd (completeHabit (Some u_a) h_a v_a w_a)) = d_a \<and>
      (fault_at 1 w_a = None \<longrightarrow>
         hm_habits (fst (completeHabit (Some u_a) h_a v_a w_a)) =
           select_habits_with_completions u_a u_a d_a)) \<and>
   (outcome (update_habit_inactive u_b (clock w_b) h_b) w_b = Inr ((), d_b) \<longrightarrow>
      calls (snd (deleteHabit (Some u_b) h_b v_b w_b)) =
        calls w_b @ [UpdateHabitInactive h_b, SelectHabitsWithCompletions u_b] \<and>
      db (snd (deleteHabit (Some u_b) h_b v_b w_b)) = d_b \<and>
      (fault_at 1 w_b = None \<longrightarrow>
         hm_habits (fst (deleteHabit (Some u_b) h_b v_b w_b)) =
           select_habits_with_completions u_b u_b d_b \<and>
         h_b \<notin> set (map (h_id \<circ> hb_row) (hm_habits (fst (deleteHabit (Some u_b) h_b v_b w_b)))))) \<and>
   (selectedHabit v_c = None \<and>
    outcome (insert_habits u_c (clock w_c) [habitData u_c (cm_formData m_c)]) w_c = Inr ((), d_c) \<longrightarrow>
      calls (snd (handleSubmit (Some u_c) (m_c, v_c) w_c)) =
        calls w_c @ [InsertHabits [habitData u_c (cm_formData m_c)], SelectHabitsWithCompletions u_c] \<and>
      db (snd (handleSubmit (Some u_c) (m_c, v_c) w_c)) = d_c \<and>
      (fault_at 1 w_c = None \<longrightarrow>
         hm_habits (snd (fst (handleSubmit (Some u_c) (m_c, v_c) w_c))) =
           select_habits_with_completions u_c u_c d_c \<and>
         fd_title (cm_formData m_c) \<in>
           set (map (h_title \<circ> hb_row) (hm_habits (snd (fst (handleSubmit (Some u_c) (m_c, v_c) w_c))))))) \<and>
   (selectedHabit v_d = Some e_d \<and>
    outcome (update_habit u_d (clock w_d) (h_id (hb_row e_d)) (habitData u_d (cm_formData m_d))) w_d =
      Inr ((), d_d) \<longrightarrow>
      calls (snd (handleSubmit (Some u_d) (m_d, v_d) w_d)) =
        calls w_d @ [UpdateHabit (h_id (hb_row e_d)) (habitData u_d (cm_formData m_d)),
                    SelectHabitsWithCompletions u_d] \<and>
      db (snd (handleSubmit (Some u_d) (m_d, v_d) w_d)) = d_d \<and>
      (fault_at 1 w_d = None \<longrightarrow>
         hm_habits (snd (fst (handleSubmit (Some u_d) (m_d, v_d) w_d))) =
           select_habits_with_completions u_d u_d d_d)) \<and>
   (outcome (insert_participant u_e (clock w_e) c_e u_e) w_e = Inr ((), d_e) \<longrightarrow>
      calls (snd (joinChallenge (Some u_e) c_e v_e w_e)) =
        calls w_e @ [InsertParticipant c_e u_e, SelectParticipations u_e] \<and>
      db (snd (joinChallenge (Some u_e) c_e v_e w_e)) = d_e \<and>
      (fault_at 1 w_e = None \<longrightarrow>
         myParticipations (fst (joinChallenge (Some u_e) c_e v_e w_e)) = select_participations u_e d_e \<and>
         c_e \<in> set (myParticipations (fst (joinChallenge (Some u_e) c_e v_e w_e))))) \<and>
   (outcome (delete_participant u_f c_f u_f) w_f = Inr ((), d_f) \<longrightarrow>
      calls (snd (leaveChallenge (Some u_f) c_f v_f w_f)) =
        calls w_f @ [DeleteParticipant c_f u_f, SelectParticipations u_f] \<and>
      db (snd (leaveChallenge (Some u_f) c_f v_f w_f)) = d_f \<and>
      (fault_at 1 w_f = None \<longrightarrow>
         myParticipations (fst (leaveChallenge (Some u_f) c_f v_f w_f)) = select_participations u_f d_f \<and>
         c_f \<notin> set (myParticipations (fst (leaveChallenge (Some u_f) c_f v_f w_f))))) \<and>
   (todayMood v_g = Some mood_g \<and>
    outcome (find_today_entry u_g (server_tz w_g) (local_day (client_tz w_g) (clock w_g))) w_g = Inl e_g \<and>
    outcome (insert_mood u_g (clock w_g) u_g mood_g (or_null (trim (reflection v_g))))
      (logged (SelectMoodBetweenSingle u_g (local_day (client_tz w_g) (clock w_g), hms 0 0 0)
                 (local_day (client_tz w_g) (clock w_g), hms 23 59 59)) w_g) = Inr ((), d_g) \<longrightarrow>
      calls (snd (submitMoodEntry (Some u_g) v_g w_g)) =
        calls w_g @ [SelectMoodBetweenSingle u_g (local_day (client_tz w_g) (clock w_g), hms 0 0 0)
                      (local_day (client_tz w_g) (clock w_g), hms 23 59 59),
                    InsertMood u_g mood_g (or_null (trim (reflection v_g))),
                    SelectMoodEntries u_g] \<and>
      db (snd (submitMoodEntry (Some u_g) v_g w_g)) = d_g \<and>
      (fault_at 2 w_g = None \<longrightarrow>
         moodEntries (fst (submitMoodEntry (Some u_g) v_g w_g)) = select_mood_entries u_g u_g d_g)) \<and>
   (todayMood v_h = Some mood_h \<and>
    outcome (find_today_entry u_h (server_tz w_h) (local_day (client_tz w_h) (clock w_h))) w_h =
      Inr (i_h, d_z) \<and>
    outcome (update_mood u_h i_h mood_h (or_null (trim (reflection v_h))))
      (logged (SelectMoodBetweenSingle u_h (local_day (client_tz w_h) (clock w_h), hms 0 0 0)
                 (local_day (client_tz w_h) (clock w_h), hms 23 59 59)) w_h) = Inr ((), d_h) \<longrightarrow>
      calls (snd (submitMoodEntry (Some u_h) v_h w_h)) =
        calls w_h @ [SelectMoodBetweenSingle u_h (local_day (client_tz w_h) (clock w_h), hms 0 0 0)
                      (local_day (client_tz w_h) (clock w_h), hms 23 59 59),
                    UpdateMood i_h mood_h (or_null (trim (reflection v_h))),
                    SelectMoodEntries u_h] \<and>
      db (snd (submitMoodEntry (Some u_h) v_h w_h)) = d_h \<and>
      (fault_at 2 w_h = None \<longrightarrow>
         moodEntries (fst (submitMoodEntry (Some u_h) v_h w_h)) = select_mood_entries u_h u_h d_h)) \<and>
   calls (snd (applyTemplate (Some u_i) t_i v_i w_i)) = calls w_i @ [InsertHabits (habitsToCreate u_i t_i)]"
  apply (intro conjI)
  subgoal by (rule impI, rule completeHabit_refetch, assumption)
  subgoal by (rule impI, rule deleteHabit_refetch, assumption)
  subgoal by (rule impI, erule conjE, rule handleSubmit_create_refetch; assumption)
  subgoal by (rule impI, erule conjE, rule handleSubmit_update_refetch; assumption)
  subgoal by (rule impI, rule joinChallenge_refetch, assumption)
  subgoal by (rule impI, rule leaveChallenge_refetch, assumption)
  subgoal by (rule impI, (erule conjE)+, rule submitMoodEntry_insert_refetch; assumption)
  subgoal by (rule impI, (erule conjE)+, rule submitMoodEntry_update_refetch; assumption)
  subgoal by (rule applyTemplate_calls)
  done

lemmas eval_defs =
  habit_world_def world0_def empty_db_def habits_view_def reading_habit_def form_view_def
  editing_view_def late_habit_def challenge_world_def challenges_view_def mood_view_def
  mood_world_def templates_view_def
  outcome_def next_fault_def fault_at_def logged_def call_def
  insert_habit_completion_def update_habit_inactive_def insert_habits_def update_habit_def
  insert_participant_def delete_participant_def insert_mood_def update_mood_def
  find_today_entry_def single_def select_mood_between_def zoneless_instant_def pg_timestamp_def
  hms_def local_day_def ms_per_day_def mood_rating_ok_def habitData_def initial_formData_def
  or_null_def trim_def js_def js_whitespace_def
  completeHabit_def deleteHabit_def handleSubmit_def joinChallenge_def leaveChallenge_def
  submitMoodEntry_def fetchHabits_def fetchMyParticipations_def fetchMoodEntries_def
  toast_success_def toast_error_def Let_def split_def

theorem mutation_then_one_refetch_witness:
  "(outcome (insert_habit_completion 1 20 1 (clock habit_world)) habit_world = Inr ((), (db (snd (completeHabit (Some 1) 20 habits_view habit_world)))) \<and>
      calls (snd (completeHabit (Some 1) 20 habits_view habit_world)) =
        calls habit_world @ [InsertHabitCompletion 20 1 (clock habit_world), SelectHabitsWithCompletions 1] \<and>
      db (snd (completeHabit (Some 1) 20 habits_view habit_world)) = (db (snd (completeHabit (Some 1) 20 habits_view habit_world))) \<and>
      (fault_at 1 habit_world = None \<and>
         hm_habits (fst (completeHabit (Some 1) 20 habits_view habit_world)) =
           select_habits_with_completions 1 1 (db (snd (completeHabit (Some 1) 20 habits_view habit_world))))) \<and>
   (outcome (update_habit_inactive 1 (clock habit_world) 20) habit_world = Inr ((), (db (snd (deleteHabit (Some 1) 20 habits_view habit_world)))) \<and>
      calls (snd (deleteHabit (Some 1) 20 habits_view habit_world)) =
        calls habit_world @ [UpdateHabitInactive 20, SelectHabitsWithCompletions 1] \<and>
      db (snd (deleteHabit (Some 1) 20 habits_view habit_world)) = (db (snd (deleteHabit (Some 1) 20 habits_view habit_world))) \<and>
      (fault_at 1 habit_world = None \<and>
         hm_habits (fst (deleteHabit (Some 1) 20 habits_view habit_world)) =
           select_habits_with_completions 1 1 (db (snd (deleteHabit (Some 1) 20 habits_view habit_world))) \<and>
         20 \<notin> set (map (h_id \<circ> hb_row) (hm_habits (fst (deleteHabit (Some 1) 20 habits_view habit_world)))))) \<and>
   (selectedHabit habits_view = None \<and>
    outcome (insert_habits 1 (clock habit_world) [habitData 1 (cm_formData form_view)]) habit_world = Inr ((), (db (snd (handleSubmit (Some 1) (form_view, habits_view) habit_world)))) \<and>
      calls (snd (handleSubmit (Some 1) (form_view, habits_view) habit_world)) =
        calls habit_world @ [InsertHabits [habitData 1 (cm_formData form_view)], SelectHabitsWithCompletions 1] \<and>
      db (snd (handleSubmit (Some 1) (form_view, habits_view) habit_world)) = (db (snd (handleSubmit (Some 1) (form_view, habits_view) habit_world))) \<and>
      (fault_at 1 habit_world = None \<and>
         hm_habits (snd (fst (handleSubmit (Some 1) (form_view, habits_view) habit_world))) =
           select_habits_with_completions 1 1 (db (snd (handleSubmit (Some 1) (form_view, habits_view) habit_world))) \<and>
         fd_title (cm_formData form_view) \<in>
           set (map (h_title \<circ> hb_row) (hm_habits (snd (fst (handleSubmit (Some 1) (form_view, habits_view) habit_world))))))) \<and>
   (selectedHabit editing_view = Some late_habit \<and>
    outcome (update_habit 1 (clock habit_world) (h_id (hb_row late_habit)) (habitData 1 (cm_formData form_view))) habit_world =
      Inr ((), (db (snd (handleSubmit (Some 1) (form_view, editing_view) habit_world)))) \<and>
      calls (snd (handleSubmit (Some 1) (form_view, editing_view) habit_world)) =
        calls habit_world @ [UpdateHabit (h_id (hb_row late_habit)) (habitData 1 (cm_formData form_view)),
                    SelectHabitsWithCompletions 1] \<and>
      db (snd (handleSubmit (Some 1) (form_view, editing_view) habit_world)) = (db (snd (handleSubmit (Some 1) (form_view, editing_view) habit_world))) \<and>
      (fault_at 1 habit_world = None \<and>
         hm_habits (snd (fst (handleSubmit (Some 1) (form_view, editing_view) habit_world))) =
           select_habits_with_completions 1 1 (db (snd (handleSubmit (Some 1) (form_view, editing_view) habit_world))))) \<and>
   (outcome (insert_participant 2 (clock challenge_world) 10 2) challenge_world = Inr ((), (db (snd (joinChallenge (Some 2) 10 challenges_view challenge_world)))) \<and>
      calls (snd (joinChallenge (Some 2) 10 challenges_view challenge_world)) =
        calls challenge_world @ [InsertParticipant 10 2, SelectParticipations 2] \<and>
      db (snd (joinChallenge (Some 2) 10 challenges_view challenge_world)) = (db (snd (joinChallenge (Some 2) 10 challenges_view challenge_world))) \<and>
      (fault_at 1 challenge_world = None \<and>
         myParticipations (fst (joinChallenge (Some 2) 10 challenges_view challenge_world)) = select_participations 2 (db (snd (joinChallenge (Some 2) 10 challenges_view challenge_world))) \<and>
         10 \<in> set (myParticipations (fst (joinChallenge (Some 2) 10 challenges_view challenge_world))))) \<and>
   (outcome (delete_participant 1 10 1) challenge_world = Inr ((), (db (snd (leaveChallenge (Some 1) 10 challenges_view challenge_world)))) \<and>
      calls (snd (leaveChallenge (Some 1) 10 challenges_view challenge_world)) =
        calls challenge_world @ [DeleteParticipant 10 1, SelectParticipations 1] \<and>
      db (snd (leaveChallenge (Some 1) 10 challenges_view challenge_world)) = (db (snd (leaveChallenge (Some 1) 10 challenges_view challenge_world))) \<and>
      (fault_at 1 challenge_world = None \<and>
         myParticipations (fst (leaveChallenge (Some 1) 10 challenges_view challenge_world)) = select_participations 1 (db (snd (leaveChallenge (Some 1) 10 challenges_view challenge_world))) \<and>
         10 \<notin> set (myParticipations (fst (leaveChallenge (Some 1) 10 challenges_view challenge_world))))) \<and>
   (todayMood mood_view = Some 4 \<and>
    outcome (find_today_entry 1 (server_tz world0) (local_day (client_tz world0) (clock world0))) world0 = Inl NotSingleRow \<and>
    outcome (insert_mood 1 (clock world0) 1 4 (or_null (trim (reflection mood_view))))
      (logged (SelectMoodBetweenSingle 1 (local_day (client_tz world0) (clock world0), hms 0 0 0)
                 (local_day (client_tz world0) (clock world0), hms 23 59 59)) world0) = Inr ((), (db (snd (submitMoodEntry (Some 1) mood_view world0)))) \<and>
      calls (snd (submitMoodEntry (Some 1) mood_view world0)) =
        calls world0 @ [SelectMoodBetweenSingle 1 (local_day (client_tz world0) (clock world0), hms 0 0 0)
                      (local_day (client_tz world0) (clock world0), hms 23 59 59),
                    InsertMood 1 4 (or_null (trim (reflection mood_view))),
                    SelectMoodEntries 1] \<and>
      db (snd (submitMoodEntry (Some 1) mood_view world0)) = (db (snd (submitMoodEntry (Some 1) mood_view world0))) \<and>
      (fault_at 2 world0 = None \<and>
         moodEntries (fst (submitMoodEntry (Some 1) mood_view world0)) = select_mood_entries 1 1 (db (snd (submitMoodEntry (Some 1) mood_view world0))))) \<and>
   (todayMood mood_view = Some 4 \<and>
    outcome (find_today_entry 1 (server_tz mood_world) (local_day (client_tz mood_world) (clock mood_world))) mood_world =
      Inr (30, (db mood_world)) \<and>
    outcome (update_mood 1 30 4 (or_null (trim (reflection mood_view))))
      (logged (SelectMoodBetweenSingle 1 (local_day (client_tz mood_world) (clock mood_world), hms 0 0 0)
                 (local_day (client_tz mood_world) (clock mood_world), hms 23 59 59)) mood_world) = Inr ((), (db (snd (submitMoodEntry (Some 1) mood_view mood_world)))) \<and>
      calls (snd (submitMoodEntry (Some 1) mood_view mood_world)) =
        calls mood_world @ [SelectMoodBetweenSingle 1 (local_day (client_tz mood_world) (clock mood_world), hms 0 0 0)
                      (local_day (client_tz mood_world) (clock mood_world), hms 23 59 59),
                    UpdateMood 30 4 (or_null (trim (reflection mood_view))),
                    SelectMoodEntries 1] \<and>
      db (snd (submitMoodEntry (Some 1) mood_view mood_world)) = (db (snd (submitMoodEntry (Some 1) mood_view mood_world))) \<and>
      (fault_at 2 mood_world = None \<and>
         moodEntries (fst (submitMoodEntry (Some 1) mood_view mood_world)) = select_mood_entries 1 1 (db (snd (submitMoodEntry (Some 1) mood_view mood_world))))) \<and>
   calls (snd (applyTemplate (Some 1) exam_prep templates_view world0)) = calls world0 @ [InsertHabits (habitsToCreate 1 exam_prep)]"
proof -
  have a: "outcome (insert_habit_completion 1 20 1 (clock habit_world)) habit_world =
             Inr ((), db (snd (completeHabit (Some 1) 20 habits_view habit_world)))"
    by (simp add: eval_defs)
  have b: "outcome (update_habit_inactive 1 (clock habit_world) 20) habit_world =
             Inr ((), db (snd (deleteHabit (Some 1) 20 habits_view habit_world)))"
    by (simp add: eval_defs)
  have c: "selectedHabit habits_view = None"
          "outcome (insert_habits 1 (clock habit_world) [habitData 1 (cm_formData form_view)]) habit_world =
             Inr ((), db (snd (handleSubmit (Some 1) (form_view, habits_view) habit_world)))"
    by (simp_all add: eval_defs)
  have d: "selectedHabit editing_view = Some late_habit"
          "outcome (update_habit 1 (clock habit_world) (h_id (hb_row late_habit))
             (habitData 1 (cm_formData form_view))) habit_world =
             Inr ((), db (snd (handleSubmit (Some 1) (form_view, editing_view) habit_world)))"
    by (simp_all add: eval_defs)
  have e: "outcome (insert_participant 2 (clock challenge_world) 10 2) challenge_world =
             Inr ((), db (snd (joinChallenge (Some 2) 10 challenges_view challenge_world)))"
    by (simp add: eval_defs)
  have f: "outcome (delete_participant 1 10 1) challenge_world =
             Inr ((), db (snd (leaveChallenge (Some 1) 10 challenges_view challenge_world)))"
    by (simp add: eval_defs)
  have g: "todayMood mood_view = Some 4"
          "outcome (find_today_entry 1 (server_tz world0) (local_day (client_tz world0) (clock world0)))
             world0 = Inl NotSingleRow"
          "outcome (insert_mood 1 (clock world0) 1 4 (or_null (trim (reflection mood_view))))
             (logged (SelectMoodBetweenSingle 1 (local_day (client_tz world0) (clock world0), hms 0 0 0)
                 (local_day (client_tz world0) (clock world0), hms 23 59 59)) world0) =
             Inr ((), db (snd (submitMoodEntry (Some 1) mood_view world0)))"
    by (simp_all add: eval_defs)
  have h: "outcome (find_today_entry 1 (server_tz mood_world) (local_day (client_tz mood_world) (clock mood_world)))
             mood_world = Inr (30, db mood_world)"
          "outcome (update_mood 1 30 4 (or_null (trim (reflection mood_view))))
             (logged (SelectMoodBetweenSingle 1 (local_day (client_tz mood_world) (clock mood_world), hms 0 0 0)
                 (local_day (client_tz mood_world) (clock mood_world), hms 23 59 59)) mood_world) =
             Inr ((), db (snd (submitMoodEntry (Some 1) mood_view mood_world)))"
    by (simp_all add: eval_defs)
  have n: "fault_at 1 habit_world = None" "fault_at 1 challenge_world = None"
          "fault_at 2 world0 = None" "fault_at 2 mood_world = None"
    by (simp_all add: eval_defs)
  from mutation_then_one_refetch [where u_a = "1" and h_a = "20" and v_a = "habits_view" and w_a = "habit_world" and d_a = "(db (snd (completeHabit (Some 1) 20 habits_view habit_world)))" and u_b = "1" and h_b = "20" and v_b = "habits_view" and w_b = "habit_world" and d_b = "(db (snd (deleteHabit (Some 1) 20 habits_view habit_world)))" and u_c = "1" and m_c = "form_view" and v_c = "habits_view" and w_c = "habit_world" and d_c = "(db (snd (handleSubmit (Some 1) (form_view, habits_view) habit_world)))" and u_d = "1" and m_d = "form_view" and v_d = "editing_view" and e_d = "late_habit" and w_d = "habit_world" and d_d = "(db (snd (handleSubmit (Some 1) (form_view, editing_view) habit_world)))" and u_e = "2" and c_e = "10" and v_e = "challenges_view" and w_e = "challenge_world" and d_e = "(db (snd (joinChallenge (Some 2) 10 challenges_view challenge_world)))" and u_f = "1" and c_f = "10" and v_f = "challenges_view" and w_f = "challenge_world" and d_f = "(db (snd (leaveChallenge (Some 1) 10 challenges_view challenge_world)))" and u_g = "1" and v_g = "mood_view" and mood_g = "4" and w_g = "world0" and e_g = "NotSingleRow" and d_g = "(db (snd (submitMoodEntry (Some 1) mood_view world0)))" and u_h = "1" and v_h = "mood_view" and mood_h = "4" and w_h = "mood_world" and i_h = "30" and d_z = "(db mood_world)" and d_h = "(db (snd (submitMoodEntry (Some 1) mood_view mood_world)))" and u_i = "1" and t_i = "exam_prep" and v_i = "templates_view" and w_i = "world0"]
    a b c d e f g h n
  show ?thesis by blast
qed

text \<open>
  C1 as stated fails for applying a template: the insert succeeds and is the only request
  sent, so no refetch follows it.
\<close>

theorem applyTemplate_no_refetch_counterexample:
  "\<not> isl (outcome (insert_habits 1 (clock world0) (habitsToCreate 1 exam_prep)) world0) \<and>
   calls (snd (applyTemplate (Some 1) exam_prep templates_view world0)) =
     [InsertHabits (habitsToCreate 1 exam_prep)]"
  by (simp add: applyTemplate_calls outcome_def world0_def next_fault_def
      insert_habits_own [OF habitsToCreate_own])

subsection \<open>A failed call leaves the list as it was\<close>

text \<open>
  C3, as the code has it, for every data and storage call of the screens other than the
  queries of the dashboard and of the analytics. A call fails when the backend answers it
  with an error, on a fault of its own or on a policy or a constraint.

  When the write of a mutation fails (completing, deleting, creating or editing a habit,
  joining or leaving a challenge, storing a mood, applying a template, creating the habits
  picked on the goal screen, creating a challenge, uploading a proof photo), the view's list,
  and the data of the form where there is one, are as before and one error notification is
  raised, carrying the handler's prefix and the backend's message. A failed fetch of the
  habits, of the challenges or of the proof entries does the same.

  A failed fetch of the mood entries or of the participations leaves the list as it was and
  raises no notification: the error goes to the console. A failed check for the mood of
  today, made when the journal opens, leaves the view as it was and raises nothing. When the
  check for an entry of today fails inside a submission, nothing is raised for it either: the
  submission goes on as if there were no entry and sends its insert, and the one notification
  raised is that of the insert, the error when the insert fails too and the success when it
  is carried out.
\<close>

theorem failed_call_keeps_list:
  "(outcome (insert_habit_completion u_a h_a u_a (clock w_a)) w_a = Inl e_a \<longrightarrow>
      fst (completeHabit (Some u_a) h_a v_a w_a) = v_a \<and>
      toasts (snd (completeHabit (Some u_a) h_a v_a w_a)) =
        toasts w_a @ [ToastError (js ''Error completing habit: '' @ message e_a)]) \<and>
   (outcome (update_habit_inactive u_b (clock w_b) h_b) w_b = Inl e_b \<longrightarrow>
      fst (deleteHabit (Some u_b) h_b v_b w_b) = v_b \<and>
      toasts (snd (deleteHabit (Some u_b) h_b v_b w_b)) =
        toasts w_b @ [ToastError (js ''Error deleting habit: '' @ message e_b)]) \<and>
   (selectedHabit v_c = None \<and>
    outcome (insert_habits u_c (clock w_c) [habitData u_c (cm_formData m_c)]) w_c = Inl e_c \<longrightarrow>
      snd (fst (handleSubmit (Some u_c) (m_c, v_c) w_c)) = v_c \<and>
      cm_formData (fst (fst (handleSubmit (Some u_c) (m_c, v_c) w_c))) = cm_formData m_c \<and>
      toasts (snd (handleSubmit (Some u_c) (m_c, v_c) w_c)) =
        toasts w_c @ [ToastError (js ''Error saving habit: '' @ message e_c)]) \<and>
   (selectedHabit v_d = Some h_d \<and>
    outcome (update_habit u_d (clock w_d) (h_id (hb_row h_d)) (habitData u_d (cm_formData m_d))) w_d =
      Inl e_d \<longrightarrow>
      snd (fst (handleSubmit (Some u_d) (m_d, v_d) w_d)) = v_d \<and>
      cm_formData (fst (fst (handleSubmit (Some u_d) (m_d, v_d) w_d))) = cm_formData m_d \<and>
      toasts (snd (handleSubmit (Some u_d) (m_d, v_d) w_d)) =
        toasts w_d @ [ToastError (js ''Error saving habit: '' @ message e_d)]) \<and>
   (outcome (insert_participant u_e (clock w_e) c_e u_e) w_e = Inl e_e \<longrightarrow>
      fst (joinChallenge (Some u_e) c_e v_e w_e) = v_e \<and>
      toasts (snd (joinChallenge (Some u_e) c_e v_e w_e)) =
        toasts w_e @ [ToastError (js ''Error joining challenge: '' @ message e_e)]) \<and>
   (outcome (delete_participant u_f c_f u_f) w_f = Inl e_f \<longrightarrow>
      fst (leaveChallenge (Some u_f) c_f v_f w_f) = v_f \<and>
      toasts (snd (leaveChallenge (Some u_f) c_f v_f w_f)) =
        toasts w_f @ [ToastError (js ''Error leaving challenge: '' @ message e_f)]) \<and>
   (todayMood v_g = Some mood_g \<and>
    outcome (find_today_entry u_g (server_tz w_g) (local_day (client_tz w_g) (clock w_g))) w_g = Inl x_g \<and>
    outcome (insert_mood u_g (clock w_g) u_g mood_g (or_null (trim (reflection v_g))))
      (logged (SelectMoodBetweenSingle u_g (local_day (client_tz w_g) (clock w_g), hms 0 0 0)
              (local_day (client_tz w_g) (clock w_g), hms 23 59 59)) w_g) = Inl e_g \<longrightarrow>
      moodEntries (fst (submitMoodEntry (Some u_g) v_g w_g)) = moodEntries v_g \<and>
      toasts (snd (submitMoodEntry (Some u_g) v_g w_g)) =
        toasts w_g @ [ToastError (js ''Error saving mood entry: '' @ message e_g)]) \<and>
   (todayMood v_h = Some mood_h \<and>
    outcome (find_today_entry u_h (server_tz w_h) (local_day (client_tz w_h) (clock w_h))) w_h =
      Inr (i_h, d_h) \<and>
    outcome (update_mood u_h i_h mood_h (or_null (trim (reflection v_h))))
      (logged (SelectMoodBetweenSingle u_h (local_day (client_tz w_h) (clock w_h), hms 0 0 0)
              (local_day (client_tz w_h) (clock w_h), hms 23 59 59)) w_h) = Inl e_h \<longrightarrow>
      moodEntries (fst (submitMoodEntry (Some u_h) v_h w_h)) = moodEntries v_h \<and>
      toasts (snd (submitMoodEntry (Some u_h) v_h w_h)) =
        toasts w_h @ [ToastError (js ''Error saving mood entry: '' @ message e_h)]) \<and>
   (outcome (insert_habits u_i (clock w_i) (habitsToCreate u_i t_i)) w_i = Inl e_i \<longrightarrow>
      toasts (snd (applyTemplate (Some u_i) t_i v_i w_i)) =
        toasts w_i @ [ToastError (js ''Error applying template: '' @ message e_i)]) \<and>
   (outcome (insert_habits u_j (clock w_j) (selected_habitsToCreate u_j v_j)) w_j = Inl e_j \<and>
    selectedHabits v_j \<noteq> [] \<and>
    list_all (\<lambda>index. index < length (suggestedHabits v_j)) (selectedHabits v_j) \<longrightarrow>
      fst (createSelectedHabits (Some u_j) v_j w_j) = v_j \<and>
      toasts (snd (createSelectedHabits (Some u_j) v_j w_j)) =
        toasts w_j @ [ToastError (js ''Error creating habits: '' @ message e_j)]) \<and>
   (outcome (insert_challenge u_k (clock w_k) (challengeData u_k (ccm_formData m_k))) w_k = Inl e_k \<longrightarrow>
      snd (fst (handleSubmit_challenge (Some u_k) (m_k, v_k) w_k)) = v_k \<and>
      ccm_formData (fst (fst (handleSubmit_challenge (Some u_k) (m_k, v_k) w_k))) = ccm_formData m_k \<and>
      toasts (snd (handleSubmit_challenge (Some u_k) (m_k, v_k) w_k)) =
        toasts w_k @ [ToastError (js ''Error creating challenge: '' @ message e_k)]) \<and>
   (outcome (upload_proof u_l u_l (clock w_l) (fileExt (file_name f_l)) (file_bytes f_l)) w_l = Inl e_l \<longrightarrow>
      proofEntries (fst (handleFileUpload (Some u_l) (Some f_l) v_l w_l)) = proofEntries v_l \<and>
      toasts (snd (handleFileUpload (Some u_l) (Some f_l) v_l w_l)) =
        toasts w_l @ [ToastError (js ''Error uploading photo: '' @ message e_l)]) \<and>
   (next_fault w_m = Some e_m \<longrightarrow>
      hm_habits (fst (fetchHabits (Some u_m) v_m w_m)) = hm_habits v_m \<and>
      toasts (snd (fetchHabits (Some u_m) v_m w_m)) =
        toasts w_m @ [ToastError (js ''Error fetching habits: '' @ message e_m)]) \<and>
   (outcome select_challenges_with_profiles w_n = Inl e_n \<longrightarrow>
      cv_challenges (fst (fetchChallenges (Some u_n) v_n w_n)) = cv_challenges v_n \<and>
      myParticipations (fst (fetchChallenges (Some u_n) v_n w_n)) = myParticipations v_n \<and>
      toasts (snd (fetchChallenges (Some u_n) v_n w_n)) =
        toasts w_n @ [ToastError (js ''Error fetching challenges: '' @ message e_n)]) \<and>
   (next_fault w_o = Some e_o \<longrightarrow>
      proofEntries (fst (fetchProofEntries (Some u_o) v_o w_o)) = proofEntries v_o \<and>
      toasts (snd (fetchProofEntries (Some u_o) v_o w_o)) =
        toasts w_o @ [ToastError (js ''Error fetching proof entries: '' @ message e_o)]) \<and>
   (next_fault w_p = Some e_p \<longrightarrow>
      moodEntries (fst (fetchMoodEntries (Some u_p) v_p w_p)) = moodEntries v_p \<and>
      toasts (snd (fetchMoodEntries (Some u_p) v_p w_p)) = toasts w_p \<and>
      console (snd (fetchMoodEntries (Some u_p) v_p w_p)) =
        console w_p @ [(js ''Error fetching mood entries:'', e_p)]) \<and>
   (next_fault w_q = Some e_q \<longrightarrow>
      myParticipations (fst (fetchMyParticipations (Some u_q) v_q w_q)) = myParticipations v_q \<and>
      toasts (snd (fetchMyParticipations (Some u_q) v_q w_q)) = toasts w_q \<and>
      console (snd (fetchMyParticipations (Some u_q) v_q w_q)) =
        console w_q @ [(js ''Error fetching participations:'', e_q)]) \<and>
   (next_fault w_r = Some e_r \<longrightarrow>
      fst (checkTodayMood (Some u_r) v_r w_r) = v_r \<and>
      toasts (snd (checkTodayMood (Some u_r) v_r w_r)) = toasts w_r \<and>
      console (snd (checkTodayMood (Some u_r) v_r w_r)) = console w_r) \<and>
   (todayMood v_s = Some mood_s \<and>
    next_fault w_s = Some e_s \<and>
    outcome (insert_mood u_s (clock w_s) u_s mood_s (or_null (trim (reflection v_s))))
      (logged (SelectMoodBetweenSingle u_s (local_day (client_tz w_s) (clock w_s), hms 0 0 0)
              (local_day (client_tz w_s) (clock w_s), hms 23 59 59)) w_s) = Inr ((), d_s) \<longrightarrow>
      calls (snd (submitMoodEntry (Some u_s) v_s w_s)) =
        calls w_s @ [SelectMoodBetweenSingle u_s (local_day (client_tz w_s) (clock w_s), hms 0 0 0)
              (local_day (client_tz w_s) (clock w_s), hms 23 59 59),
                    InsertMood u_s mood_s (or_null (trim (reflection v_s))),
                    SelectMoodEntries u_s] \<and>
      toasts (snd (submitMoodEntry (Some u_s) v_s w_s)) =
        toasts w_s @ [ToastSuccess (js ''Mood recorded successfully! '' @ blue_heart)])"
  apply (intro conjI)
  subgoal by (rule impI) (simp add: completeHabit_fail)
  subgoal by (rule impI) (simp add: deleteHabit_fail)
  subgoal by (rule impI, erule conjE) (simp add: handleSubmit_create_fail)
  subgoal by (rule impI, erule conjE) (simp add: handleSubmit_update_fail)
  subgoal by (rule impI) (simp add: joinChallenge_fail)
  subgoal by (rule impI) (simp add: leaveChallenge_fail)
  subgoal by (rule impI, (erule conjE)+) (simp add: submitMoodEntry_insert_fail)
  subgoal by (rule impI, (erule conjE)+) (simp add: submitMoodEntry_update_fail)
  subgoal by (rule impI) (simp add: applyTemplate_fail)
  subgoal by (rule impI, (erule conjE)+) (simp add: createSelectedHabits_fail)
  subgoal by (rule impI) (simp add: handleSubmit_challenge_fail)
  subgoal by (rule impI) (simp add: handleFileUpload_fail)
  subgoal by (rule impI) (simp add: fetchHabits_fail)
  subgoal by (rule impI) (simp add: fetchChallenges_fail)
  subgoal by (rule impI) (simp add: fetchProofEntries_fail)
  subgoal by (rule impI) (simp add: fetchMoodEntries_fail)
  subgoal by (rule impI) (simp add: fetchMyParticipations_fail)
  subgoal by (rule impI) (simp add: checkTodayMood_fail)
  subgoal by (rule impI, (erule conjE)+, rule submitMoodEntry_check_fails; assumption)
  done

lemmas eval_defs2 = eval_defs offline_def offline_after_def applyTemplate_def

lemmas eval_defs3 = eval_defs2 checkTodayMood_def run_png_def storage_world_def
  challenge_form_view_def upload_proof_def fileExt_def insert_challenge_def challengeData_def
  initial_challenge_formData_def listed_habits_def listed_editing_def listed_challenges_def
  listed_moods_def listed_proofs_def

theorem failed_call_keeps_list_witness:
  "(outcome (insert_habit_completion 1 20 1 (clock (offline habit_world))) (offline habit_world) = Inl (BackendFailure (js ''Failed to fetch'')) \<and>
      fst (completeHabit (Some 1) 20 listed_habits (offline habit_world)) = listed_habits \<and>
      toasts (snd (completeHabit (Some 1) 20 listed_habits (offline habit_world))) =
        toasts (offline habit_world) @ [ToastError (js ''Error completing habit: '' @ message (BackendFailure (js ''Failed to fetch'')))]) \<and>
   (outcome (update_habit_inactive 1 (clock (offline habit_world)) 20) (offline habit_world) = Inl (BackendFailure (js ''Failed to fetch'')) \<and>
      fst (deleteHabit (Some 1) 20 listed_habits (offline habit_world)) = listed_habits \<and>
      toasts (snd (deleteHabit (Some 1) 20 listed_habits (offline habit_world))) =
        toasts (offline habit_world) @ [ToastError (js ''Error deleting habit: '' @ message (BackendFailure (js ''Failed to fetch'')))]) \<and>
   (selectedHabit listed_habits = None \<and>
    outcome (insert_habits 2 (clock (offline habit_world)) [habitData 2 (cm_formData form_view)]) (offline habit_world) = Inl (BackendFailure (js ''Failed to fetch'')) \<and>
      snd (fst (handleSubmit (Some 2) (form_view, listed_habits) (offline habit_world))) = listed_habits \<and>
      cm_formData (fst (fst (handleSubmit (Some 2) (form_view, listed_habits) (offline habit_world)))) = cm_formData form_view \<and>
      toasts (snd (handleSubmit (Some 2) (form_view, listed_habits) (offline habit_world))) =
        toasts (offline habit_world) @ [ToastError (js ''Error saving habit: '' @ message (BackendFailure (js ''Failed to fetch'')))]) \<and>
   (selectedHabit listed_editing = Some late_habit \<and>
    outcome (update_habit 1 (clock (offline habit_world)) (h_id (hb_row late_habit)) (habitData 1 (cm_formData form_view))) (offline habit_world) =
      Inl (BackendFailure (js ''Failed to fetch'')) \<and>
      snd (fst (handleSubmit (Some 1) (form_view, listed_editing) (offline habit_world))) = listed_editing \<and>
      cm_formData (fst (fst (handleSubmit (Some 1) (form_view, listed_editing) (offline habit_world)))) = cm_formData form_view \<and>
      toasts (snd (handleSubmit (Some 1) (form_view, listed_editing) (offline habit_world))) =
        toasts (offline habit_world) @ [ToastError (js ''Error saving habit: '' @ message (BackendFailure (js ''Failed to fetch'')))]) \<and>
   (outcome (insert_participant 1 (clock challenge_world) 10 1) challenge_world = Inl UniqueViolation \<and>
      fst (joinChallenge (Some 1) 10 listed_challenges challenge_world) = listed_challenges \<and>
      toasts (snd (joinChallenge (Some 1) 10 listed_challenges challenge_world)) =
        toasts challenge_world @ [ToastError (js ''Error joining challenge: '' @ message UniqueViolation)]) \<and>
   (outcome (delete_participant 1 10 1) (offline challenge_world) = Inl (BackendFailure (js ''Failed to fetch'')) \<and>
      fst (leaveChallenge (Some 1) 10 listed_challenges (offline challenge_world)) = listed_challenges \<and>
      toasts (snd (leaveChallenge (Some 1) 10 listed_challenges (offline challenge_world))) =
        toasts (offline challenge_world) @ [ToastError (js ''Error leaving challenge: '' @ message (BackendFailure (js ''Failed to fetch'')))]) \<and>
   (todayMood listed_moods = Some 4 \<and>
    outcome (find_today_entry 1 (server_tz (offline_after 1 world0)) (local_day (client_tz (offline_after 1 world0)) (clock (offline_after 1 world0)))) (offline_after 1 world0) = Inl NotSingleRow \<and>
    outcome (insert_mood 1 (clock (offline_after 1 world0)) 1 4 (or_null (trim (reflection listed_moods))))
      (logged (SelectMoodBetweenSingle 1 (local_day (client_tz (offline_after 1 world0)) (clock (offline_after 1 world0)), hms 0 0 0)
              (local_day (client_tz (offline_after 1 world0)) (clock (offline_after 1 world0)), hms 23 59 59)) (offline_after 1 world0)) = Inl (BackendFailure (js ''Failed to fetch'')) \<and>
      moodEntries (fst (submitMoodEntry (Some 1) listed_moods (offline_after 1 world0))) = moodEntries listed_moods \<and>
      toasts (snd (submitMoodEntry (Some 1) listed_moods (offline_after 1 world0))) =
        toasts (offline_after 1 world0) @ [ToastError (js ''Error saving mood entry: '' @ message (BackendFailure (js ''Failed to fetch'')))]) \<and>
   (todayMood listed_moods = Some 4 \<and>
    outcome (find_today_entry 1 (server_tz (offline_after 1 mood_world)) (local_day (client_tz (offline_after 1 mood_world)) (clock (offline_after 1 mood_world)))) (offline_after 1 mood_world) =
      Inr (30, (db mood_world)) \<and>
    outcome (update_mood 1 30 4 (or_null (trim (reflection listed_moods))))
      (logged (SelectMoodBetweenSingle 1 (local_day (client_tz (offline_after 1 mood_world)) (clock (offline_after 1 mood_world)), hms 0 0 0)
              (local_day (client_tz (offline_after 1 mood_world)) (clock (offline_after 1 mood_world)), hms 23 59 59)) (offline_after 1 mood_world)) = Inl (BackendFailure (js ''Failed to fetch'')) \<and>
      moodEntries (fst (submitMoodEntry (Some 1) listed_moods (offline_after 1 mood_world))) = moodEntries listed_moods \<and>
      toasts (snd (submitMoodEntry (Some 1) listed_moods (offline_after 1 mood_world))) =
        toasts (offline_after 1 mood_world) @ [ToastError (js ''Error saving mood entry: '' @ message (BackendFailure (js ''Failed to fetch'')))]) \<and>
   (outcome (insert_habits 1 (clock (offline world0)) (habitsToCreate 1 exam_prep)) (offline world0) = Inl (BackendFailure (js ''Failed to fetch'')) \<and>
      toasts (snd (applyTemplate (Some 1) exam_prep templates_view (offline world0))) =
        toasts (offline world0) @ [ToastError (js ''Error applying template: '' @ message (BackendFailure (js ''Failed to fetch'')))]) \<and>
   (outcome (insert_habits 1 (clock (offline world0)) (selected_habitsToCreate 1 picked_view)) (offline world0) = Inl (BackendFailure (js ''Failed to fetch'')) \<and>
    selectedHabits picked_view \<noteq> [] \<and>
    list_all (\<lambda>index. index < length (suggestedHabits picked_view)) (selectedHabits picked_view) \<and>
      fst (createSelectedHabits (Some 1) picked_view (offline world0)) = picked_view \<and>
      toasts (snd (createSelectedHabits (Some 1) picked_view (offline world0))) =
        toasts (offline world0) @ [ToastError (js ''Error creating habits: '' @ message (BackendFailure (js ''Failed to fetch'')))]) \<and>
   (outcome (insert_challenge 1 (clock (offline challenge_world)) (challengeData 1 (ccm_formData challenge_form_view))) (offline challenge_world) = Inl (BackendFailure (js ''Failed to fetch'')) \<and>
      snd (fst (handleSubmit_challenge (Some 1) (challenge_form_view, listed_challenges) (offline challenge_world))) = listed_challenges \<and>
      ccm_formData (fst (fst (handleSubmit_challenge (Some 1) (challenge_form_view, listed_challenges) (offline challenge_world)))) = ccm_formData challenge_form_view \<and>
      toasts (snd (handleSubmit_challenge (Some 1) (challenge_form_view, listed_challenges) (offline challenge_world))) =
        toasts (offline challenge_world) @ [ToastError (js ''Error creating challenge: '' @ message (BackendFailure (js ''Failed to fetch'')))]) \<and>
   (outcome (upload_proof 1 1 (clock storage_world) (fileExt (file_name run_png)) (file_bytes run_png)) storage_world = Inl ObjectExists \<and>
      proofEntries (fst (handleFileUpload (Some 1) (Some run_png) listed_proofs storage_world)) = proofEntries listed_proofs \<and>
      toasts (snd (handleFileUpload (Some 1) (Some run_png) listed_proofs storage_world)) =
        toasts storage_world @ [ToastError (js ''Error uploading photo: '' @ message ObjectExists)]) \<and>
   (next_fault (offline habit_world) = Some (BackendFailure (js ''Failed to fetch'')) \<and>
      hm_habits (fst (fetchHabits (Some 1) listed_habits (offline habit_world))) = hm_habits listed_habits \<and>
      toasts (snd (fetchHabits (Some 1) listed_habits (offline habit_world))) =
        toasts (offline habit_world) @ [ToastError (js ''Error fetching habits: '' @ message (BackendFailure (js ''Failed to fetch'')))]) \<and>
   (outcome select_challenges_with_profiles challenge_world = Inl NoRelationship \<and>
      cv_challenges (fst (fetchChallenges (Some 1) listed_challenges challenge_world)) = cv_challenges listed_challenges \<and>
      myParticipations (fst (fetchChallenges (Some 1) listed_challenges challenge_world)) = myParticipations listed_challenges \<and>
      toasts (snd (fetchChallenges (Some 1) listed_challenges challenge_world)) =
        toasts challenge_world @ [ToastError (js ''Error fetching challenges: '' @ message NoRelationship)]) \<and>
   (next_fault (offline habit_world) = Some (BackendFailure (js ''Failed to fetch'')) \<and>
      proofEntries (fst (fetchProofEntries (Some 1) listed_proofs (offline habit_world))) = proofEntries listed_proofs \<and>
      toasts (snd (fetchProofEntries (Some 1) listed_proofs (offline habit_world))) =
        toasts (offline habit_world) @ [ToastError (js ''Error fetching proof entries: '' @ message (BackendFailure (js ''Failed to fetch'')))]) \<and>
   (next_fault (offline mood_world) = Some (BackendFailure (js ''Failed to fetch'')) \<and>
      moodEntries (fst (fetchMoodEntries (Some 1) listed_moods (offline mood_world))) = moodEntries listed_moods \<and>
      toasts (snd (fetchMoodEntries (Some 1) listed_moods (offline mood_world))) = toasts (offline mood_world) \<and>
      console (snd (fetchMoodEntries (Some 1) listed_moods (offline mood_world))) =
        console (offline mood_world) @ [(js ''Error fetching mood entries:'', (BackendFailure (js ''Failed to fetch'')))]) \<and>
   (next_fault (offline challenge_world) = Some (BackendFailure (js ''Failed to fetch'')) \<and>
      myParticipations (fst (fetchMyParticipations (Some 1) listed_challenges (offline challenge_world))) = myParticipations listed_challenges \<and>
      toasts (snd (fetchMyParticipations (Some 1) listed_challenges (offline challenge_world))) = toasts (offline challenge_world) \<and>
      console (snd (fetchMyParticipations (Some 1) listed_challenges (offline challenge_world))) =
        console (offline challenge_world) @ [(js ''Error fetching participations:'', (BackendFailure (js ''Failed to fetch'')))]) \<and>
   (next_fault (offline mood_world) = Some (BackendFailure (js ''Failed to fetch'')) \<and>
      fst (checkTodayMood (Some 1) listed_moods (offline mood_world)) = listed_moods \<and>
      toasts (snd (checkTodayMood (Some 1) listed_moods (offline mood_world))) = toasts (offline mood_world) \<and>
      console (snd (checkTodayMood (Some 1) listed_moods (offline mood_world))) = console (offline mood_world)) \<and>
   (todayMood listed_moods = Some 4 \<and>
    next_fault (offline mood_world) = Some (BackendFailure (js ''Failed to fetch'')) \<and>
    outcome (insert_mood 1 (clock (offline mood_world)) 1 4 (or_null (trim (reflection listed_moods))))
      (logged (SelectMoodBetweenSingle 1 (local_day (client_tz (offline mood_world)) (clock (offline mood_world)), hms 0 0 0)
              (local_day (client_tz (offline mood_world)) (clock (offline mood_world)), hms 23 59 59)) (offline mood_world)) = Inr ((), (db (snd (submitMoodEntry (Some 1) listed_moods (offline mood_world))))) \<and>
      calls (snd (submitMoodEntry (Some 1) listed_moods (offline mood_world))) =
        calls (offline mood_world) @ [SelectMoodBetweenSingle 1 (local_day (client_tz (offline mood_world)) (clock (offline mood_world)), hms 0 0 0)
              (local_day (client_tz (offline mood_world)) (clock (offline mood_world)), hms 23 59 59),
                    InsertMood 1 4 (or_null (trim (reflection listed_moods))),
                    SelectMoodEntries 1] \<and>
      toasts (snd (submitMoodEntry (Some 1) listed_moods (offline mood_world))) =
        toasts (offline mood_world) @ [ToastSuccess (js ''Mood recorded successfully! '' @ blue_heart)])"
proof -
  have a:
    "outcome (insert_habit_completion 1 20 1 (clock (offline habit_world))) (offline habit_world) = Inl (BackendFailure (js ''Failed to fetch''))"
    by (simp_all add: outcome_def next_fault_def offline_def)
  have b:
    "outcome (update_habit_inactive 1 (clock (offline habit_world)) 20) (offline habit_world) = Inl (BackendFailure (js ''Failed to fetch''))"
    by (simp_all add: outcome_def next_fault_def offline_def)
  have c:
    "selectedHabit listed_habits = None"
    "outcome (insert_habits 2 (clock (offline habit_world)) [habitData 2 (cm_formData form_view)]) (offline habit_world) = Inl (BackendFailure (js ''Failed to fetch''))"
    by (simp_all add: outcome_def next_fault_def offline_def listed_habits_def)
  have d:
    "selectedHabit listed_editing = Some late_habit"
    "outcome (update_habit 1 (clock (offline habit_world)) (h_id (hb_row late_habit)) (habitData 1 (cm_formData form_view))) (offline habit_world) =
           Inl (BackendFailure (js ''Failed to fetch''))"
    by (simp_all add: outcome_def next_fault_def offline_def listed_editing_def listed_habits_def)
  have e:
    "outcome (insert_participant 1 (clock challenge_world) 10 1) challenge_world = Inl UniqueViolation"
    by (simp_all add: eval_defs3)
  have f:
    "outcome (delete_participant 1 10 1) (offline challenge_world) = Inl (BackendFailure (js ''Failed to fetch''))"
    by (simp_all add: outcome_def next_fault_def offline_def)
  have g:
    "todayMood listed_moods = Some 4"
    "outcome (find_today_entry 1 (server_tz (offline_after 1 world0)) (local_day (client_tz (offline_after 1 world0)) (clock (offline_after 1 world0)))) (offline_after 1 world0) = Inl NotSingleRow"
    "outcome (insert_mood 1 (clock (offline_after 1 world0)) 1 4 (or_null (trim (reflection listed_moods))))
           (logged (SelectMoodBetweenSingle 1 (local_day (client_tz (offline_after 1 world0)) (clock (offline_after 1 world0)), hms 0 0 0)
                   (local_day (client_tz (offline_after 1 world0)) (clock (offline_after 1 world0)), hms 23 59 59)) (offline_after 1 world0)) = Inl (BackendFailure (js ''Failed to fetch''))"
    by (simp_all add: eval_defs3)
  have h:
    "todayMood listed_moods = Some 4"
    "outcome (find_today_entry 1 (server_tz (offline_after 1 mood_world)) (local_day (client_tz (offline_after 1 mood_world)) (clock (offline_after 1 mood_world)))) (offline_after 1 mood_world) =
           Inr (30, (db mood_world))"
    "outcome (update_mood 1 30 4 (or_null (trim (reflection listed_moods))))
           (logged (SelectMoodBetweenSingle 1 (local_day (client_tz (offline_after 1 mood_world)) (clock (offline_after 1 mood_world)), hms 0 0 0)
                   (local_day (client_tz (offline_after 1 mood_world)) (clock (offline_after 1 mood_world)), hms 23 59 59)) (offline_after 1 mood_world)) = Inl (BackendFailure (js ''Failed to fetch''))"
    by (simp_all add: eval_defs3)
  have i:
    "outcome (insert_habits 1 (clock (offline world0)) (habitsToCreate 1 exam_prep)) (offline world0) = Inl (BackendFailure (js ''Failed to fetch''))"
    by (simp_all add: outcome_def next_fault_def offline_def)
  have j:
    "outcome (insert_habits 1 (clock (offline world0)) (selected_habitsToCreate 1 picked_view)) (offline world0) = Inl (BackendFailure (js ''Failed to fetch''))"
    "selectedHabits picked_view \<noteq> []"
    "list_all (\<lambda>index. index < length (suggestedHabits picked_view)) (selectedHabits picked_view)"
    by (simp_all add: outcome_def next_fault_def offline_def picked_view_def mockSuggestions_def)
  have k:
    "outcome (insert_challenge 1 (clock (offline challenge_world)) (challengeData 1 (ccm_formData challenge_form_view))) (offline challenge_world) = Inl (BackendFailure (js ''Failed to fetch''))"
    by (simp_all add: outcome_def next_fault_def offline_def)
  have l:
    "outcome (upload_proof 1 1 (clock storage_world) (fileExt (file_name run_png)) (file_bytes run_png)) storage_world = Inl ObjectExists"
    by (simp_all add: eval_defs3)
  have m:
    "next_fault (offline habit_world) = Some (BackendFailure (js ''Failed to fetch''))"
    by (simp_all add: outcome_def next_fault_def offline_def)
  have n:
    "outcome select_challenges_with_profiles challenge_world = Inl NoRelationship"
    by (simp_all add: outcome_def next_fault_def challenge_world_def world0_def select_challenges_with_profiles_def)
  have o:
    "next_fault (offline habit_world) = Some (BackendFailure (js ''Failed to fetch''))"
    by (simp_all add: outcome_def next_fault_def offline_def)
  have p:
    "next_fault (offline mood_world) = Some (BackendFailure (js ''Failed to fetch''))"
    by (simp_all add: outcome_def next_fault_def offline_def)
  have q:
    "next_fault (offline challenge_world) = Some (BackendFailure (js ''Failed to fetch''))"
    by (simp_all add: outcome_def next_fault_def offline_def)
  have r:
    "next_fault (offline mood_world) = Some (BackendFailure (js ''Failed to fetch''))"
    by (simp_all add: outcome_def next_fault_def offline_def)
  have s:
    "todayMood listed_moods = Some 4"
    "next_fault (offline mood_world) = Some (BackendFailure (js ''Failed to fetch''))"
    "outcome (insert_mood 1 (clock (offline mood_world)) 1 4 (or_null (trim (reflection listed_moods))))
           (logged (SelectMoodBetweenSingle 1 (local_day (client_tz (offline mood_world)) (clock (offline mood_world)), hms 0 0 0)
                   (local_day (client_tz (offline mood_world)) (clock (offline mood_world)), hms 23 59 59)) (offline mood_world)) = Inr ((), (db (snd (submitMoodEntry (Some 1) listed_moods (offline mood_world)))))"
    by (simp_all add: eval_defs3)
  from failed_call_keeps_list
    [where u_a = "1" and
      h_a = "20" and
      v_a = "listed_habits" and
      w_a = "(offline habit_world)" and
      e_a = "(BackendFailure (js ''Failed to fetch''))" and
      u_b = "1" and
      h_b = "20" and
      v_b = "listed_habits" and
      w_b = "(offline habit_world)" and
      e_b = "(BackendFailure (js ''Failed to fetch''))" and
      u_c = "2" and
      m_c = "form_view" and
      v_c = "listed_habits" and
      w_c = "(offline habit_world)" and
      e_c = "(BackendFailure (js ''Failed to fetch''))" and
      u_d = "1" and
      m_d = "form_view" and
      v_d = "listed_editing" and
      h_d = "late_habit" and
      w_d = "(offline habit_world)" and
      e_d = "(BackendFailure (js ''Failed to fetch''))" and
      u_e = "1" and
      c_e = "10" and
      v_e = "listed_challenges" and
      w_e = "challenge_world" and
      e_e = "UniqueViolation" and
      u_f = "1" and
      c_f = "10" and
      v_f = "listed_challenges" and
      w_f = "(offline challenge_world)" and
      e_f = "(BackendFailure (js ''Failed to fetch''))" and
      u_g = "1" and
      v_g = "listed_moods" and
      mood_g = "4" and
      w_g = "(offline_after 1 world0)" and
      x_g = "NotSingleRow" and
      e_g = "(BackendFailure (js ''Failed to fetch''))" and
      u_h = "1" and
      v_h = "listed_moods" and
      mood_h = "4" and
      w_h = "(offline_after 1 mood_world)" and
      i_h = "30" and
      d_h = "(db mood_world)" and
      e_h = "(BackendFailure (js ''Failed to fetch''))" and
      u_i = "1" and
      t_i = "exam_prep" and
      v_i = "templates_view" and
      w_i = "(offline world0)" and
      e_i = "(BackendFailure (js ''Failed to fetch''))" and
      u_j = "1" and
      v_j = "picked_view" and
      w_j = "(offline world0)" and
      e_j = "(BackendFailure (js ''Failed to fetch''))" and
      u_k = "1" and
      m_k = "challenge_form_view" and
      v_k = "listed_challenges" and
      w_k = "(offline challenge_world)" and
      e_k = "(BackendFailure (js ''Failed to fetch''))" and
      u_l = "1" and
      f_l = "run_png" and
      v_l = "listed_proofs" and
      w_l = "storage_world" and
      e_l = "ObjectExists" and
      u_m = "1" and
      v_m = "listed_habits" and
      w_m = "(offline habit_world)" and
      e_m = "(BackendFailure (js ''Failed to fetch''))" and
      u_n = "1" and
      v_n = "listed_challenges" and
      w_n = "challenge_world" and
      e_n = "NoRelationship" and
      u_o = "1" and
      v_o = "listed_proofs" and
      w_o = "(offline habit_world)" and
      e_o = "(BackendFailure (js ''Failed to fetch''))" and
      u_p = "1" and
      v_p = "listed_moods" and
      w_p = "(offline mood_world)" and
      e_p = "(BackendFailure (js ''Failed to fetch''))" and
      u_q = "1" and
      v_q = "listed_challenges" and
      w_q = "(offline challenge_world)" and
      e_q = "(BackendFailure (js ''Failed to fetch''))" and
      u_r = "1" and
      v_r = "listed_moods" and
      w_r = "(offline mood_world)" and
      e_r = "(BackendFailure (js ''Failed to fetch''))" and
      u_s = "1" and
      v_s = "listed_moods" and
      mood_s = "4" and
      w_s = "(offline mood_world)" and
      e_s = "(BackendFailure (js ''Failed to fetch''))" and
      d_s = "(db (snd (submitMoodEntry (Some 1) listed_moods (offline mood_world))))"]
    a b c d e f g h i j k l m n o p q r s
  show ?thesis by blast
qed

text \<open>
  C3 as stated fails for the mood journal's fetch: the request fails and no notification is
  raised.
\<close>

theorem fetchMoodEntries_silent_counterexample:
  "next_fault (offline mood_world) = Some (BackendFailure (js ''Failed to fetch'')) \<and>
   toasts (snd (fetchMoodEntries (Some 1) mood_view (offline mood_world))) = []"
  by (simp add: fetchMoodEntries_def call_def outcome_def next_fault_def offline_def logged_def
      console_error_def mood_world_def world0_def)

subsection \<open>The dashboard and the analytics when a query fails\<close>

text \<open>
  The client library hands an error back in the result of a query; it does not throw. The
  fetches above read it (\<open>if (error) throw error\<close>). \<open>fetchDashboardData\<close> and
  \<open>fetchAnalyticsData\<close> take \<open>data\<close> alone, so the \<open>catch\<close> that would log the error is
  never entered: a query that fails counts as one without rows. The figures on the screen are
  replaced by zeros and nothing is raised or logged. This is a slip of the two handlers, not
  a way of handling the failure, and the statement above leaves them out.
\<close>

lemma fetchDashboardData_failed_query:
  "next_fault w = Some e \<Longrightarrow>
   totalHabits (stats (fst (fetchDashboardData (Some uid) v w))) = 0 \<and>
   toasts (snd (fetchDashboardData (Some uid) v w)) = toasts w \<and>
   console (snd (fetchDashboardData (Some uid) v w)) = console w"
  by (simp add: fetchDashboardData_def Let_def split_def call_Inl outcome_def data_length_def)

lemma fetchAnalyticsData_failed_query:
  "fault_at 1 w = Some e \<Longrightarrow>
   totalCompletions (analyticsData (fst (fetchAnalyticsData (Some uid) v w))) = 0 \<and>
   categoryBreakdown (analyticsData (fst (fetchAnalyticsData (Some uid) v w))) = [] \<and>
   toasts (snd (fetchAnalyticsData (Some uid) v w)) = toasts w \<and>
   console (snd (fetchAnalyticsData (Some uid) v w)) = console w"
  apply (simp add: fetchAnalyticsData_def Let_def split_def data_length_def)
  apply (simp add: call_def outcome_def split: option.splits sum.splits prod.splits)
  done

lemma dashboard_figures_reset:
  "totalHabits (stats (fst (fetchDashboardData (Some 1)
       (initial_Dashboard\<lparr> stats := (stats initial_Dashboard)\<lparr> totalHabits := 1 \<rparr> \<rparr>)
       (offline habit_world)))) = 0 \<and>
   toasts (snd (fetchDashboardData (Some 1)
       (initial_Dashboard\<lparr> stats := (stats initial_Dashboard)\<lparr> totalHabits := 1 \<rparr> \<rparr>)
       (offline habit_world))) = [] \<and>
   console (snd (fetchDashboardData (Some 1)
       (initial_Dashboard\<lparr> stats := (stats initial_Dashboard)\<lparr> totalHabits := 1 \<rparr> \<rparr>)
       (offline habit_world))) = []"
  using fetchDashboardData_failed_query
    [of "offline habit_world" "BackendFailure (js ''Failed to fetch'')" 1
        "initial_Dashboard\<lparr> stats := (stats initial_Dashboard)\<lparr> totalHabits := 1 \<rparr> \<rparr>"]
  by (simp add: next_fault_def offline_def habit_world_def world0_def)

subsection \<open>Rounding to a double\<close>

text \<open>
  A positive rational and the double nearest to it differ by at most \<open>2\<^sup>-\<^sup>5\<^sup>3\<close> of the
  rational: the significand has 53 bits and the rounding is to nearest.
\<close>

lemma round_half_even_error: "\<bar>of_int (round_half_even y) - y\<bar> \<le> 1 / 2"
proof -
  have "of_int \<lfloor>y\<rfloor> \<le> y" "y < of_int \<lfloor>y\<rfloor> + 1" by linarith+
  then show ?thesis
    by (auto simp: round_half_even_def Let_def abs_le_iff)
qed

lemma two_powi_pos [simp]: "0 < (2::rat) powi k"
  by (simp add: power_int_def)

lemma two_powi_nat: "0 \<le> k \<Longrightarrow> (2::rat) powi k = 2 ^ nat k"
  by (simp add: power_int_def)

lemma bitlen_rat_bounds:
  assumes "0 < (a::int)"
  shows "(2::rat) powi (bitlen a - 1) \<le> of_int a" "(of_int a :: rat) < 2 powi bitlen a"
proof -
  have p: "1 \<le> bitlen a"
    using assms bitlen_eq_zero_iff [of a] bitlen_nonneg [of a] by linarith
  from bitlen_bounds [OF assms] have "2 ^ nat (bitlen a - 1) \<le> a" "a < 2 ^ nat (bitlen a)"
    by simp_all
  then have "(of_int (2 ^ nat (bitlen a - 1)) :: rat) \<le> of_int a"
    "(of_int a :: rat) < of_int (2 ^ nat (bitlen a))"
    by (simp_all only: of_int_le_iff of_int_less_iff)
  then show "(2::rat) powi (bitlen a - 1) \<le> of_int a" "(of_int a :: rat) < 2 powi bitlen a"
    using p by (simp_all add: two_powi_nat)
qed

lemma exponent_bounds:
  assumes "0 < q"
  shows "2 powi exponent q \<le> q \<and> q < 2 powi (exponent q + 1)"
proof -
  obtain a b where ab: "quotient_of q = (a, b)" by (cases "quotient_of q")
  then have b: "0 < b" and q: "q = of_int a / of_int b"
    by (simp_all add: quotient_of_denom_pos quotient_of_div)
  with assms have a: "0 < a"
    by (simp add: zero_less_divide_iff)
  define d where "d = bitlen a - bitlen b"
  note A = bitlen_rat_bounds [OF a] and B = bitlen_rat_bounds [OF b]
  have "(2::rat) powi (bitlen a - 1) / 2 powi bitlen b < of_int a / of_int b"
    using A(1) B(2) b by (intro frac_less2) simp_all
  moreover have "(2::rat) powi (bitlen a - 1) / 2 powi bitlen b = 2 powi (d - 1)"
    by (simp add: d_def power_int_diff [symmetric] algebra_simps)
  ultimately have lo: "2 powi (d - 1) < q" by (simp add: q)
  have "of_int a / of_int b < (2::rat) powi bitlen a / 2 powi (bitlen b - 1)"
    using A(2) B(1) a by (intro frac_less) simp_all
  moreover have "(2::rat) powi bitlen a / 2 powi (bitlen b - 1) = 2 powi (d + 1)"
    by (simp add: d_def power_int_diff [symmetric] algebra_simps)
  ultimately have hi: "q < 2 powi (d + 1)" by (simp add: q)
  have e: "exponent q = (if 2 powi d \<le> q then d else d - 1)"
    by (simp add: exponent_def ab d_def Let_def)
  show ?thesis
    using lo hi by (auto simp: e not_le)
qed

lemma to_double_error:
  assumes "0 < q"
  shows "\<bar>to_double q - q\<bar> \<le> q / 2 ^ 53"
proof -
  define e where "e = exponent q - 52"
  define P :: rat where "P = 2 powi e"
  define m where "m = round_half_even (q / P)"
  have P: "0 < P" by (simp add: P_def)
  have td: "to_double q = of_int m * P"
    using assms by (simp add: to_double_def Let_def e_def P_def m_def)
  have "2 powi (e + 52) \<le> q"
    using exponent_bounds [OF assms] by (simp add: e_def)
  moreover have "(2::rat) powi (e + 52) = P * 2 ^ 52"
    by (simp add: P_def power_int_add)
  ultimately have big: "P * 2 ^ 52 \<le> q" by simp
  have "\<bar>of_int m - q / P\<bar> \<le> 1 / 2"
    unfolding m_def by (rule round_half_even_error)
  then have "\<bar>of_int m - q / P\<bar> * P \<le> 1 / 2 * P"
    using P by (intro mult_right_mono) simp_all
  moreover have "\<bar>of_int m - q / P\<bar> * P = \<bar>(of_int m - q / P) * P\<bar>"
    using P by (simp add: abs_mult)
  moreover have "(of_int m - q / P) * P = of_int m * P - q"
    using P by (simp add: left_diff_distrib)
  ultimately have "\<bar>to_double q - q\<bar> \<le> P / 2"
    by (simp add: td)
  also have "P / 2 \<le> q / 2 ^ 53"
    using big by (simp add: field_simps)
  finally show ?thesis .
qed

lemma to_double_0 [simp]: "to_double 0 = 0"
  by (simp add: to_double_def)

lemma to_double_pos:
  assumes "0 < q"
  shows "0 < to_double q"
proof -
  have "q / 2 ^ 53 < q" using assms by (simp add: field_simps)
  with to_double_error [OF assms] show ?thesis by linarith
qed

lemma double_rounding_close:
  fixes c t :: nat
  assumes t: "0 < t" and c0: "0 < c" and c: "c < 2 ^ 32"
  defines "x \<equiv> 100 * of_nat c / of_nat t"
  shows "\<bar>to_double (to_double (of_nat c / of_nat t) * 100) - x\<bar> < 1 / (2 * of_nat t)"
proof -
  define q1 :: rat where "q1 = of_nat c / of_nat t"
  define y1 where "y1 = to_double q1"
  define q2 where "q2 = y1 * 100"
  define y2 where "y2 = to_double q2"
  define u :: rat where "u = 1 / 2 ^ 53"
  have q1: "0 < q1" using t c0 by (simp add: q1_def)
  have x: "x = 100 * q1" by (simp add: x_def q1_def)
  have xpos: "0 < x" using q1 by (simp add: x)
  have e1: "\<bar>y1 - q1\<bar> \<le> q1 * u"
    using to_double_error [OF q1] by (simp add: y1_def u_def)
  have y1: "0 < y1" unfolding y1_def by (rule to_double_pos [OF q1])
  then have q2: "0 < q2" by (simp add: q2_def)
  have e2: "\<bar>y2 - q2\<bar> \<le> q2 * u"
    using to_double_error [OF q2] by (simp add: y2_def u_def)
  have d1: "\<bar>q2 - x\<bar> \<le> x * u"
  proof -
    have "q2 - x = 100 * (y1 - q1)"
      by (simp add: q2_def x algebra_simps)
    then have "\<bar>q2 - x\<bar> = \<bar>100 * (y1 - q1)\<bar>"
      by (simp only:)
    also have "\<dots> = \<bar>100\<bar> * \<bar>y1 - q1\<bar>"
      by (rule abs_mult)
    finally have "\<bar>q2 - x\<bar> = 100 * \<bar>y1 - q1\<bar>"
      by simp
    also have "\<dots> \<le> 100 * (q1 * u)" using e1 by simp
    finally show ?thesis by (simp add: x)
  qed
  have u: "0 < u" "u \<le> 1" by (simp_all add: u_def)
  have "q2 \<le> x + x * u" using d1 by linarith
  also have "\<dots> \<le> 2 * x" using u xpos by (simp add: mult_left_le)
  finally have "q2 * u \<le> 2 * x * u" using u by simp
  with e2 d1 have "\<bar>y2 - x\<bar> \<le> 3 * x * u" by linarith
  moreover have "3 * x * u < 1 / (2 * of_nat t)"
  proof -
    have "600 * c < 2 ^ 53"
    proof -
      have "600 * c < 600 * 2 ^ 32" using c by simp
      also have "\<dots> < (2::nat) ^ 53" by simp
      finally show ?thesis .
    qed
    then have "(of_nat (600 * c) :: rat) < of_nat (2 ^ 53)"
      by (simp only: of_nat_less_iff)
    then have "600 * (of_nat c :: rat) < 2 ^ 53" by simp
    then show ?thesis
      using t by (simp add: x_def u_def field_simps)
  qed
  ultimately show ?thesis
    by (simp add: y2_def q2_def y1_def q1_def)
qed

lemma floor_near_non_half:
  fixes c t :: nat and y :: rat
  assumes t: "0 < t" and nh: "\<not> (2 * t) dvd (200 * c + t)"
    and close: "\<bar>y - 100 * of_nat c / of_nat t\<bar> < 1 / (2 * of_nat t)"
  shows "\<lfloor>y + 1 / 2\<rfloor> = \<lfloor>100 * of_nat c / of_nat t + (1 / 2 :: rat)\<rfloor>"
proof -
  define x :: rat where "x = 100 * of_nat c / of_nat t"
  define M :: int where "M = 2 * int t"
  define N :: int where "N = 200 * int c + int t"
  define k where "k = N div M"
  define r where "r = N mod M"
  have M: "0 < M" using t by (simp add: M_def)
  have "\<not> M dvd N"
  proof
    assume "M dvd N"
    then have "int (2 * t) dvd int (200 * c + t)" by (simp add: M_def N_def)
    then have "(2 * t) dvd (200 * c + t)" by (simp only: int_dvd_int_iff)
    with nh show False by contradiction
  qed
  then have "r \<noteq> 0" by (simp add: r_def dvd_eq_mod_eq_0)
  moreover have "0 \<le> r" "r < M" using M by (simp_all add: r_def)
  ultimately have r: "1 \<le> r" "r \<le> M - 1" by linarith+
  have N: "N = M * k + r" by (simp add: k_def r_def)
  have Mr: "0 < (of_int M :: rat)" using M by simp
  have xh: "x + 1 / 2 = of_int N / of_int M"
    using t by (simp add: x_def N_def M_def field_simps)
  also have "\<dots> = of_int k + of_int r / of_int M"
    using Mr by (simp add: N field_simps)
  finally have xk: "x + 1 / 2 = of_int k + of_int r / of_int M" .
  have r1: "1 / of_int M \<le> (of_int r :: rat) / of_int M"
    using r(1) Mr by (simp add: divide_le_cancel)
  have "(of_int r :: rat) \<le> of_int M - 1"
    using r(2) by (metis of_int_1 of_int_diff of_int_le_iff)
  then have "(of_int r :: rat) / of_int M \<le> (of_int M - 1) / of_int M"
    using Mr by (simp add: divide_le_cancel)
  also have "\<dots> = 1 - 1 / of_int M"
    using Mr by (simp add: field_simps)
  finally have r2: "(of_int r :: rat) / of_int M \<le> 1 - 1 / of_int M" .
  have Mt: "(of_int M :: rat) = 2 * of_nat t" by (simp add: M_def)
  from close have cl: "\<bar>y - x\<bar> < 1 / of_int M" by (simp add: x_def Mt)
  have inv: "0 < 1 / (of_int M :: rat)" using Mr by simp
  have fx: "\<lfloor>x + 1 / 2\<rfloor> = k"
  proof (rule floor_unique)
    show "of_int k \<le> x + 1 / 2" using xk r1 inv by linarith
    show "x + 1 / 2 < of_int k + 1" using xk r2 inv by linarith
  qed
  have fy: "\<lfloor>y + 1 / 2\<rfloor> = k"
  proof (rule floor_unique)
    show "of_int k \<le> y + 1 / 2" using xk r1 cl by linarith
    show "y + 1 / 2 < of_int k + 1" using xk r2 cl by linarith
  qed
  show ?thesis using fx fy by (simp add: x_def)
qed

lemma completion_rate_finite: "completion_rate h c d \<noteq> NotFinite"
  by (simp add: completion_rate_def fdiv_def fmul_def Math_round_def Let_def)

lemma completion_rate_no_habits: "completion_rate 0 c d = Num 0"
  by (simp add: completion_rate_def)

lemma completion_rate_value:
  assumes "0 < h" "0 < d" "c < 2 ^ 32" "\<not> (2 * (h * d)) dvd (200 * c + h * d)"
  shows "completion_rate h c d =
           Num (of_int \<lfloor>100 * of_nat c / of_nat (h * d) + (1 / 2 :: rat)\<rfloor>)"
proof -
  have t: "0 < h * d" using assms by simp
  have "\<lfloor>to_double (to_double (of_nat c / of_nat (h * d)) * 100) + 1 / 2\<rfloor> =
        \<lfloor>100 * of_nat c / of_nat (h * d) + (1 / 2 :: rat)\<rfloor>"
  proof (cases "c = 0")
    case True
    then show ?thesis by simp
  next
    case False
    then have c0: "0 < c" by simp
    show ?thesis
      by (rule floor_near_non_half [OF t assms(4) double_rounding_close [OF t c0 assms(3)]])
  qed
  then show ?thesis
    using t by (simp add: completion_rate_def fdiv_def fmul_def Math_round_def Let_def)
qed

lemma days_of_cases: "days_of tr = 7 \<or> days_of tr = 30 \<or> days_of tr = 90"
  by (simp add: days_of_def)

lemma fetchAnalyticsData_rate:
  assumes "faults w = []"
  shows "completionRate (analyticsData (fst (fetchAnalyticsData (Some uid) v w))) =
     completion_rate (length (visible_habits uid uid (db w)))
       (length (select_completions_since uid (server_tz w) uid
          (local_day (client_tz w) (clock w) - int (days_of (timeRange v)), 0) (db w)))
       (days_of (timeRange v))"
  using assms
  by (simp add: fetchAnalyticsData_def call_def outcome_def next_fault_def logged_def
      data_length_def Let_def split_def)

lemma fetchAnalyticsData_rate_finite:
  "completionRate (analyticsData (fst (fetchAnalyticsData (Some uid) v w))) \<noteq> NotFinite"
  by (simp add: fetchAnalyticsData_def Let_def split_def completion_rate_finite)


subsection \<open>The completion rate\<close>

text \<open>
  C10, as the code has it. The completion rate that the analytics screen shows is always a
  finite number: the quotient is taken only when the user has an active habit, so no division
  by zero reaches it. When no request fails it is \<open>completion_rate\<close> of the numbers of active
  habits and of completions fetched and of the days of the range. Without an active habit
  the rate is exactly 0. With at least one, and fewer than \<open>2\<^sup>3\<^sup>2\<close> completions, it equals
  \<open>100 \<times> completions / (habits \<times> days)\<close> rounded to the nearest integer whenever that
  value is not exactly halfway between two integers; at such a tie the theorem promises no
  direction.
\<close>

theorem completion_rate_guarded:
  "completionRate (analyticsData (fst (fetchAnalyticsData (Some uid) v w))) \<noteq> NotFinite \<and>
   (faults w = [] \<longrightarrow>
      completionRate (analyticsData (fst (fetchAnalyticsData (Some uid) v w))) =
        completion_rate (length (visible_habits uid uid (db w)))
          (length (select_completions_since uid (server_tz w) uid
             (local_day (client_tz w) (clock w) - int (days_of (timeRange v)), 0) (db w)))
          (days_of (timeRange v))) \<and>
   completion_rate 0 c d = Num 0 \<and>
   (0 < h \<and> 0 < d \<and> c < 2 ^ 32 \<and> \<not> (2 * (h * d)) dvd (200 * c + h * d) \<longrightarrow>
      completion_rate h c d =
        Num (of_int \<lfloor>100 * of_nat c / of_nat (h * d) + (1 / 2 :: rat)\<rfloor>))"
  apply (intro conjI)
  subgoal by (rule fetchAnalyticsData_rate_finite)
  subgoal by (rule impI) (rule fetchAnalyticsData_rate)
  subgoal by (rule completion_rate_no_habits)
  subgoal by (rule impI, (erule conjE)+, rule completion_rate_value; assumption)
  done

theorem completion_rate_guarded_witness:
  "faults world0 = [] \<and>
   (0::nat) < 4 \<and> (0::nat) < 30 \<and> (68::nat) < 2 ^ 32 \<and> \<not> (2 * (4 * 30)) dvd (200 * 68 + 4 * (30::nat)) \<and>
   completionRate (analyticsData (fst (fetchAnalyticsData (Some 1) initial_Analytics world0))) \<noteq> NotFinite \<and>
   completionRate (analyticsData (fst (fetchAnalyticsData (Some 1) initial_Analytics world0))) =
     completion_rate (length (visible_habits 1 1 (db world0)))
       (length (select_completions_since 1 (server_tz world0) 1
          (local_day (client_tz world0) (clock world0) - int (days_of (timeRange initial_Analytics)), 0)
          (db world0)))
       (days_of (timeRange initial_Analytics)) \<and>
   completion_rate 0 68 30 = Num 0 \<and>
   completion_rate 4 68 30 = Num (of_int \<lfloor>100 * of_nat 68 / of_nat (4 * 30) + (1 / 2 :: rat)\<rfloor>)"
proof -
  have a: "faults world0 = []" by (simp add: world0_def)
  have b: "(0::nat) < 4" "(0::nat) < 30" "(68::nat) < 2 ^ 32"
    "\<not> (2 * (4 * 30)) dvd (200 * 68 + 4 * (30::nat))"
    by simp_all
  from completion_rate_guarded [of 1 initial_Analytics world0 68 30 4] a b
  show ?thesis by blast
qed

text \<open>
  C10 as stated fails at a tie: 69 completions of 4 habits over 30 days are 57.5 percent,
  which rounds to 58, and the rate computed is 57, since the double nearest to \<open>69 / 120\<close>
  times 100 is a double below 57.5.
\<close>

theorem completion_rate_tie_counterexample:
  "completion_rate 4 69 30 = Num 57 \<and>
   \<lfloor>100 * of_nat 69 / of_nat (4 * 30) + (1 / 2 :: rat)\<rfloor> = 58"
  by code_simp

subsection \<open>More on the mood entry of today\<close>

text \<open>
  A submission whose check finds the entry of today adds no row, whether its update succeeds
  or not: the user's rows fall on the same days as before.
\<close>

lemma update_mood_days:
  assumes "update_mood auth i r rf d = Inr ((), d')"
  shows "mood_days tz uid d' = mood_days tz uid d"
proof -
  define g :: "mood_row \<Rightarrow> mood_row" where
    "g = (\<lambda>m. if m_id m = i \<and> m_user_id m = auth
               then m\<lparr> m_mood_rating := r, m_reflection := rf \<rparr> else m)"
  from assms have d': "mood_entries d' = map g (mood_entries d)"
    by (auto simp: update_mood_def g_def split: if_splits)
  have u: "m_user_id (g m) = m_user_id m" and c: "m_created_at (g m) = m_created_at m" for m
    by (simp_all add: g_def)
  show ?thesis
    by (simp add: mood_days_def d' filter_map o_def u c)
qed

lemma submit_found_adds_no_row:
  assumes "todayMood v = Some mood"
    and "outcome (find_today_entry uid (server_tz w) (local_day (client_tz w) (clock w))) w = Inr (i, d0)"
  shows "mood_days tz u (db (snd (submitMoodEntry (Some uid) v w))) = mood_days tz u (db w)"
proof (cases "outcome (update_mood uid i mood (or_null (trim (reflection v))))
           (logged (SelectMoodBetweenSingle uid (local_day (client_tz w) (clock w), hms 0 0 0)
                      (local_day (client_tz w) (clock w), hms 23 59 59)) w)")
  case (Inl e)
  show ?thesis
    by (simp add: submitMoodEntry_update_fail [OF assms Inl])
next
  case (Inr x)
  obtain d where x: "x = ((), d)" by (cases x) auto
  from Inr x have "update_mood uid i mood (or_null (trim (reflection v))) (db w) = Inr ((), d)"
    using outcome_Inr by fastforce
  then have "mood_days tz u d = mood_days tz u (db w)" by (rule update_mood_days)
  then show ?thesis
    using Inr x by (simp add: submitMoodEntry_update_ok [OF assms])
qed


text \<open>
  The window is also read in the backend's zone. With the client five and a half hours east
  of a backend on UTC, a mood submitted at 01:00 local time is stored on the backend's
  previous day, outside the window of the client's date, so a second submission at 02:00
  inserts again: two rows on the client's day 1.
\<close>

lemma mood_submitted_twice_across_zones:
  "mood_days 19800000 1
     (db (snd (submitMoodEntry (Some 1) mood_view
        (at_clock 73800000
           (snd (submitMoodEntry (Some 1) mood_view
              (at_clock 70200000 (world0\<lparr> client_tz := 19800000 \<rparr>)))))))) = [1, 1]"
  by (simp add: mood_days_def submitMoodEntry_def mood_view_def at_clock_def world0_def empty_db_def
      call_def outcome_def next_fault_def logged_def find_today_entry_def single_def
      select_mood_between_def zoneless_instant_def pg_timestamp_def hms_def local_day_def
      ms_per_day_def insert_mood_def update_mood_def mood_rating_ok_def fetchMoodEntries_def
      select_mood_entries_def order_desc_def toast_success_def Let_def split_def
      or_null_def trim_def js_def js_whitespace_def)

text \<open>
  The check for an entry of today can also fail on the network. The submission then inserts
  although the user has an entry of today, and reports success: here user 1, whose entry of
  day 0 was stored at noon, ends with two rows for that day.
\<close>

lemma mood_doubled_after_failed_check:
  "mood_days 0 1 (db mood_world) = [0] \<and>
   mood_days 0 1 (db (snd (submitMoodEntry (Some 1) listed_moods (offline mood_world)))) = [0, 0] \<and>
   toasts (snd (submitMoodEntry (Some 1) listed_moods (offline mood_world))) =
     [ToastSuccess (js ''Mood recorded successfully! '' @ blue_heart)]"
  by (simp add: eval_defs3 mood_days_def)

end
